(* ===== verification/Prelude.thy ===== *)
theory Prelude
  imports Main
    "HOL-Library.AList_Mapping"
    "HOL-Library.List_Lexorder"
    "HOL-Library.Char_ord"
    "HOL-Library.Multiset"
    "HOL-Library.Word"
begin

text \<open>
  Shared vocabulary of the development: the model's byte type, the Go standard
  library functions the handlers call (\<open>strings.Split\<close>, \<open>strings.Join\<close>,
  \<open>strings.Contains\<close>, \<open>fmt.Sprint\<close> of an integer, \<open>strconv.Atoi\<close>,
  \<open>url.Values.Get\<close>) written as executable functions, and the lemmas on them that
  the component theories share. The collection \<open>go_simps\<close> gathers the
  evaluation equations of these helpers so that witnesses unfold them by \<open>simp\<close>.
\<close>

named_theorems go_simps "evaluation equations of the Go library helpers"
named_theorems store_simps "lookup/update equations of the registry stores"

type_synonym bytes = "8 word list"

subsection \<open>Go maps as \<open>Mapping\<close>\<close>

lemma mapping_in_keys_iff: "k \<in> Mapping.keys m \<longleftrightarrow> Mapping.lookup m k \<noteq> None"
  by (simp add: keys_dom_lookup domIff)

lemma mapping_lookup_delete': "Mapping.lookup (Mapping.delete k m) k' = (if k = k' then None else Mapping.lookup m k')"
  by simp

text \<open>An association list whose values are distinct is injective as a lookup table.\<close>

lemma map_of_distinct_snd_inj:
  "distinct (map snd xs) \<Longrightarrow> map_of xs k1 = Some v \<Longrightarrow> map_of xs k2 = Some v \<Longrightarrow> k1 = k2"
  by (induction xs) (auto split: if_splits dest!: map_of_SomeD intro: rev_image_eqI)

lemma mapping_delete_update_fresh:
  "Mapping.lookup m k = None \<Longrightarrow> Mapping.delete k (Mapping.update k v m) = m"
  by (rule mapping_eqI) (auto simp: mapping_lookup_delete' lookup_update')

lemma mapping_update_same: "Mapping.lookup m k = Some v \<Longrightarrow> Mapping.update k v m = m"
  by (rule mapping_eqI) (auto simp: lookup_update')

lemma mapping_update_update: "Mapping.update k v (Mapping.update k w m) = Mapping.update k v m"
  by (rule mapping_eqI) (simp add: lookup_update')

subsection \<open>\<open>strings.Split\<close> and \<open>strings.Join\<close> with a one-character separator\<close>

text \<open>
  \<open>strings.Split s "/"\<close> returns the maximal pieces between separators: one more piece
  than there are separators, so \<open>Split "" "/" = [""]\<close>.
\<close>

fun split_on :: "char \<Rightarrow> string \<Rightarrow> string list" where
  "split_on c [] = [[]]"
| "split_on c (x # xs) =
     (let r = split_on c xs in if x = c then [] # r else (x # hd r) # tl r)"

fun join_with :: "char \<Rightarrow> string list \<Rightarrow> string" where
  "join_with c [] = []"
| "join_with c [w] = w"
| "join_with c (w # ws) = w @ c # join_with c ws"

lemma split_on_not_Nil [simp]: "split_on c s \<noteq> []"
  by (induction s) (auto simp: Let_def)

lemma split_on_length_ge1 [simp]: "Suc 0 \<le> length (split_on c s)"
  using split_on_not_Nil [of c s] by (cases "split_on c s") auto

lemma length_split_on: "length (split_on c s) = Suc (count_list s c)"
  by (induction s) (auto simp: Let_def)

lemma join_with_Cons: "ws \<noteq> [] \<Longrightarrow> join_with c (w # ws) = w @ c # join_with c ws"
  by (cases ws) auto

lemma join_split_on [simp]: "join_with c (split_on c s) = s"
proof (induction s)
  case Nil
  then show ?case by simp
next
  case (Cons x xs)
  obtain w ws where r: "split_on c xs = w # ws"
    using split_on_not_Nil by (cases "split_on c xs") auto
  show ?case
  proof (cases "x = c")
    case True
    with Cons r show ?thesis by (simp add: join_with_Cons)
  next
    case False
    with Cons r show ?thesis by (cases ws) auto
  qed
qed

lemma split_on_no_sep: "c \<notin> set w \<Longrightarrow> split_on c w = [w]"
  by (induction w) (auto simp: Let_def)

lemma split_on_append_sep:
  "c \<notin> set w \<Longrightarrow> split_on c (w @ c # s) = w # split_on c s"
  by (induction w) (auto simp: Let_def)

lemma split_join_with:
  "ws \<noteq> [] \<Longrightarrow> \<forall>w \<in> set ws. c \<notin> set w \<Longrightarrow> split_on c (join_with c ws) = ws"
proof (induction ws rule: join_with.induct)
  case (3 c w v vs)
  then show ?case by (simp add: split_on_append_sep)
qed (auto simp: split_on_no_sep)

lemma split_on_case:
  "(case split_on c s of [] \<Rightarrow> a | y # ys \<Rightarrow> f y ys) = f (hd (split_on c s)) (tl (split_on c s))"
  by (cases "split_on c s") simp_all

lemma last_split_on_append: "c \<notin> set y \<Longrightarrow> last (split_on c (x @ c # y)) = y"
proof (induction x)
  case Nil
  then show ?case by (simp add: split_on_no_sep Let_def)
next
  case (Cons a x)
  let ?r = "split_on c (x @ c # y)"
  have "length ?r = Suc (count_list (x @ c # y) c)" by (rule length_split_on)
  then have tl: "tl ?r \<noteq> []" by (cases ?r) auto
  then have "last (tl ?r) = last ?r" by (cases ?r) auto
  with tl Cons show ?case by (simp add: Let_def)
qed

subsection \<open>\<open>strings.Contains\<close>\<close>

fun starts_with :: "string \<Rightarrow> string \<Rightarrow> bool" where
  "starts_with s [] = True"
| "starts_with [] (p # ps) = False"
| "starts_with (x # xs) (p # ps) = (x = p \<and> starts_with xs ps)"

fun contains :: "string \<Rightarrow> string \<Rightarrow> bool" where
  "contains [] sub = (sub = [])"
| "contains (x # xs) sub = (starts_with (x # xs) sub \<or> contains xs sub)"

lemma starts_with_append [simp]: "starts_with (p @ s) p"
  by (induction p) auto

lemma starts_with_iff: "starts_with s p \<longleftrightarrow> (\<exists>r. s = p @ r)"
  by (induction s p rule: starts_with.induct) auto

lemma contains_iff: "contains s sub \<longleftrightarrow> (\<exists>a b. s = a @ sub @ b)"
proof (induction s)
  case Nil
  then show ?case by simp
next
  case (Cons x xs)
  show ?case
  proof
    assume "contains (x # xs) sub"
    then consider "starts_with (x # xs) sub" | "contains xs sub" by auto
    then show "\<exists>a b. x # xs = a @ sub @ b"
    proof cases
      case 1
      then show ?thesis by (auto simp: starts_with_iff intro: exI [of _ "[]"])
    next
      case 2
      with Cons.IH obtain a b where "xs = a @ sub @ b" by blast
      then have "x # xs = (x # a) @ sub @ b" by simp
      then show ?thesis by blast
    qed
  next
    assume "\<exists>a b. x # xs = a @ sub @ b"
    then obtain a b where ab: "x # xs = a @ sub @ b" by blast
    show "contains (x # xs) sub"
    proof (cases a)
      case Nil
      with ab have "starts_with (x # xs) sub" by (auto simp: starts_with_iff)
      then show ?thesis by simp
    next
      case (Cons y a')
      with ab Cons.IH show ?thesis by auto
    qed
  qed
qed

lemma contains_prefix [simp]: "contains (p @ s) p"
  by (auto simp: contains_iff intro: exI [of _ "[]"])

subsection \<open>Decimal numerals: \<open>fmt.Sprint\<close> and \<open>strconv.Atoi\<close>\<close>

definition digit_char :: "nat \<Rightarrow> char" where
  "digit_char d = char_of (48 + d)"

definition is_digit :: "char \<Rightarrow> bool" where
  "is_digit ch \<longleftrightarrow> CHR ''0'' \<le> ch \<and> ch \<le> CHR ''9''"

definition digit_val :: "char \<Rightarrow> nat" where
  "digit_val ch = of_char ch - 48"

fun nat_to_dec :: "nat \<Rightarrow> string" where
  "nat_to_dec n = (if n < 10 then [digit_char n] else nat_to_dec (n div 10) @ [digit_char (n mod 10)])"

declare nat_to_dec.simps [simp del]

definition int_to_dec :: "int \<Rightarrow> string" where
  "int_to_dec i = (if i < 0 then CHR ''-'' # nat_to_dec (nat (- i)) else nat_to_dec (nat i))"

definition dec_value :: "string \<Rightarrow> nat" where
  "dec_value ds = foldl (\<lambda>n ch. 10 * n + digit_val ch) 0 ds"

text \<open>
  \<open>strconv.Atoi\<close> on a 64-bit platform: an optional sign, then at least one decimal
  digit. A syntax error returns \<open>(0, err)\<close>; a value outside \<open>int64\<close> returns the
  nearest bound together with a range error. The pair is the value and the error,
  \<open>None\<close> for \<open>nil\<close>.
\<close>

definition int64_min :: int where "int64_min = - (2 ^ 63)"
definition int64_max :: int where "int64_max = 2 ^ 63 - 1"

datatype num_error = ErrSyntax | ErrRange

definition go_atoi :: "string \<Rightarrow> int \<times> num_error option" where
  "go_atoi s =
     (let (neg, ds) = (case s of
                         ch # r \<Rightarrow> if ch = CHR ''-'' then (True, r)
                                  else if ch = CHR ''+'' then (False, r) else (False, s)
                       | [] \<Rightarrow> (False, []))
      in if ds = [] \<or> \<not> list_all is_digit ds then (0, Some ErrSyntax)
         else let v = (if neg then - int (dec_value ds) else int (dec_value ds))
              in if int64_max < v then (int64_max, Some ErrRange)
                 else if v < int64_min then (int64_min, Some ErrRange)
                 else (v, None))"

lemma digit_char_is_digit: "d < 10 \<Longrightarrow> is_digit (digit_char d)"
  by (auto simp: is_digit_def digit_char_def less_eq_char_def)

lemma digit_val_digit_char [simp]: "d < 10 \<Longrightarrow> digit_val (digit_char d) = d"
  by (simp add: digit_val_def digit_char_def)

lemma nat_to_dec_digits: "list_all is_digit (nat_to_dec n)"
proof (induction n rule: nat_to_dec.induct)
  case (1 n)
  then show ?case
    by (subst nat_to_dec.simps) (auto simp: digit_char_is_digit)
qed

lemma nat_to_dec_not_Nil [simp]: "nat_to_dec n \<noteq> []"
  by (subst nat_to_dec.simps) simp

lemma dec_value_snoc: "dec_value (ds @ [ch]) = 10 * dec_value ds + digit_val ch"
  by (simp add: dec_value_def)

lemma dec_value_nat_to_dec [simp]: "dec_value (nat_to_dec n) = n"
proof (induction n rule: nat_to_dec.induct)
  case (1 n)
  show ?case
  proof (cases "n < 10")
    case True
    then show ?thesis by (subst nat_to_dec.simps) (simp add: dec_value_def)
  next
    case False
    with "1.IH" show ?thesis
      by (subst nat_to_dec.simps) (simp add: dec_value_snoc)
  qed
qed

lemma nat_to_dec_head: "hd (nat_to_dec n) \<noteq> CHR ''-'' \<and> hd (nat_to_dec n) \<noteq> CHR ''+''"
proof -
  have "list_all is_digit (nat_to_dec n)" by (rule nat_to_dec_digits)
  then have "is_digit (hd (nat_to_dec n))"
    by (cases "nat_to_dec n") auto
  then show ?thesis by (auto simp: is_digit_def)
qed

lemma go_atoi_nat_to_dec:
  assumes "n \<le> nat int64_max"
  shows "go_atoi (nat_to_dec n) = (int n, None)"
proof -
  obtain ch r where nr: "nat_to_dec n = ch # r"
    by (cases "nat_to_dec n") auto
  have "ch \<noteq> CHR ''-'' \<and> ch \<noteq> CHR ''+''"
    using nat_to_dec_head [of n] nr by simp
  moreover have "int n \<le> int64_max" and "int64_min \<le> int n"
    using assms by (auto simp: int64_max_def int64_min_def)
  ultimately show ?thesis
    using nat_to_dec_digits [of n] dec_value_nat_to_dec [of n] nr
    by (simp add: go_atoi_def)
qed

text \<open>Printing an \<open>int64\<close> and reading it back with \<open>strconv.Atoi\<close> is the identity.\<close>

lemma go_atoi_int_to_dec:
  assumes "int64_min \<le> i" and "i \<le> int64_max"
  shows "go_atoi (int_to_dec i) = (i, None)"
proof (cases "i < 0")
  case True
  have "list_all is_digit (nat_to_dec (nat (- i)))" by (rule nat_to_dec_digits)
  with True assms show ?thesis
    by (simp add: go_atoi_def int_to_dec_def int64_max_def int64_min_def)
next
  case False
  with assms have "nat i \<le> nat int64_max" by simp
  with False show ?thesis by (simp add: int_to_dec_def go_atoi_nat_to_dec)
qed

text \<open>Hence printing is injective on \<open>int64\<close>.\<close>

lemma int_to_dec_inj:
  assumes "int64_min \<le> a" "a \<le> int64_max" "int64_min \<le> b" "b \<le> int64_max"
    and "int_to_dec a = int_to_dec b"
  shows "a = b"
proof -
  have "(a, None) = go_atoi (int_to_dec a)" using assms(1,2) by (rule go_atoi_int_to_dec [symmetric])
  also have "\<dots> = go_atoi (int_to_dec b)" using assms(5) by (rule arg_cong)
  also have "\<dots> = (b, None)" using assms(3,4) by (rule go_atoi_int_to_dec)
  finally show ?thesis by simp
qed

lemma digit_chars [simp, go_simps]:
  "digit_char 0 = CHR ''0''" "digit_char 1 = CHR ''1''" "digit_char 2 = CHR ''2''" "digit_char 3 = CHR ''3''"
  "digit_char 4 = CHR ''4''" "digit_char 5 = CHR ''5''" "digit_char 6 = CHR ''6''" "digit_char 7 = CHR ''7''"
  "digit_char 8 = CHR ''8''" "digit_char 9 = CHR ''9''" "digit_char (Suc 0) = CHR ''1''"
  by code_simp+

lemma nat_to_dec_no_nondigit: "\<not> is_digit c \<Longrightarrow> c \<notin> set (nat_to_dec n)"
  using nat_to_dec_digits [of n] by (auto simp: list_all_iff)

lemma nat_to_dec_seps [simp]:
  "CHR ''-'' \<notin> set (nat_to_dec n)" "CHR ''/'' \<notin> set (nat_to_dec n)"
  by (simp_all add: nat_to_dec_no_nondigit is_digit_def less_eq_char_def)

lemma int_to_dec_nonneg: "0 \<le> i \<Longrightarrow> int_to_dec i = nat_to_dec (nat i)"
  by (simp add: int_to_dec_def)

lemma go_atoi_nat_int64: "int n \<le> int64_max \<Longrightarrow> go_atoi (nat_to_dec n) = (int n, None)"
  by (rule go_atoi_nat_to_dec) (simp add: int64_max_def)

lemma split_dec_dash:
  "split_on CHR ''-'' (nat_to_dec a @ CHR ''-'' # s) = nat_to_dec a # split_on CHR ''-'' s"
  by (simp add: split_on_append_sep)

lemma split_dec_only: "split_on CHR ''-'' (nat_to_dec b) = [nat_to_dec b]"
  by (simp add: split_on_no_sep)

lemma nat_to_dec_inj: "nat_to_dec a = nat_to_dec b \<Longrightarrow> a = b"
  by (metis dec_value_nat_to_dec)

lemma nat_to_dec_zero: "nat_to_dec 0 = ''0''"
  by (simp add: nat_to_dec.simps)

subsection \<open>Go's fixed-width integers\<close>

text \<open>
  \<open>int32\<close> and \<open>int64\<close> as machine words: \<open>+\<close> wraps as Go's does, \<open>sint\<close> reads
  the two's-complement value.
\<close>

type_synonym int32 = "32 word"
type_synonym int64 = "64 word"

lemma sint_inj: "sint (a :: 'a::len word) = sint b \<Longrightarrow> a = b"
  by (metis scast_eq scast_id)

lemma sint_of_nat_small:
  "k < 2 ^ (LENGTH('a) - 1) \<Longrightarrow> sint (word_of_nat k :: 'a::len word) = int k"
proof -
  assume k: "k < 2 ^ (LENGTH('a) - 1)"
  have "(word_of_nat k :: 'a word) = word_of_int (int k)" by simp
  moreover have "signed_take_bit (LENGTH('a) - 1) (int k) = int k"
  proof (rule signed_take_bit_int_eq_self)
    show "- (2 ^ (LENGTH('a) - 1)) \<le> int k" by (rule order_trans [of _ 0]) simp_all
    show "int k < 2 ^ (LENGTH('a) - 1)" using k by (metis of_nat_less_iff of_nat_numeral of_nat_power)
  qed
  ultimately show ?thesis by (simp only: sint_sbintrunc')
qed

lemma sint_of_nat_wrapped:
  assumes "2 ^ 31 \<le> m" and "m < 2 ^ 32"
  shows "sint (word_of_nat m :: int32) = int m - 2 ^ 32"
proof -
  have u: "uint (word_of_nat m :: int32) = int m"
    using assms(2) by (simp add: uint_nat unat_of_nat take_bit_nat_eq_self)
  have "signed_take_bit 31 (int m) = take_bit 32 (int m + 2 ^ 31) - 2 ^ 31"
    by (simp add: signed_take_bit_eq_take_bit_shift)
  also have "take_bit 32 (int m + 2 ^ 31) = int m + 2 ^ 31 - 2 ^ 32"
  proof -
    have "2 ^ 32 \<le> int m + 2 ^ 31" "int m + 2 ^ 31 < 2 * 2 ^ 32" using assms by simp_all
    then have "(int m + 2 ^ 31 - 2 ^ 32) mod 2 ^ 32 = int m + 2 ^ 31 - 2 ^ 32"
      by (intro mod_pos_pos_trivial) simp_all
    moreover have "(int m + 2 ^ 31 - 2 ^ 32) mod 2 ^ 32 = (int m + 2 ^ 31) mod (2 ^ 32 :: int)"
      by (metis diff_add_cancel mod_add_self2)
    ultimately show ?thesis by (simp add: take_bit_eq_mod)
  qed
  finally show ?thesis by (simp add: sint_uint u)
qed

lemma sint32_int64_range: "int64_min \<le> sint (w :: int32) \<and> sint w \<le> int64_max"
  using sint_ge [of w] sint_lt [of w] by (simp add: int64_min_def int64_max_def)

lemma sint64_range: "int64_min \<le> sint (w :: int64) \<and> sint w \<le> int64_max"
  using sint_ge [of w] sint_lt [of w] by (simp add: int64_min_def int64_max_def)

lemma sint_minus_one: "0 < sint (w :: int64) \<Longrightarrow> sint (w - 1) = sint w - 1"
proof -
  assume pos: "0 < sint w"
  have "sint (w - 1) = signed_take_bit 63 (sint w - sint (1 :: int64))"
    by (simp only: sint_word_diff) simp
  moreover have "sint (1 :: int64) = 1" by simp
  ultimately show ?thesis
    using sint_ge [of w] sint_lt [of w] pos
    by (simp add: signed_take_bit_int_eq_self)
qed

subsection \<open>\<open>fmt\<close>'s \<open>%q\<close> on ASCII strings\<close>

text \<open>
  \<open>strconv.Quote\<close> as \<open>%q\<close> applies it: the string between double quotes, with
  \<open>"\<close> and backslash escaped, the named control escapes, and \<open>\\xHH\<close> for the
  other non-printable bytes. Bytes above 127 (UTF-8 sequences) are outside this
  model: the strings quoted by the handlers are digests.
\<close>

definition hex_nibble :: "nat \<Rightarrow> char" where
  "hex_nibble d = (if d < 10 then char_of (48 + d) else char_of (87 + d))"

definition go_escape_char :: "char \<Rightarrow> string" where
  "go_escape_char ch =
     (let n = (of_char ch :: nat) in
      if n = 34 \<or> n = 92 then [CHR 0x5C, ch]
      else if 32 \<le> n \<and> n < 127 then [ch]
      else if n = 7 then [CHR 0x5C, CHR ''a''] else if n = 8 then [CHR 0x5C, CHR ''b'']
      else if n = 12 then [CHR 0x5C, CHR ''f''] else if n = 10 then [CHR 0x5C, CHR ''n'']
      else if n = 13 then [CHR 0x5C, CHR ''r''] else if n = 9 then [CHR 0x5C, CHR ''t'']
      else if n = 11 then [CHR 0x5C, CHR ''v'']
      else [CHR 0x5C, CHR ''x'', hex_nibble (n div 16), hex_nibble (n mod 16)])"

definition go_quote :: "string \<Rightarrow> string" where
  "go_quote s = CHR 0x22 # concat (map go_escape_char s) @ [CHR 0x22]"

subsection \<open>\<open>url.Values.Get\<close>\<close>

text \<open>
  A query string is the list of its key/value pairs in order; \<open>Get\<close> returns the first
  value given for the key and \<open>""\<close> when there is none.
\<close>

type_synonym query = "(string \<times> string) list"

definition query_get :: "query \<Rightarrow> string \<Rightarrow> string" where
  "query_get q k = (case map_of q k of None \<Rightarrow> [] | Some v \<Rightarrow> v)"

lemma query_get_Nil [simp]: "query_get [] k = []"
  by (simp add: query_get_def)

lemma query_get_Cons [simp]:
  "query_get ((k', v) # q) k = (if k' = k then v else query_get q k)"
  by (simp add: query_get_def)

declare digit_char_def [go_simps] is_digit_def [go_simps] digit_val_def [go_simps]
  int_to_dec_def [go_simps] dec_value_def [go_simps] go_atoi_def [go_simps]
  int64_max_def [go_simps] int64_min_def [go_simps]
  hex_nibble_def [go_simps] go_escape_char_def [go_simps] go_quote_def [go_simps]

end
