(* ===== verification/Digest.thy ===== *)
theory Digest
  imports Prelude
begin

text \<open>
  Digests as the handlers of \<^verbatim>\<open>src/manifest.go\<close> see them, through the
  \<open>hasher\<close> package they import (not part of \<^verbatim>\<open>src/\<close>, modelled from the
  specification's \<open>alg:hex\<close> grammar): a hash is an algorithm and a hex string,
  printed as \<open>alg:hex\<close>; \<open>NewHash\<close> parses such a string, accepting only the
  \<open>sha256\<close> algorithm with exactly 64 lower-case hex digits. The SHA-256 function
  itself is a parameter of the model (see \<open>Http.codec\<close>). The theory proves that
  parsing and printing are inverse on valid digests.
\<close>

record hash =
  h_algorithm :: string
  h_hex :: string

definition hash_string :: "hash \<Rightarrow> string" where
  "hash_string h = h_algorithm h @ CHR '':'' # h_hex h"

definition hex_lower :: string where
  "hex_lower = ''0123456789abcdef''"

definition is_hex_lower :: "string \<Rightarrow> bool" where
  "is_hex_lower s \<longleftrightarrow> list_all (\<lambda>ch. ch \<in> set hex_lower) s"

definition valid_hash :: "hash \<Rightarrow> bool" where
  "valid_hash h \<longleftrightarrow> h_algorithm h = ''sha256'' \<and> is_hex_lower (h_hex h) \<and> length (h_hex h) = 64"

definition new_hash :: "string \<Rightarrow> hash option" where
  "new_hash s =
     (case split_on CHR '':'' s of
        [alg, hx] \<Rightarrow>
          if is_hex_lower hx \<and> alg = ''sha256'' \<and> length hx = 64
          then Some \<lparr>h_algorithm = alg, h_hex = hx\<rparr> else None
      | _ \<Rightarrow> None)"

definition sha256_hash :: "string \<Rightarrow> hash" where
  "sha256_hash hx = \<lparr>h_algorithm = ''sha256'', h_hex = hx\<rparr>"

lemma colon_not_hex_lower: "CHR '':'' \<notin> set hex_lower"
  by (simp add: hex_lower_def)

lemma colon_not_hex: "is_hex_lower s \<Longrightarrow> CHR '':'' \<notin> set s"
  using colon_not_hex_lower by (auto simp: is_hex_lower_def list_all_iff)

lemma new_hash_Some_valid: "new_hash s = Some h \<Longrightarrow> valid_hash h"
  by (auto simp: new_hash_def valid_hash_def split: list.splits if_splits)

text \<open>Parse then print: a string that parses prints back to itself.\<close>

lemma new_hash_string: "new_hash s = Some h \<Longrightarrow> hash_string h = s"
proof -
  assume p: "new_hash s = Some h"
  then obtain alg hx where sp: "split_on CHR '':'' s = [alg, hx]"
    and h: "h = \<lparr>h_algorithm = alg, h_hex = hx\<rparr>"
    by (auto simp: new_hash_def split: list.splits if_splits)
  have "s = join_with CHR '':'' (split_on CHR '':'' s)" by simp
  also have "\<dots> = alg @ CHR '':'' # hx" by (simp add: sp)
  finally show ?thesis by (simp add: h hash_string_def)
qed

text \<open>Print then parse: a valid hash is recovered from its printed form.\<close>

lemma string_new_hash: "valid_hash h \<Longrightarrow> new_hash (hash_string h) = Some h"
proof -
  assume v: "valid_hash h"
  then have alg: "h_algorithm h = ''sha256''" and hx: "is_hex_lower (h_hex h)"
    and len: "length (h_hex h) = 64"
    by (auto simp: valid_hash_def)
  have "split_on CHR '':'' (hash_string h) = [h_algorithm h, h_hex h]"
    using alg colon_not_hex [OF hx]
    by (simp add: hash_string_def split_on_append_sep split_on_no_sep)
  with alg hx len show ?thesis by (simp add: new_hash_def)
qed

lemma new_hash_sha256:
  "is_hex_lower hx \<Longrightarrow> length hx = 64 \<Longrightarrow> new_hash (hash_string (sha256_hash hx)) = Some (sha256_hash hx)"
  by (rule string_new_hash) (simp add: valid_hash_def sha256_hash_def)

lemma hash_string_sha256: "hash_string (sha256_hash hx) = ''sha256:'' @ hx"
  by (simp add: hash_string_def sha256_hash_def)

declare hash_string_def [go_simps] hex_lower_def [go_simps] is_hex_lower_def [go_simps]
  new_hash_def [go_simps] sha256_hash_def [go_simps]

end
