(* ===== verification/Http.thy ===== *)
theory Http
  imports Digest
begin

text \<open>
  The HTTP surface shared by the handlers of \<^verbatim>\<open>src/manifest.go\<close>: the part of an
  incoming request they read, the response they write (status, the headers they
  \<open>Set\<close>, the body), the \<open>regError\<close> value they return, and the descriptor and
  JSON documents they exchange (\<open>ocispec.Descriptor\<close>, \<open>listTags\<close>,
  \<open>catalog\<close>, \<open>ocispec.Index\<close>). The libraries the handlers only call
  (SHA-256 of \<open>hasher\<close>, \<open>encoding/json\<close>) form the record \<open>codec\<close>: every
  handler takes it as a parameter, so the theorems hold for any implementation of
  these libraries, or for any one that satisfies the stated hypothesis.
\<close>

record descriptor =
  d_media_type :: string
  d_size :: int
  d_digest :: string
  d_artifact_type :: string

text \<open>
  A Go slice that may be \<open>nil\<close> marshals to \<open>null\<close> when nil and to a JSON array
  otherwise; \<open>None\<close> is the nil slice.
\<close>

datatype json_value =
    JTagList string "string list option"
  | JCatalog "string list option"
  | JIndex "descriptor list"

datatype body = NoBody | RawBody bytes | JsonBody json_value

record response =
  resp_status :: nat
  resp_headers :: "(string \<times> string) list"
  resp_body :: body

record reg_error =
  err_status :: nat
  err_code :: string
  err_message :: string

text \<open>
  A handler returns a response, a \<open>regError\<close>, or panics (a Go runtime error such as
  a slice bound out of range, which \<open>net/http\<close> turns into a dropped connection).
\<close>

datatype handler_result = Done response | Failed reg_error | Panicked

record http_request =
  req_method :: string
  req_path :: string
  req_query :: query
  req_content_type :: string
  req_body :: bytes

record codec =
  sha256_hex :: "bytes \<Rightarrow> string"
  decode_index :: "bytes \<Rightarrow> string + descriptor list"
  decode_subject :: "bytes \<Rightarrow> descriptor option"
  decode_config_media_type :: "bytes \<Rightarrow> string"
  json_marshal :: "json_value \<Rightarrow> bytes"

text \<open>
  The digest string \<open>h.String()\<close> of \<open>hasher.SHA256\<close> over a body, and the
  hypothesis on the hash library that its hex output is a well-formed SHA-256 hex
  string.
\<close>

definition content_digest :: "codec \<Rightarrow> bytes \<Rightarrow> string" where
  "content_digest c b = hash_string (sha256_hash (sha256_hex c b))"

definition wf_codec :: "codec \<Rightarrow> bool" where
  "wf_codec c \<longleftrightarrow> (\<forall>b. is_hex_lower (sha256_hex c b) \<and> length (sha256_hex c b) = 64)"

lemma content_digest_parses:
  "wf_codec c \<Longrightarrow> new_hash (content_digest c b) = Some (sha256_hash (sha256_hex c b))"
  by (simp add: wf_codec_def content_digest_def new_hash_sha256)

lemma content_digest_prefix: "content_digest c b = ''sha256:'' @ sha256_hex c b"
  by (simp add: content_digest_def hash_string_sha256)

text \<open>
  An instance of the library interface for concrete examples: its digest hex writes
  the length of the content (up to 64) in unary over 64 digits, and it decodes no index
  or subject. The examples update its fields where they need a decoder.
\<close>

definition demo_codec :: codec where
  "demo_codec =
     \<lparr>sha256_hex = (\<lambda>b. replicate (64 - min 64 (length b)) CHR ''0'' @ replicate (min 64 (length b)) CHR ''1''),
      decode_index = (\<lambda>b. Inr []),
      decode_subject = (\<lambda>b. None),
      decode_config_media_type = (\<lambda>b. []),
      json_marshal = (\<lambda>v. [])\<rparr>"

lemma wf_demo_codec: "wf_codec demo_codec"
proof -
  have "CHR ''0'' \<in> set hex_lower" and "CHR ''1'' \<in> set hex_lower"
    by (simp_all add: hex_lower_def)
  then show ?thesis
    by (auto simp add: wf_codec_def demo_codec_def is_hex_lower_def list_all_iff
        dest: in_set_replicate [THEN iffD1])
qed

text \<open>The error values the handlers build, status first.\<close>

definition err_name_unknown :: reg_error where
  "err_name_unknown = \<lparr>err_status = 404, err_code = ''NAME_UNKNOWN'', err_message = ''Unknown name''\<rparr>"

definition err_manifest_unknown :: reg_error where
  "err_manifest_unknown =
     \<lparr>err_status = 404, err_code = ''MANIFEST_UNKNOWN'', err_message = ''Unknown manifest''\<rparr>"

definition err_method_unknown :: reg_error where
  "err_method_unknown =
     \<lparr>err_status = 400, err_code = ''METHOD_UNKNOWN'',
      err_message = ''We don't understand your method + url''\<rparr>"

lemmas reg_error_defs = err_name_unknown_def err_manifest_unknown_def err_method_unknown_def

lemma reg_errors_distinct [simp]:
  "err_name_unknown \<noteq> err_manifest_unknown"
  "err_manifest_unknown \<noteq> err_name_unknown"
  "err_method_unknown \<noteq> err_name_unknown"
  "err_method_unknown \<noteq> err_manifest_unknown"
  by (simp_all add: reg_error_defs)

text \<open>A JSON reply: \<open>json.Marshal\<close>, \<open>Content-Length\<close>, status 200, the document.\<close>

definition json_response :: "codec \<Rightarrow> json_value \<Rightarrow> response" where
  "json_response c v =
     \<lparr>resp_status = 200,
      resp_headers = [(''Content-Length'', nat_to_dec (length (json_marshal c v)))],
      resp_body = JsonBody v\<rparr>"

lemma json_response_body [simp]: "resp_body (json_response c v) = JsonBody v"
  by (simp add: json_response_def)

lemma json_response_status [simp]: "resp_status (json_response c v) = 200"
  by (simp add: json_response_def)

end
