(* ===== verification/Routes.thy ===== *)
theory Routes
  imports Http
begin

text \<open>
  Request classification of \<^verbatim>\<open>src/manifest.go\<close> (\<open>isManifest\<close>, \<open>isTags\<close>,
  \<open>isCatalog\<close>, \<open>isReferrers\<close>) and the path slicing every handler repeats:
  \<open>elem := strings.Split(req.URL.Path, "/")[1:]\<close>, the target
  \<open>elem[len(elem)-1]\<close> and the repository \<open>strings.Join(elem[1:len(elem)-2], "/")\<close>.
  The classifiers look only at the number of path elements and at the last or
  second-to-last one. The paths a client builds (\<open>/v2/<repo>/manifests/<ref>\<close> and
  the other templates of the specification's wire table) are modelled from the
  specification and shown to classify and slice back to their repository and
  reference.
\<close>

definition path_elems :: "string \<Rightarrow> string list" where
  "path_elems p = tl (split_on CHR ''/'' p)"

definition is_manifest :: "http_request \<Rightarrow> bool" where
  "is_manifest req =
     (let elems = path_elems (req_path req)
      in 4 \<le> length elems \<and> elems ! (length elems - 2) = ''manifests'')"

definition is_tags :: "http_request \<Rightarrow> bool" where
  "is_tags req =
     (let elems = path_elems (req_path req)
      in 4 \<le> length elems \<and> elems ! (length elems - 2) = ''tags'')"

definition is_catalog :: "http_request \<Rightarrow> bool" where
  "is_catalog req =
     (let elems = path_elems (req_path req)
      in 2 \<le> length elems \<and> elems ! (length elems - 1) = ''_catalog'')"

definition is_referrers :: "http_request \<Rightarrow> bool" where
  "is_referrers req =
     (let elems = path_elems (req_path req)
      in 4 \<le> length elems \<and> elems ! (length elems - 2) = ''referrers'')"

text \<open>
  \<open>elem[len(elem)-1]\<close> and \<open>elem[1:len(elem)-2]\<close>: both are defined (do not panic)
  exactly when there are at least three elements; the handlers check this first.
\<close>

definition path_target :: "string list \<Rightarrow> string" where
  "path_target elems = elems ! (length elems - 1)"

definition path_repo :: "string list \<Rightarrow> string" where
  "path_repo elems = join_with CHR ''/'' (take (length elems - 3) (drop 1 elems))"

text \<open>Request paths as a client builds them (specification, section 6).\<close>

definition manifest_path :: "string \<Rightarrow> string \<Rightarrow> string" where
  "manifest_path repo ref = ''/v2/'' @ repo @ ''/manifests/'' @ ref"

definition tags_path :: "string \<Rightarrow> string" where
  "tags_path repo = ''/v2/'' @ repo @ ''/tags/list''"

definition referrers_path :: "string \<Rightarrow> string \<Rightarrow> string" where
  "referrers_path repo dg = ''/v2/'' @ repo @ ''/referrers/'' @ dg"

definition catalog_path :: string where
  "catalog_path = ''/v2/_catalog''"

lemmas route_defs = is_manifest_def is_tags_def is_catalog_def is_referrers_def

subsection \<open>Slicing a templated path\<close>

text \<open>
  The common shape of the three repository-scoped templates: \<open>/v2/\<close>, the
  repository, a keyword and a final element with no slash.
\<close>

lemma path_elems_template:
  assumes "CHR ''/'' \<notin> set kw" and "CHR ''/'' \<notin> set x"
  shows "path_elems (''/v2/'' @ repo @ CHR ''/'' # kw @ CHR ''/'' # x) =
           ''v2'' # split_on CHR ''/'' repo @ [kw, x]"
proof -
  have "split_on CHR ''/'' (repo @ CHR ''/'' # kw @ CHR ''/'' # x) =
          split_on CHR ''/'' repo @ [kw, x]"
  proof (induction repo)
    case Nil
    show ?case
      using assms by (simp add: split_on_append_sep split_on_no_sep)
  next
    case (Cons y ys)
    then show ?case
      by (cases "split_on CHR ''/'' (ys @ CHR ''/'' # kw @ CHR ''/'' # x)") (auto simp: Let_def)
  qed
  then show ?thesis
    by (simp add: path_elems_def)
qed

lemma path_repo_template:
  "path_repo (''v2'' # split_on CHR ''/'' repo @ [kw, x]) = repo"
  by (simp add: path_repo_def)

lemma path_target_template:
  "path_target (''v2'' # split_on CHR ''/'' repo @ [kw, x]) = x"
  by (simp add: path_target_def nth_append)

lemma template_second_last:
  "(''v2'' # split_on CHR ''/'' repo @ [kw, x]) ! (length (''v2'' # split_on CHR ''/'' repo @ [kw, x]) - 2) = kw"
  by (simp add: nth_append)

lemma template_length: "4 \<le> length (''v2'' # split_on CHR ''/'' repo @ [kw, x])"
proof -
  have "1 \<le> length (split_on CHR ''/'' repo)"
    using split_on_not_Nil by (cases "split_on CHR ''/'' repo") auto
  then show ?thesis by simp
qed

lemmas template_facts = path_repo_template path_target_template template_second_last template_length

subsection \<open>Classification of the client's paths\<close>

lemma template_path_elems:
  "CHR ''/'' \<notin> set x \<Longrightarrow> path_elems (manifest_path repo x) = ''v2'' # split_on CHR ''/'' repo @ [''manifests'', x]"
  "CHR ''/'' \<notin> set x \<Longrightarrow> path_elems (referrers_path repo x) = ''v2'' # split_on CHR ''/'' repo @ [''referrers'', x]"
  "path_elems (tags_path repo) = ''v2'' # split_on CHR ''/'' repo @ [''tags'', ''list'']"
  by (simp_all add: manifest_path_def referrers_path_def tags_path_def
      path_elems_template [of "''manifests''" x repo, simplified]
      path_elems_template [of "''referrers''" x repo, simplified]
      path_elems_template [of "''tags''" "''list''" repo, simplified])

text \<open>
  C10: a request for \<open>/v2/<repo>/manifests/<ref>\<close>, for any repository name and any
  reference without a slash, is classified as a manifest request and not as a tags
  or referrers request, and the handler's slicing recovers exactly the repository and
  the reference.
\<close>

theorem manifest_path_roundtrip:
  assumes "req_path req = manifest_path repo ref" and "CHR ''/'' \<notin> set ref"
  shows "is_manifest req \<and> \<not> is_tags req \<and> \<not> is_referrers req
         \<and> path_repo (path_elems (req_path req)) = repo
         \<and> path_target (path_elems (req_path req)) = ref"
  using assms by (simp add: route_defs template_path_elems template_facts Let_def del: template_second_last)

theorem manifest_path_roundtrip_witness:
  "is_manifest \<lparr>req_method = ''GET'', req_path = manifest_path ''library/ubuntu'' ''latest'',
                 req_query = [], req_content_type = [], req_body = []\<rparr>
   \<and> path_repo (path_elems (manifest_path ''library/ubuntu'' ''latest'')) = ''library/ubuntu''
   \<and> path_target (path_elems (manifest_path ''library/ubuntu'' ''latest'')) = ''latest''"
  using manifest_path_roundtrip [of "\<lparr>req_method = ''GET'', req_path = manifest_path ''library/ubuntu'' ''latest'',
                 req_query = [], req_content_type = [], req_body = []\<rparr>" "''library/ubuntu''" "''latest''"]
  by simp

end
