(* ===== verification/ManifestStore.thy ===== *)
theory ManifestStore
  imports Routes
begin

text \<open>
  The content-addressable manifest store of \<^verbatim>\<open>src/manifest.go\<close>: the
  \<open>manifests\<close> struct (a map from repository name to a map from tag or digest to a
  stored manifest) and its \<open>handle\<close> method, one definition per HTTP method
  (GET, HEAD, PUT with the index validation of its constituent manifests, DELETE).
  The mutex of the struct makes every call one atomic step on the state, which is
  how the state is threaded here; the logger is not modelled. The lemmas give the
  functional behaviour of every branch (errors included), the dual addressing by tag
  and digest, index validation, idempotent re-put, deletion of a single key, and the
  digest-key invariant.
\<close>

record manifest =
  mf_content_type :: string
  mf_blob :: bytes

type_synonym repo_manifests = "(string, manifest) mapping"

record manifests =
  mstore :: "(string, repo_manifests) mapping"

definition empty_manifests :: manifests where
  "empty_manifests = \<lparr>mstore = Mapping.empty\<rparr>"

text \<open>The abstraction used in the statements: the manifest under a key of a repository.\<close>

definition lookup_manifest :: "manifests \<Rightarrow> string \<Rightarrow> string \<Rightarrow> manifest option" where
  "lookup_manifest m repo key =
     (case Mapping.lookup (mstore m) repo of None \<Rightarrow> None | Some r \<Rightarrow> Mapping.lookup r key)"

subsection \<open>Media types (the \<open>isIndex\<close>, \<open>isImage\<close>, \<open>isDistributable\<close> helpers)\<close>

definition is_index_media_type :: "string \<Rightarrow> bool" where
  "is_index_media_type mt \<longleftrightarrow>
     mt = ''application/vnd.oci.image.index.v1+json''
     \<or> mt = ''application/vnd.docker.distribution.manifest.list.v2+json''"

definition is_image_media_type :: "string \<Rightarrow> bool" where
  "is_image_media_type mt \<longleftrightarrow>
     mt = ''application/vnd.oci.image.manifest.v1+json''
     \<or> mt = ''application/vnd.docker.distribution.manifest.v2+json''"

definition is_distributable :: "string \<Rightarrow> bool" where
  "is_distributable mt \<longleftrightarrow>
     mt \<noteq> ''application/vnd.docker.image.rootfs.foreign.diff.tar.gzip''
     \<and> mt \<noteq> ''application/vnd.oci.image.layer.nondistributable.v1.tar''
     \<and> mt \<noteq> ''application/vnd.oci.image.layer.nondistributable.v1.tar+gzip''"

subsection \<open>GET and HEAD\<close>

definition manifest_response :: "codec \<Rightarrow> manifest \<Rightarrow> bool \<Rightarrow> response" where
  "manifest_response c mf with_body =
     \<lparr>resp_status = 200,
      resp_headers = [(''Docker-Content-Digest'', content_digest c (mf_blob mf)),
                      (''Content-Type'', mf_content_type mf),
                      (''Content-Length'', nat_to_dec (length (mf_blob mf)))],
      resp_body = (if with_body then RawBody (mf_blob mf) else NoBody)\<rparr>"

text \<open>GET writes the body, HEAD only the headers; both look up the same way.\<close>

definition manifest_get :: "codec \<Rightarrow> manifests \<Rightarrow> string \<Rightarrow> string \<Rightarrow> bool \<Rightarrow> handler_result" where
  "manifest_get c m repo target with_body =
     (case Mapping.lookup (mstore m) repo of
        None \<Rightarrow> Failed err_name_unknown
      | Some r \<Rightarrow>
          (case Mapping.lookup r target of
             None \<Rightarrow> Failed err_manifest_unknown
           | Some mf \<Rightarrow> Done (manifest_response c mf with_body)))"

subsection \<open>PUT: validation of an index, then storage under the reference and the digest\<close>

definition err_manifest_invalid :: "string \<Rightarrow> reg_error" where
  "err_manifest_invalid msg = \<lparr>err_status = 400, err_code = ''MANIFEST_INVALID'', err_message = msg\<rparr>"

definition err_sub_manifest_unknown :: "string \<Rightarrow> reg_error" where
  "err_sub_manifest_unknown d =
     \<lparr>err_status = 404, err_code = ''MANIFEST_UNKNOWN'',
      err_message = ''Sub-manifest '' @ go_quote d @ '' not found''\<rparr>"

text \<open>
  The loop over \<open>im.Manifests\<close>: non-distributable entries are skipped, index and
  image entries must already be stored in the repository, other entries (layers) are
  only logged. The first missing entry ends the loop with its error.
\<close>

fun check_sub_manifests :: "repo_manifests \<Rightarrow> descriptor list \<Rightarrow> reg_error option" where
  "check_sub_manifests r [] = None"
| "check_sub_manifests r (d # ds) =
     (if \<not> is_distributable (d_media_type d) then check_sub_manifests r ds
      else if is_index_media_type (d_media_type d) \<or> is_image_media_type (d_media_type d) then
        (case Mapping.lookup r (d_digest d) of
           None \<Rightarrow> Some (err_sub_manifest_unknown (d_digest d))
         | Some _ \<Rightarrow> check_sub_manifests r ds)
      else check_sub_manifests r ds)"

definition validate_manifest :: "codec \<Rightarrow> repo_manifests \<Rightarrow> manifest \<Rightarrow> reg_error option" where
  "validate_manifest c r mf =
     (if is_index_media_type (mf_content_type mf) then
        (case decode_index c (mf_blob mf) of
           Inl msg \<Rightarrow> Some (err_manifest_invalid msg)
         | Inr ds \<Rightarrow> check_sub_manifests r ds)
      else None)"

definition repo_or_empty :: "(string, repo_manifests) mapping \<Rightarrow> string \<Rightarrow> repo_manifests" where
  "repo_or_empty s repo = (case Mapping.lookup s repo of None \<Rightarrow> Mapping.empty | Some r \<Rightarrow> r)"

definition created_response :: "string \<Rightarrow> response" where
  "created_response d = \<lparr>resp_status = 201, resp_headers = [(''Docker-Content-Digest'', d)], resp_body = NoBody\<rparr>"

text \<open>
  The repository map is created before the body is validated, so a rejected PUT
  still leaves the (empty) repository behind; on success the manifest is stored
  under the request's reference first and under its computed digest second.
\<close>

definition manifest_put :: "codec \<Rightarrow> manifests \<Rightarrow> string \<Rightarrow> string \<Rightarrow> http_request \<Rightarrow> manifests \<times> handler_result" where
  "manifest_put c m repo target req =
     (let r = repo_or_empty (mstore m) repo;
          m1 = m\<lparr>mstore := Mapping.update repo r (mstore m)\<rparr>;
          d = content_digest c (req_body req);
          mf = \<lparr>mf_content_type = req_content_type req, mf_blob = req_body req\<rparr>
      in case validate_manifest c r mf of
           Some e \<Rightarrow> (m1, Failed e)
         | None \<Rightarrow>
             (m\<lparr>mstore := Mapping.update repo (Mapping.update d mf (Mapping.update target mf r)) (mstore m)\<rparr>,
              Done (created_response d)))"

subsection \<open>DELETE and the method switch\<close>

definition accepted_response :: response where
  "accepted_response = \<lparr>resp_status = 202, resp_headers = [], resp_body = NoBody\<rparr>"

definition manifest_delete :: "manifests \<Rightarrow> string \<Rightarrow> string \<Rightarrow> manifests \<times> handler_result" where
  "manifest_delete m repo target =
     (case Mapping.lookup (mstore m) repo of
        None \<Rightarrow> (m, Failed err_name_unknown)
      | Some r \<Rightarrow>
          (case Mapping.lookup r target of
             None \<Rightarrow> (m, Failed err_manifest_unknown)
           | Some _ \<Rightarrow> (m\<lparr>mstore := Mapping.update repo (Mapping.delete target r) (mstore m)\<rparr>,
                        Done accepted_response)))"

text \<open>
  \<open>handle\<close>: the path is sliced before the method switch; with fewer than three
  path elements the slicing itself panics.
\<close>

definition manifests_handle :: "codec \<Rightarrow> manifests \<Rightarrow> http_request \<Rightarrow> manifests \<times> handler_result" where
  "manifests_handle c m req =
     (let elem = path_elems (req_path req) in
      if length elem < 3 then (m, Panicked)
      else
        let target = path_target elem; repo = path_repo elem in
        if req_method req = ''GET'' then (m, manifest_get c m repo target True)
        else if req_method req = ''HEAD'' then (m, manifest_get c m repo target False)
        else if req_method req = ''PUT'' then manifest_put c m repo target req
        else if req_method req = ''DELETE'' then manifest_delete m repo target
        else (m, Failed err_method_unknown))"

subsection \<open>Store equations\<close>

lemma lookup_manifest_update [store_simps]:
  "lookup_manifest (m\<lparr>mstore := Mapping.update repo r (mstore m)\<rparr>) repo' k =
     (if repo' = repo then Mapping.lookup r k else lookup_manifest m repo' k)"
  by (simp add: lookup_manifest_def lookup_update')

lemma lookup_repo_or_empty [store_simps]:
  "Mapping.lookup (repo_or_empty (mstore m) repo) k = lookup_manifest m repo k"
  by (simp add: repo_or_empty_def lookup_manifest_def split: option.split)

lemma lookup_manifest_ensure_repo [store_simps]:
  "lookup_manifest (m\<lparr>mstore := Mapping.update repo (repo_or_empty (mstore m) repo) (mstore m)\<rparr>) repo' k =
     lookup_manifest m repo' k"
  by (simp add: store_simps)

lemma lookup_manifest_Some:
  "lookup_manifest m repo k = Some mf \<longleftrightarrow>
     (\<exists>r. Mapping.lookup (mstore m) repo = Some r \<and> Mapping.lookup r k = Some mf)"
  by (simp add: lookup_manifest_def split: option.split)

lemma manifest_get_eq:
  "manifest_get c m repo target b =
     (if Mapping.lookup (mstore m) repo = None then Failed err_name_unknown
      else case lookup_manifest m repo target of
             None \<Rightarrow> Failed err_manifest_unknown
           | Some mf \<Rightarrow> Done (manifest_response c mf b))"
  by (simp add: manifest_get_def lookup_manifest_def split: option.split)

text \<open>The two outcomes of PUT, read off the definition once for all later proofs.\<close>

lemma manifest_put_Failed:
  assumes "validate_manifest c (repo_or_empty (mstore m) repo)
             \<lparr>mf_content_type = req_content_type req, mf_blob = req_body req\<rparr> = Some e"
  shows "manifest_put c m repo target req =
           (m\<lparr>mstore := Mapping.update repo (repo_or_empty (mstore m) repo) (mstore m)\<rparr>, Failed e)"
  using assms by (simp add: manifest_put_def Let_def)

lemma manifest_put_Done:
  assumes "validate_manifest c (repo_or_empty (mstore m) repo)
             \<lparr>mf_content_type = req_content_type req, mf_blob = req_body req\<rparr> = None"
  shows "manifest_put c m repo target req =
           (m\<lparr>mstore := Mapping.update repo
                 (Mapping.update (content_digest c (req_body req))
                    \<lparr>mf_content_type = req_content_type req, mf_blob = req_body req\<rparr>
                    (Mapping.update target \<lparr>mf_content_type = req_content_type req, mf_blob = req_body req\<rparr>
                       (repo_or_empty (mstore m) repo))) (mstore m)\<rparr>,
            Done (created_response (content_digest c (req_body req))))"
  using assms by (simp add: manifest_put_def Let_def)

subsection \<open>Specification-level predicates\<close>

text \<open>
  An index entry whose existence PUT checks (distributable, and itself an index or an
  image manifest), and the integrity invariant of the specification: every key that
  parses as a digest is the digest of the manifest stored under it.
\<close>

definition needs_existence :: "descriptor \<Rightarrow> bool" where
  "needs_existence d \<longleftrightarrow> is_distributable (d_media_type d)
     \<and> (is_index_media_type (d_media_type d) \<or> is_image_media_type (d_media_type d))"

definition digest_keys_ok :: "codec \<Rightarrow> manifests \<Rightarrow> bool" where
  "digest_keys_ok c m \<longleftrightarrow>
     (\<forall>repo k mf. lookup_manifest m repo k = Some mf \<longrightarrow> new_hash k \<noteq> None \<longrightarrow> k = content_digest c (mf_blob mf))"

subsection \<open>Example data\<close>

text \<open>
  A repository \<open>r\<close> holding one image manifest under the tag \<open>v1\<close> and its
  digest, and an index decoder that lists that manifest, for the witnesses below.
\<close>

definition oci_manifest_mt :: string where
  "oci_manifest_mt = ''application/vnd.oci.image.manifest.v1+json''"
definition oci_index_mt :: string where
  "oci_index_mt = ''application/vnd.oci.image.index.v1+json''"

definition put_request :: "string \<Rightarrow> string \<Rightarrow> string \<Rightarrow> bytes \<Rightarrow> http_request" where
  "put_request repo ref ct b =
     \<lparr>req_method = ''PUT'', req_path = manifest_path repo ref, req_query = [],
      req_content_type = ct, req_body = b\<rparr>"

definition demo_mf :: manifest where
  "demo_mf = \<lparr>mf_content_type = oci_manifest_mt, mf_blob = [7]\<rparr>"

definition demo_store :: manifests where
  "demo_store = \<lparr>mstore = Mapping.update ''r''
      (Mapping.update (content_digest demo_codec [7]) demo_mf (Mapping.update ''v1'' demo_mf Mapping.empty))
      Mapping.empty\<rparr>"

definition demo_desc :: descriptor where
  "demo_desc = \<lparr>d_media_type = oci_manifest_mt, d_size = 1, d_digest = content_digest demo_codec [7],
     d_artifact_type = []\<rparr>"

definition index_codec :: codec where
  "index_codec = demo_codec\<lparr>decode_index := (\<lambda>b. Inr [demo_desc])\<rparr>"

subsection \<open>Validation\<close>

lemma check_sub_manifests_None:
  "check_sub_manifests r ds = None \<longleftrightarrow>
     (\<forall>d \<in> set ds. needs_existence d \<longrightarrow> d_digest d \<in> Mapping.keys r)"
  by (induction ds) (auto simp: needs_existence_def mapping_in_keys_iff split: option.split)

lemma check_sub_manifests_Some:
  "check_sub_manifests r ds = Some e \<Longrightarrow>
     \<exists>d \<in> set ds. needs_existence d \<and> Mapping.lookup r (d_digest d) = None
        \<and> e = err_sub_manifest_unknown (d_digest d)"
  by (induction ds) (auto simp: needs_existence_def split: if_splits option.splits)

lemma check_sub_manifests_mono:
  "check_sub_manifests r ds = None \<Longrightarrow> Mapping.keys r \<subseteq> Mapping.keys r'
   \<Longrightarrow> check_sub_manifests r' ds = None"
  by (auto simp: check_sub_manifests_None)

lemma validate_manifest_mono:
  "validate_manifest c r mf = None \<Longrightarrow> Mapping.keys r \<subseteq> Mapping.keys r'
   \<Longrightarrow> validate_manifest c r' mf = None"
  by (auto simp: validate_manifest_def check_sub_manifests_mono split: if_splits sum.splits)

lemma put_request_simps [simp]:
  "req_content_type (put_request repo ref ct b) = ct"
  "req_body (put_request repo ref ct b) = b"
  by (simp_all add: put_request_def)

lemma media_type_facts [simp]:
  "\<not> is_index_media_type oci_manifest_mt" "is_image_media_type oci_manifest_mt"
  "is_index_media_type oci_index_mt" "is_distributable oci_manifest_mt"
  by (simp_all add: oci_manifest_mt_def oci_index_mt_def is_index_media_type_def
      is_image_media_type_def is_distributable_def)

lemma validate_not_index: "\<not> is_index_media_type (mf_content_type mf) \<Longrightarrow> validate_manifest c r mf = None"
  by (simp add: validate_manifest_def)

lemma demo_put:
  "manifest_put demo_codec empty_manifests ''r'' ''v1'' (put_request ''r'' ''v1'' oci_manifest_mt [7])
     = (demo_store, Done (created_response (content_digest demo_codec [7])))"
  by (simp add: manifest_put_Done validate_not_index demo_store_def demo_mf_def
      empty_manifests_def repo_or_empty_def)

lemma demo_desc_simps [simp]:
  "d_media_type demo_desc = oci_manifest_mt" "d_digest demo_desc = content_digest demo_codec [7]"
  by (simp_all add: demo_desc_def)

lemma index_codec_simps [simp]:
  "content_digest index_codec b = content_digest demo_codec b"
  by (simp add: index_codec_def content_digest_def demo_codec_def)

lemma demo_digest_ne_v1 [simp]: "content_digest demo_codec [7] \<noteq> ''v1''"
  by (simp add: content_digest_prefix)

subsection \<open>Properties of the handlers\<close>

text \<open>
  C1: a successful PUT of a manifest under a reference answers 201 with the computed digest, and afterwards GET by the reference and GET by the digest both return that manifest with its digest, media type and length.
\<close>

theorem put_dual_addressing:
  assumes put: "manifest_put c m repo target req = (m', Done resp)"
    and mf: "mf = \<lparr>mf_content_type = req_content_type req, mf_blob = req_body req\<rparr>"
  shows "resp = created_response (content_digest c (req_body req))
         \<and> manifest_get c m' repo target True = Done (manifest_response c mf True)
         \<and> manifest_get c m' repo (content_digest c (req_body req)) True = Done (manifest_response c mf True)"
proof -
  have v: "validate_manifest c (repo_or_empty (mstore m) repo) mf = None"
    using put mf by (cases "validate_manifest c (repo_or_empty (mstore m) repo) mf")
      (auto simp: manifest_put_Failed)
  with put mf manifest_put_Done [of c m repo req target] show ?thesis
    by (auto simp: manifest_get_def lookup_update')
qed

theorem put_dual_addressing_witness:
  "manifest_get demo_codec (fst (manifest_put demo_codec empty_manifests ''r'' ''v1'' (put_request ''r'' ''v1'' oci_manifest_mt [7])))
      ''r'' (content_digest demo_codec [7]) True
     = Done (manifest_response demo_codec \<lparr>mf_content_type = oci_manifest_mt, mf_blob = [7]\<rparr> True)"
proof -
  let ?req = "put_request ''r'' ''v1'' oci_manifest_mt [7]"
  obtain m' res where p: "manifest_put demo_codec empty_manifests ''r'' ''v1'' ?req = (m', res)"
    by fastforce
  have "res = Done (created_response (content_digest demo_codec [7]))"
    using p manifest_put_Done [of demo_codec empty_manifests "''r''" ?req "''v1''"]
    by (simp add: validate_not_index)
  with p have "manifest_put demo_codec empty_manifests ''r'' ''v1'' ?req = (m', Done (created_response (content_digest demo_codec [7])))"
    by simp
  from put_dual_addressing [OF this refl] p show ?thesis by simp
qed

text \<open>
  C5: PUT keeps the digest-key invariant (every key that parses as a digest is the digest of its manifest) whenever the request's reference is a tag or the content's own digest; a rejected PUT keeps it too.
\<close>

theorem put_preserves_digest_keys:
  assumes ok: "digest_keys_ok c m"
    and tgt: "new_hash target = None \<or> target = content_digest c (req_body req)"
  shows "digest_keys_ok c (fst (manifest_put c m repo target req))"
proof (cases "validate_manifest c (repo_or_empty (mstore m) repo)
                \<lparr>mf_content_type = req_content_type req, mf_blob = req_body req\<rparr>")
  case None
  with ok tgt show ?thesis
    by (auto simp: manifest_put_Done digest_keys_ok_def store_simps lookup_update')
next
  case (Some e)
  with ok show ?thesis
    by (simp add: manifest_put_Failed digest_keys_ok_def store_simps)
qed

text \<open>
  C9: the code does not check a digest-shaped reference against the content: for every store, codec and request that passes validation, a PUT under a well-formed digest that is not the body's digest succeeds with 201 and stores the manifest under that digest, so the resulting store violates the digest-key invariant.
\<close>

theorem put_wrong_digest_breaks_digest_keys:
  assumes v: "validate_manifest c (repo_or_empty (mstore m) repo)
                \<lparr>mf_content_type = req_content_type req, mf_blob = req_body req\<rparr> = None"
    and h: "new_hash target \<noteq> None" and ne: "target \<noteq> content_digest c (req_body req)"
  shows "snd (manifest_put c m repo target req) = Done (created_response (content_digest c (req_body req)))
         \<and> \<not> digest_keys_ok c (fst (manifest_put c m repo target req))"
proof -
  let ?mf = "\<lparr>mf_content_type = req_content_type req, mf_blob = req_body req\<rparr>"
  have "lookup_manifest (fst (manifest_put c m repo target req)) repo target = Some ?mf"
    using v ne by (simp add: manifest_put_Done store_simps lookup_update')
  with h ne show ?thesis
    using v unfolding digest_keys_ok_def by (fastforce simp: manifest_put_Done)
qed

theorem put_preserves_digest_keys_witness:
  "digest_keys_ok demo_codec (fst (manifest_put demo_codec empty_manifests ''r'' ''v1''
      (put_request ''r'' ''v1'' oci_manifest_mt [7])))"
proof -
  have ok: "digest_keys_ok demo_codec empty_manifests"
    by (simp add: digest_keys_ok_def empty_manifests_def lookup_manifest_def)
  have "new_hash ''v1'' = None" by (simp add: new_hash_def)
  then show ?thesis
    using put_preserves_digest_keys [OF ok, of "''v1''" "put_request ''r'' ''v1'' oci_manifest_mt [7]" "''r''"]
    by simp
qed

text \<open>
  C4: a successful DELETE answers 202, removes exactly the one key it names from its repository and leaves every other key of every repository, and the set of repositories, unchanged.
\<close>

theorem delete_removes_one_key:
  assumes del: "manifest_delete m repo target = (m', Done resp)"
  shows "resp = accepted_response \<and> lookup_manifest m repo target \<noteq> None
         \<and> Mapping.keys (mstore m') = Mapping.keys (mstore m)
         \<and> (\<forall>repo' k. lookup_manifest m' repo' k =
              (if repo' = repo \<and> k = target then None else lookup_manifest m repo' k))"
proof -
  obtain r mf0 where r: "Mapping.lookup (mstore m) repo = Some r" and t: "Mapping.lookup r target = Some mf0"
    and m': "m' = m\<lparr>mstore := Mapping.update repo (Mapping.delete target r) (mstore m)\<rparr>"
    and resp: "resp = accepted_response"
    using del by (auto simp: manifest_delete_def split: option.splits)
  have "repo \<in> Mapping.keys (mstore m)"
    using r by (simp add: mapping_in_keys_iff)
  then have "Mapping.keys (mstore m') = Mapping.keys (mstore m)"
    by (auto simp: m')
  moreover have "lookup_manifest m repo target \<noteq> None"
    using r t by (simp add: lookup_manifest_def)
  moreover have "lookup_manifest m' repo' k =
                   (if repo' = repo \<and> k = target then None else lookup_manifest m repo' k)" for repo' k
  proof -
    have "lookup_manifest m' repo' k =
            (if repo' = repo then Mapping.lookup (Mapping.delete target r) k else lookup_manifest m repo' k)"
      by (simp add: m' store_simps)
    with r show ?thesis by (simp add: lookup_manifest_def mapping_lookup_delete')
  qed
  ultimately show ?thesis using resp by simp
qed

text \<open>
  C7: DELETE of a key that is not stored changes nothing and fails with NAME_UNKNOWN when the repository is absent and with MANIFEST_UNKNOWN otherwise.
\<close>

theorem delete_missing_fails:
  assumes "lookup_manifest m repo target = None"
  shows "manifest_delete m repo target =
           (m, Failed (if Mapping.lookup (mstore m) repo = None then err_name_unknown else err_manifest_unknown))"
  using assms by (auto simp: manifest_delete_def lookup_manifest_def split: option.splits)

text \<open>
  C2: a PUT of an index that lists a distributable image or index manifest absent from the repository fails with 404 MANIFEST_UNKNOWN and stores nothing.
\<close>

theorem put_index_missing_sub_manifest:
  assumes "is_index_media_type (req_content_type req)" and "decode_index c (req_body req) = Inr ds"
    and "d \<in> set ds" and "needs_existence d" and "lookup_manifest m repo (d_digest d) = None"
  shows "\<exists>e. snd (manifest_put c m repo target req) = Failed e
            \<and> err_status e = 404 \<and> err_code e = ''MANIFEST_UNKNOWN''
            \<and> (\<forall>repo' k. lookup_manifest (fst (manifest_put c m repo target req)) repo' k = lookup_manifest m repo' k)"
proof -
  let ?r = "repo_or_empty (mstore m) repo"
  let ?mf = "\<lparr>mf_content_type = req_content_type req, mf_blob = req_body req\<rparr>"
  have "d_digest d \<notin> Mapping.keys ?r"
    using assms(5) by (simp add: mapping_in_keys_iff store_simps)
  with assms(3,4) have "check_sub_manifests ?r ds \<noteq> None"
    by (auto simp: check_sub_manifests_None)
  then obtain e where e: "check_sub_manifests ?r ds = Some e" by blast
  obtain d' :: descriptor where "e = err_sub_manifest_unknown (d_digest d')"
    using check_sub_manifests_Some [OF e] by force
  then have "err_status e = 404 \<and> err_code e = ''MANIFEST_UNKNOWN''"
    by (simp add: err_sub_manifest_unknown_def)
  moreover have "validate_manifest c ?r ?mf = Some e"
    using assms(1,2) e by (simp add: validate_manifest_def)
  ultimately show ?thesis
    by (simp add: manifest_put_Failed store_simps)
qed

text \<open>
  C3: a PUT of a decodable index whose distributable image and index entries are all present in the repository succeeds with 201 and the content digest.
\<close>

theorem put_index_accepted:
  assumes "is_index_media_type (req_content_type req)" and "decode_index c (req_body req) = Inr ds"
    and "\<forall>d \<in> set ds. needs_existence d \<longrightarrow> lookup_manifest m repo (d_digest d) \<noteq> None"
  shows "snd (manifest_put c m repo target req) = Done (created_response (content_digest c (req_body req)))"
proof -
  let ?r = "repo_or_empty (mstore m) repo"
  have "check_sub_manifests ?r ds = None"
    using assms(3) by (simp add: check_sub_manifests_None mapping_in_keys_iff store_simps)
  with assms(1,2) show ?thesis
    by (simp add: manifest_put_Done validate_manifest_def)
qed

lemma update_twice_same:
  "Mapping.update d v (Mapping.update t v (Mapping.update d v (Mapping.update t v r))) =
   Mapping.update d v (Mapping.update t v r)"
  by (rule mapping_eqI) (simp add: lookup_update')

text \<open>
  C6: re-putting byte-identical content under the same reference after a successful PUT succeeds again with the same digest and leaves the store unchanged.
\<close>

theorem put_idempotent:
  assumes put: "manifest_put c m repo target req = (m1, Done resp)"
  shows "manifest_put c m1 repo target req = (m1, Done resp)"
proof -
  let ?r = "repo_or_empty (mstore m) repo"
  let ?mf = "\<lparr>mf_content_type = req_content_type req, mf_blob = req_body req\<rparr>"
  let ?d = "content_digest c (req_body req)"
  let ?R1 = "Mapping.update ?d ?mf (Mapping.update target ?mf ?r)"
  have v: "validate_manifest c ?r ?mf = None"
    using put by (cases "validate_manifest c ?r ?mf") (auto simp: manifest_put_Failed)
  then have m1: "m1 = m\<lparr>mstore := Mapping.update repo ?R1 (mstore m)\<rparr>" and resp: "resp = created_response ?d"
    using put by (simp_all add: manifest_put_Done)
  have r1: "repo_or_empty (mstore m1) repo = ?R1"
    by (simp add: m1 repo_or_empty_def)
  have "validate_manifest c ?R1 ?mf = None"
    using v by (rule validate_manifest_mono) auto
  then show ?thesis
    using r1 by (simp add: manifest_put_Done m1 resp update_twice_same Mapping.update_update)
qed

text \<open>
  C8: a rejected PUT still creates its repository: afterwards a read of any absent key of that repository reports MANIFEST_UNKNOWN, no longer NAME_UNKNOWN.
\<close>

theorem put_rejected_creates_repo:
  assumes "manifest_put c m repo target req = (m', Failed e)" and "lookup_manifest m repo k = None"
  shows "manifest_get c m' repo k b = Failed err_manifest_unknown"
proof -
  let ?r = "repo_or_empty (mstore m) repo"
  let ?mf = "\<lparr>mf_content_type = req_content_type req, mf_blob = req_body req\<rparr>"
  have "validate_manifest c ?r ?mf = Some e"
    using assms(1) by (cases "validate_manifest c ?r ?mf") (auto simp: manifest_put_Done manifest_put_Failed)
  then have "m' = m\<lparr>mstore := Mapping.update repo ?r (mstore m)\<rparr>"
    using assms(1) by (simp add: manifest_put_Failed)
  with assms(2) show ?thesis
    by (simp add: manifest_get_eq store_simps)
qed


theorem delete_removes_one_key_witness:
  "lookup_manifest (fst (manifest_delete demo_store ''r'' ''v1'')) ''r'' ''v1'' = None
   \<and> lookup_manifest (fst (manifest_delete demo_store ''r'' ''v1'')) ''r'' (content_digest demo_codec [7]) = Some demo_mf"
proof -
  have "manifest_delete demo_store ''r'' ''v1'' = (fst (manifest_delete demo_store ''r'' ''v1''), Done accepted_response)"
    by (simp add: manifest_delete_def demo_store_def)
  from delete_removes_one_key [OF this] show ?thesis
    by (simp add: demo_store_def lookup_manifest_def)
qed

theorem delete_missing_fails_witness:
  "manifest_delete demo_store ''r'' ''v2'' = (demo_store, Failed err_manifest_unknown)
   \<and> manifest_delete demo_store ''q'' ''v1'' = (demo_store, Failed err_name_unknown)"
proof -
  have a: "lookup_manifest demo_store ''r'' ''v2'' = None"
    by (simp add: demo_store_def lookup_manifest_def lookup_update' content_digest_prefix)
  have b: "lookup_manifest demo_store ''q'' ''v1'' = None"
    by (simp add: demo_store_def lookup_manifest_def)
  show ?thesis
    using delete_missing_fails [OF a] delete_missing_fails [OF b] by (simp add: demo_store_def)
qed

theorem put_index_missing_sub_manifest_witness:
  "\<exists>e. snd (manifest_put index_codec empty_manifests ''r'' ''all'' (put_request ''r'' ''all'' oci_index_mt [9])) = Failed e
      \<and> err_status e = 404 \<and> err_code e = ''MANIFEST_UNKNOWN''
      \<and> (\<forall>repo' k. lookup_manifest (fst (manifest_put index_codec empty_manifests ''r'' ''all''
            (put_request ''r'' ''all'' oci_index_mt [9]))) repo' k = lookup_manifest empty_manifests repo' k)"
proof (rule put_index_missing_sub_manifest [of _ _ "[demo_desc]" demo_desc])
  show "needs_existence demo_desc" by (simp add: needs_existence_def)
qed (simp_all add: index_codec_def empty_manifests_def lookup_manifest_def)

theorem put_index_accepted_witness:
  "snd (manifest_put index_codec demo_store ''r'' ''all'' (put_request ''r'' ''all'' oci_index_mt [9]))
     = Done (created_response (content_digest index_codec [9]))"
proof -
  have "\<forall>d \<in> set [demo_desc]. needs_existence d \<longrightarrow> lookup_manifest demo_store ''r'' (d_digest d) \<noteq> None"
    by (simp add: demo_store_def lookup_manifest_def)
  from put_index_accepted [of "put_request ''r'' ''all'' oci_index_mt [9]" index_codec "[demo_desc]", OF _ _ this]
  show ?thesis by (simp add: index_codec_def)
qed

theorem put_idempotent_witness:
  "manifest_put demo_codec demo_store ''r'' ''v1'' (put_request ''r'' ''v1'' oci_manifest_mt [7])
     = (demo_store, Done (created_response (content_digest demo_codec [7])))"
  using put_idempotent [OF demo_put] .

theorem put_rejected_creates_repo_witness:
  "manifest_get index_codec (fst (manifest_put index_codec empty_manifests ''r'' ''all''
      (put_request ''r'' ''all'' oci_index_mt [9]))) ''r'' ''all'' True = Failed err_manifest_unknown
   \<and> manifest_get index_codec empty_manifests ''r'' ''all'' True = Failed err_name_unknown"
proof -
  let ?p = "manifest_put index_codec empty_manifests ''r'' ''all'' (put_request ''r'' ''all'' oci_index_mt [9])"
  have "validate_manifest index_codec (repo_or_empty (mstore empty_manifests) ''r'')
          \<lparr>mf_content_type = oci_index_mt, mf_blob = [9]\<rparr> =
        Some (err_sub_manifest_unknown (content_digest demo_codec [7]))"
    by (simp add: validate_manifest_def index_codec_def repo_or_empty_def empty_manifests_def needs_existence_def)
  then have "?p = (fst ?p, Failed (err_sub_manifest_unknown (content_digest demo_codec [7])))"
    by (simp add: manifest_put_Failed)
  from put_rejected_creates_repo [OF this] show ?thesis
    by (simp add: empty_manifests_def lookup_manifest_def manifest_get_def)
qed

theorem put_wrong_digest_breaks_digest_keys_witness:
  "snd (manifest_put demo_codec empty_manifests ''r'' (content_digest demo_codec [])
          (put_request ''r'' (content_digest demo_codec []) oci_manifest_mt [7]))
     = Done (created_response (content_digest demo_codec [7]))
   \<and> \<not> digest_keys_ok demo_codec
        (fst (manifest_put demo_codec empty_manifests ''r'' (content_digest demo_codec [])
               (put_request ''r'' (content_digest demo_codec []) oci_manifest_mt [7])))"
proof -
  let ?d0 = "content_digest demo_codec []"
  have v: "validate_manifest demo_codec (repo_or_empty (mstore empty_manifests) ''r'')
             \<lparr>mf_content_type = req_content_type (put_request ''r'' ?d0 oci_manifest_mt [7]),
              mf_blob = req_body (put_request ''r'' ?d0 oci_manifest_mt [7])\<rparr> = None"
    by (simp add: validate_not_index media_type_facts)
  have h: "new_hash ?d0 \<noteq> None"
    using content_digest_parses [OF wf_demo_codec] by simp
  have ne: "?d0 \<noteq> content_digest demo_codec (req_body (put_request ''r'' ?d0 oci_manifest_mt [7]))"
  proof
    assume "?d0 = content_digest demo_codec (req_body (put_request ''r'' ?d0 oci_manifest_mt [7]))"
    then have "last ?d0 = last (content_digest demo_codec [7])" by simp
    then show False by (simp add: content_digest_prefix demo_codec_def)
  qed
  from put_wrong_digest_breaks_digest_keys [OF v h ne] show ?thesis by simp
qed

end
