(* ===== verification/Listing.thy ===== *)
theory Listing
  imports ManifestStore
begin

text \<open>
  The read-only listing handlers of \<^verbatim>\<open>src/manifest.go\<close>: \<open>handleTags\<close>
  (lines 248-315: tag keys sorted, then the \<open>last\<close> cursor, then the \<open>n\<close> limit),
  \<open>handleCatalog\<close> (lines 317-357: the repository names, cut after \<open>n\<close>) and
  \<open>handleReferrers\<close> (lines 360-436: a scan of the repository for manifests whose
  \<open>subject\<close> is the target digest). The order in which Go ranges over a map is
  unspecified; it is the parameter \<open>it\<close> of these handlers, a function giving an
  enumeration of a finite key set, and the theorems assume only that it enumerates
  each key once (\<open>iter_order\<close>).
\<close>

type_synonym key_order = "string set \<Rightarrow> string list"

definition iter_order :: "key_order \<Rightarrow> bool" where
  "iter_order it \<longleftrightarrow> (\<forall>K. finite K \<longrightarrow> distinct (it K) \<and> set (it K) = K)"

definition err_bad_n :: "string \<Rightarrow> num_error \<Rightarrow> reg_error" where
  "err_bad_n ns e =
     \<lparr>err_status = 400, err_code = ''BAD_REQUEST'',
      err_message = ''parsing n: strconv.Atoi: parsing '' @ go_quote ns @ '': '' @
        (case e of ErrSyntax \<Rightarrow> ''invalid syntax'' | ErrRange \<Rightarrow> ''value out of range'')\<rparr>"

definition err_unsupported :: reg_error where
  "err_unsupported =
     \<lparr>err_status = 400, err_code = ''UNSUPPORTED'', err_message = ''Target must be a valid digest''\<rparr>"

subsection \<open>Tags\<close>

text \<open>Every key of the repository that does not contain \<open>sha256:\<close>, sorted.\<close>

definition tags_of :: "key_order \<Rightarrow> repo_manifests \<Rightarrow> string list" where
  "tags_of it r = sort (filter (\<lambda>t. \<not> contains t ''sha256:'') (it (Mapping.keys r)))"

text \<open>
  The \<open>last\<close> loop: the suffix from the first tag greater than the cursor, or
  \<open>None\<close> when the loop ends without \<open>break\<close> and the list stays as it was.
\<close>

fun tags_after :: "string \<Rightarrow> string list \<Rightarrow> string list option" where
  "tags_after cursor [] = None"
| "tags_after cursor (t # ts) = (if cursor < t then Some (t # ts) else tags_after cursor ts)"

definition tags_response :: "codec \<Rightarrow> string \<Rightarrow> bool \<Rightarrow> string list \<Rightarrow> handler_result" where
  "tags_response c repo is_nil tags =
     Done (json_response c (JTagList repo (if is_nil then None else Some tags)))"

definition handle_tags :: "codec \<Rightarrow> key_order \<Rightarrow> manifests \<Rightarrow> http_request \<Rightarrow> handler_result" where
  "handle_tags c it m req =
     (let elem = path_elems (req_path req) in
      if length elem < 3 then Panicked
      else
        let repo = path_repo elem in
        if req_method req = ''GET'' then
          (case Mapping.lookup (mstore m) repo of
             None \<Rightarrow> Failed err_name_unknown
           | Some r \<Rightarrow>
               let tags0 = tags_of it r;
                   cursor = query_get (req_query req) ''last'';
                   tags1 = (if cursor \<noteq> [] then (case tags_after cursor tags0 of None \<Rightarrow> tags0 | Some ts \<Rightarrow> ts)
                            else tags0);
                   ns = query_get (req_query req) ''n''
               in if ns \<noteq> [] then
                    (case go_atoi ns of
                       (n, Some e) \<Rightarrow> Failed (err_bad_n ns e)
                     | (n, None) \<Rightarrow>
                         if n < int (length tags1) then
                           (if n < 0 then Panicked else tags_response c repo (tags0 = []) (take (nat n) tags1))
                         else tags_response c repo (tags0 = []) tags1)
                  else tags_response c repo (tags0 = []) tags1)
        else Failed err_method_unknown)"

subsection \<open>Catalog\<close>

text \<open>The loop with its counter: stop as soon as \<open>countRepos >= n\<close>.\<close>

fun catalog_loop :: "int \<Rightarrow> int \<Rightarrow> string list \<Rightarrow> string list" where
  "catalog_loop n cnt [] = []"
| "catalog_loop n cnt (k # ks) = (if n \<le> cnt then [] else k # catalog_loop n (cnt + 1) ks)"

definition handle_catalog :: "codec \<Rightarrow> key_order \<Rightarrow> manifests \<Rightarrow> http_request \<Rightarrow> handler_result" where
  "handle_catalog c it m req =
     (let ns = query_get (req_query req) ''n'';
          n = (if ns \<noteq> [] then fst (go_atoi ns) else 10000)
      in if req_method req = ''GET'' then
           let repos = catalog_loop n 0 (it (Mapping.keys (mstore m)))
           in Done (json_response c (JCatalog (if repos = [] then None else Some repos)))
         else Failed err_method_unknown)"

subsection \<open>Referrers\<close>

text \<open>
  One iteration of the scan over the repository's keys: keys that are not digests
  are skipped, as are manifests without a \<open>subject\<close> or whose subject is another
  digest; a match contributes a descriptor with the key as its digest and the
  manifest's config media type as its artifact type.
\<close>

fun referrers_scan :: "codec \<Rightarrow> string \<Rightarrow> repo_manifests \<Rightarrow> string list \<Rightarrow> descriptor list" where
  "referrers_scan c target r [] = []"
| "referrers_scan c target r (dg # dgs) =
     (case new_hash dg of
        None \<Rightarrow> referrers_scan c target r dgs
      | Some h \<Rightarrow>
          (case Mapping.lookup r dg of
             None \<Rightarrow> referrers_scan c target r dgs
           | Some mf \<Rightarrow>
               (case decode_subject c (mf_blob mf) of
                  None \<Rightarrow> referrers_scan c target r dgs
                | Some subj \<Rightarrow>
                    if d_digest subj \<noteq> target then referrers_scan c target r dgs
                    else \<lparr>d_media_type = mf_content_type mf, d_size = int (length (mf_blob mf)),
                          d_digest = hash_string h,
                          d_artifact_type = decode_config_media_type c (mf_blob mf)\<rparr>
                         # referrers_scan c target r dgs)))"

definition handle_referrers :: "codec \<Rightarrow> key_order \<Rightarrow> manifests \<Rightarrow> http_request \<Rightarrow> handler_result" where
  "handle_referrers c it m req =
     (if req_method req \<noteq> ''GET'' then Failed err_method_unknown
      else
        let elem = path_elems (req_path req) in
        if length elem < 3 then Panicked
        else
          let target = path_target elem; repo = path_repo elem in
          if new_hash target = None then Failed err_unsupported
          else
            (case Mapping.lookup (mstore m) repo of
               None \<Rightarrow> Failed err_name_unknown
             | Some r \<Rightarrow> Done (json_response c (JIndex (referrers_scan c target r (it (Mapping.keys r)))))))"

subsection \<open>Specification-level descriptions\<close>

text \<open>
  The tag keys of a repository (keys without \<open>sha256:\<close>), and the referrer
  descriptor the OCI specification asks for: media type, size and digest of a
  manifest whose \<open>subject\<close> is the target.
\<close>

definition tag_keys :: "repo_manifests \<Rightarrow> string set" where
  "tag_keys r = {t \<in> Mapping.keys r. \<not> contains t ''sha256:''}"

definition referrer_entry :: "codec \<Rightarrow> string \<Rightarrow> manifest \<Rightarrow> descriptor" where
  "referrer_entry c k mf =
     \<lparr>d_media_type = mf_content_type mf, d_size = int (length (mf_blob mf)), d_digest = k,
      d_artifact_type = decode_config_media_type c (mf_blob mf)\<rparr>"

definition is_referrer :: "codec \<Rightarrow> string \<Rightarrow> repo_manifests \<Rightarrow> string \<Rightarrow> manifest \<Rightarrow> bool" where
  "is_referrer c target r k mf \<longleftrightarrow> Mapping.lookup r k = Some mf \<and> new_hash k \<noteq> None
     \<and> (\<exists>s. decode_subject c (mf_blob mf) = Some s \<and> d_digest s = target)"

subsection \<open>Example data\<close>

text \<open>
  A repository with the tags \<open>a\<close>, \<open>b\<close>, \<open>c\<close>, \<open>d\<close>; a registry with
  the two empty repositories \<open>p\<close> and \<open>q\<close>; a repository holding an image
  manifest, a signature manifest whose subject is that image (under its digest and
  under a tag), and the corresponding decoder.
\<close>

definition abcd_repo :: repo_manifests where
  "abcd_repo = Mapping.update ''a'' demo_mf (Mapping.update ''b'' demo_mf
     (Mapping.update ''c'' demo_mf (Mapping.update ''d'' demo_mf Mapping.empty)))"

definition abcd_store :: manifests where
  "abcd_store = \<lparr>mstore = Mapping.update ''r'' abcd_repo Mapping.empty\<rparr>"

definition tags_request :: "string \<Rightarrow> query \<Rightarrow> http_request" where
  "tags_request repo q = \<lparr>req_method = ''GET'', req_path = tags_path repo, req_query = q,
     req_content_type = [], req_body = []\<rparr>"

definition two_store :: manifests where
  "two_store = \<lparr>mstore = Mapping.update ''p'' Mapping.empty (Mapping.update ''q'' Mapping.empty Mapping.empty)\<rparr>"

definition catalog_request :: "query \<Rightarrow> http_request" where
  "catalog_request q = \<lparr>req_method = ''GET'', req_path = catalog_path, req_query = q,
     req_content_type = [], req_body = []\<rparr>"

definition referrer_mf :: manifest where
  "referrer_mf = \<lparr>mf_content_type = oci_manifest_mt, mf_blob = [5, 5]\<rparr>"

definition subject_codec :: codec where
  "subject_codec = demo_codec\<lparr>decode_subject := (\<lambda>b. if b = [5, 5] then Some demo_desc else None)\<rparr>"

definition referrers_repo :: repo_manifests where
  "referrers_repo = Mapping.update (content_digest demo_codec [5, 5]) referrer_mf
     (Mapping.update ''sig'' referrer_mf (Mapping.update (content_digest demo_codec [7]) demo_mf Mapping.empty))"

definition referrers_request :: "string \<Rightarrow> string \<Rightarrow> http_request" where
  "referrers_request repo dg = \<lparr>req_method = ''GET'', req_path = referrers_path repo dg, req_query = [],
     req_content_type = [], req_body = []\<rparr>"

subsection \<open>Loop lemmas\<close>

lemma iter_order_keys:
  "iter_order it \<Longrightarrow> finite (Mapping.keys r) \<Longrightarrow>
     distinct (it (Mapping.keys r)) \<and> set (it (Mapping.keys r)) = Mapping.keys r"
  by (simp add: iter_order_def)

lemma tags_of_eq:
  assumes "iter_order it" and "finite (Mapping.keys r)"
  shows "tags_of it r = sorted_list_of_set (tag_keys r)"
proof -
  let ?xs = "filter (\<lambda>t. \<not> contains t ''sha256:'') (it (Mapping.keys r))"
  have "distinct ?xs" and "set ?xs = tag_keys r"
    using iter_order_keys [OF assms] by (auto simp: tag_keys_def)
  then show ?thesis
    by (metis sorted_list_of_set_sort_remdups distinct_remdups_id tags_of_def)
qed

lemma tags_of_sorted: "sorted (tags_of it r)"
  by (simp add: tags_of_def)

lemma tags_after_sorted:
  "sorted ts \<Longrightarrow> tags_after cur ts = (if \<exists>t \<in> set ts. cur < t then Some (filter ((<) cur) ts) else None)"
proof (induction ts)
  case Nil
  then show ?case by simp
next
  case (Cons t ts)
  show ?case
  proof (cases "cur < t")
    case True
    with Cons.prems have "\<forall>u \<in> set ts. cur < u"
      by (auto intro: less_le_trans)
    with True show ?thesis by simp
  next
    case False
    with Cons show ?thesis by auto
  qed
qed

lemma catalog_loop_take: "catalog_loop n k ks = take (nat (n - k)) ks"
proof (induction ks arbitrary: k)
  case Nil
  then show ?case by simp
next
  case (Cons x xs)
  show ?case
  proof (cases "n \<le> k")
    case True
    then show ?thesis by simp
  next
    case False
    then have "nat (n - k) = Suc (nat (n - (k + 1)))" by simp
    with False Cons.IH show ?thesis by simp
  qed
qed

lemma tags_after_Some_subset: "tags_after cur ts = Some ys \<Longrightarrow> set ys \<subseteq> set ts"
  by (induction ts) (auto split: if_splits)

lemma tags_after_Some_nonempty: "tags_after cur ts = Some ys \<Longrightarrow> ys \<noteq> []"
  by (induction ts) (auto split: if_splits)

lemma tags_path_facts:
  "3 \<le> length (path_elems (tags_path repo)) \<and> path_repo (path_elems (tags_path repo)) = repo"
  using template_length [of repo "''tags''" "''list''"]
  by (simp add: template_path_elems path_repo_template)

lemma handle_tags_GET:
  assumes "req_method req = ''GET''" and "req_path req = tags_path repo"
    and "Mapping.lookup (mstore m) repo = Some r"
  shows "handle_tags c it m req =
     (let tags0 = tags_of it r;
          cursor = query_get (req_query req) ''last'';
          tags1 = (if cursor \<noteq> [] then (case tags_after cursor tags0 of None \<Rightarrow> tags0 | Some ts \<Rightarrow> ts)
                   else tags0);
          ns = query_get (req_query req) ''n''
      in if ns \<noteq> [] then
           (case go_atoi ns of
              (n, Some e) \<Rightarrow> Failed (err_bad_n ns e)
            | (n, None) \<Rightarrow>
                if n < int (length tags1) then
                  (if n < 0 then Panicked else tags_response c repo (tags0 = []) (take (nat n) tags1))
                else tags_response c repo (tags0 = []) tags1)
         else tags_response c repo (tags0 = []) tags1)"
  using assms tags_path_facts [of repo] by (simp add: handle_tags_def Let_def)

lemma tags_of_empty_iff:
  "iter_order it \<Longrightarrow> finite (Mapping.keys r) \<Longrightarrow> tags_of it r = [] \<longleftrightarrow> tag_keys r = {}"
proof -
  assume "iter_order it" and f: "finite (Mapping.keys r)"
  then have "tags_of it r = sorted_list_of_set (tag_keys r)" by (rule tags_of_eq)
  moreover have "finite (tag_keys r)" using f by (simp add: tag_keys_def)
  ultimately show ?thesis by simp
qed

lemma referrers_scan_Cons:
  "referrers_scan c t r (k # ks) = referrers_scan c t r [k] @ referrers_scan c t r ks"
  by (simp split: option.split)

lemma set_referrers_scan:
  "set (referrers_scan c t r ks) = {referrer_entry c k mf | k mf. k \<in> set ks \<and> is_referrer c t r k mf}"
proof (induction ks)
  case Nil
  then show ?case by simp
next
  case (Cons k ks)
  have "referrers_scan c t r [k] =
          (case Mapping.lookup r k of
             None \<Rightarrow> []
           | Some mf \<Rightarrow> if is_referrer c t r k mf then [referrer_entry c k mf] else [])"
    by (auto simp: is_referrer_def referrer_entry_def new_hash_string split: option.splits)
  then have one: "set (referrers_scan c t r [k]) = {referrer_entry c k mf | mf. is_referrer c t r k mf}"
    by (auto simp: is_referrer_def split: option.splits)
  have "set (referrers_scan c t r (k # ks)) = set (referrers_scan c t r [k]) \<union> set (referrers_scan c t r ks)"
    by (subst referrers_scan_Cons) (simp only: set_append)
  then show ?case
    by (simp only: one Cons.IH) auto
qed

lemma mset_referrers_scan:
  "mset (referrers_scan c t r ks) = (\<Sum>k \<in># mset ks. mset (referrers_scan c t r [k]))"
  by (induction ks) (simp, subst referrers_scan_Cons, simp)

lemma referrers_scan_digests:
  "map d_digest (referrers_scan c t r ks) = filter (\<lambda>k. \<exists>mf. is_referrer c t r k mf) ks"
  by (induction ks) (auto simp: is_referrer_def new_hash_string split: option.splits)

lemma referrers_path_facts:
  "CHR ''/'' \<notin> set dg \<Longrightarrow> 3 \<le> length (path_elems (referrers_path repo dg))
     \<and> path_repo (path_elems (referrers_path repo dg)) = repo
     \<and> path_target (path_elems (referrers_path repo dg)) = dg"
  using template_length [of repo "''referrers''" dg]
  by (simp add: template_path_elems path_repo_template path_target_template)

lemma iter_order_sorted: "iter_order sorted_list_of_set"
  by (simp add: iter_order_def)

lemma iter_order_rev_sorted: "iter_order (\<lambda>K. rev (sorted_list_of_set K))"
  by (simp add: iter_order_def)

lemma tags_request_simps [simp]:
  "req_method (tags_request repo q) = ''GET''" "req_path (tags_request repo q) = tags_path repo"
  "req_query (tags_request repo q) = q"
  by (simp_all add: tags_request_def)

lemma abcd_facts [simp]:
  "Mapping.lookup (mstore abcd_store) ''r'' = Some abcd_repo"
  "finite (Mapping.keys abcd_repo)"
  "tag_keys abcd_repo = {''a'', ''b'', ''c'', ''d''}"
  by (auto simp: abcd_store_def abcd_repo_def tag_keys_def)

lemma abcd_sorted: "sorted_list_of_set {''a'', ''b'', ''c'', ''d''} = [''a'', ''b'', ''c'', ''d'']"
  by code_simp

lemma two_store_keys: "Mapping.keys (mstore two_store) = {''p'', ''q''}"
  by (auto simp: two_store_def)

lemma go_atoi_1: "go_atoi ''1'' = (1, None)"
  by (simp add: go_atoi_def is_digit_def dec_value_def digit_val_def int64_max_def int64_min_def)

lemma referrers_request_simps [simp]:
  "req_method (referrers_request repo dg) = ''GET''" "req_path (referrers_request repo dg) = referrers_path repo dg"
  by (simp_all add: referrers_request_def)

lemma demo_digests [simp]:
  "new_hash (content_digest demo_codec b) \<noteq> None"
  "CHR ''/'' \<notin> set (content_digest demo_codec b)"
  "content_digest demo_codec [5, 5] \<noteq> content_digest demo_codec [7]"
  "content_digest demo_codec b \<noteq> ''sig''"
proof -
  show "new_hash (content_digest demo_codec b) \<noteq> None"
    by (simp add: content_digest_parses [OF wf_demo_codec])
  show "CHR ''/'' \<notin> set (content_digest demo_codec b)"
    by (auto simp: content_digest_prefix demo_codec_def dest: in_set_replicate [THEN iffD1])
  show "content_digest demo_codec [5, 5] \<noteq> content_digest demo_codec [7]"
  proof
    assume "content_digest demo_codec [5, 5] = content_digest demo_codec [7]"
    then have "rev (content_digest demo_codec [5, 5]) ! 1 = rev (content_digest demo_codec [7]) ! 1" by simp
    then show False by (simp add: content_digest_prefix demo_codec_def nth_append)
  qed
  show "content_digest demo_codec b \<noteq> ''sig''"
    by (simp add: content_digest_prefix)
qed

lemma referrers_repo_is_referrer:
  "is_referrer subject_codec (content_digest demo_codec [7]) referrers_repo k mf \<longleftrightarrow>
     k = content_digest demo_codec [5, 5] \<and> mf = referrer_mf"
proof -
  have sig: "new_hash ''sig'' = None" by (simp add: new_hash_def Let_def)
  have sub: "decode_subject subject_codec b = (if b = [5, 5] then Some demo_desc else None)" for b
    by (simp add: subject_codec_def)
  show ?thesis
    using demo_digests(4) [of "[7]", symmetric]
    by (auto simp: is_referrer_def referrers_repo_def lookup_update' sub sig referrer_mf_def demo_mf_def
        content_digest_parses [OF wf_demo_codec])
qed

subsection \<open>Tag listing\<close>

text \<open>
  C11: when some tag is greater than the \<open>last\<close> cursor, a GET of the tags list with a valid \<open>n\<close> answers the first \<open>n\<close> tags greater than the cursor, in sorted order, whatever the map iteration order.
\<close>

theorem tags_page_after_cursor:
  assumes it: "iter_order it" and fin: "finite (Mapping.keys r)"
    and get: "req_method req = ''GET''" and path: "req_path req = tags_path repo"
    and r: "Mapping.lookup (mstore m) repo = Some r"
    and cur: "query_get (req_query req) ''last'' = cur" "cur \<noteq> []"
    and after: "\<exists>t \<in> tag_keys r. cur < t"
    and n: "query_get (req_query req) ''n'' = nat_to_dec n" "int n \<le> int64_max"
  shows "handle_tags c it m req =
           tags_response c repo False (take n (filter ((<) cur) (sorted_list_of_set (tag_keys r))))"
proof -
  let ?ts = "sorted_list_of_set (tag_keys r)"
  have fin_t: "finite (tag_keys r)" using fin by (simp add: tag_keys_def)
  have t0: "tags_of it r = ?ts" using it fin by (rule tags_of_eq)
  have ex: "\<exists>t \<in> set ?ts. cur < t" using after fin_t by simp
  have ne: "?ts \<noteq> []" using ex by auto
  have ta: "tags_after cur ?ts = Some (filter ((<) cur) ?ts)"
    using ex by (simp add: tags_after_sorted)
  have a: "go_atoi (nat_to_dec n) = (int n, None)"
    using n(2) by (simp add: go_atoi_nat_to_dec)
  have "nat_to_dec n \<noteq> []" by simp
  then show ?thesis
    using handle_tags_GET [OF get path r, of c it] t0 ta ne cur n(1) a
    by (simp add: Let_def)
qed

text \<open>
  C14: when no tag is greater than a non-empty \<open>last\<close> cursor, the code answers the whole sorted tag list instead of an empty page.
\<close>

theorem tags_cursor_past_end:
  assumes it: "iter_order it" and fin: "finite (Mapping.keys r)"
    and get: "req_method req = ''GET''" and path: "req_path req = tags_path repo"
    and r: "Mapping.lookup (mstore m) repo = Some r"
    and cur: "query_get (req_query req) ''last'' = cur" "cur \<noteq> []"
    and past: "\<forall>t \<in> tag_keys r. \<not> cur < t"
    and n: "query_get (req_query req) ''n'' = []"
  shows "handle_tags c it m req = tags_response c repo (tag_keys r = {}) (sorted_list_of_set (tag_keys r))"
proof -
  let ?ts = "sorted_list_of_set (tag_keys r)"
  have fin_t: "finite (tag_keys r)" using fin by (simp add: tag_keys_def)
  have t0: "tags_of it r = ?ts" using it fin by (rule tags_of_eq)
  have "tags_after cur ?ts = None"
    using past fin_t by (simp add: tags_after_sorted)
  then show ?thesis
    using handle_tags_GET [OF get path r, of c it] t0 cur n fin_t by (simp add: Let_def)
qed

text \<open>
  C15: a negative \<open>n\<close> on a repository with at least one tag makes the handler slice with a negative bound and panic.
\<close>

theorem tags_negative_n_panics:
  assumes it: "iter_order it" and fin: "finite (Mapping.keys r)"
    and get: "req_method req = ''GET''" and path: "req_path req = tags_path repo"
    and r: "Mapping.lookup (mstore m) repo = Some r"
    and nonempty: "tag_keys r \<noteq> {}"
    and n: "go_atoi (query_get (req_query req) ''n'') = (n, None)" "n < 0"
  shows "handle_tags c it m req = Panicked"
proof -
  have ne0: "tags_of it r \<noteq> []" using tags_of_empty_iff [OF it fin] nonempty by simp
  have ns: "query_get (req_query req) ''n'' \<noteq> []"
    using n(1) by (auto simp: go_atoi_def)
  have "(case tags_after cur (tags_of it r) of None \<Rightarrow> tags_of it r | Some ts \<Rightarrow> ts) \<noteq> []" for cur
    using ne0 tags_after_Some_nonempty by (auto split: option.split)
  then show ?thesis
    using handle_tags_GET [OF get path r, of c it] ne0 ns n by (auto simp: Let_def)
qed

text \<open>
  C16: an \<open>n\<close> that \<open>strconv.Atoi\<close> rejects is answered with 400 BAD_REQUEST carrying the parse error.
\<close>

theorem tags_bad_n:
  assumes get: "req_method req = ''GET''" and path: "req_path req = tags_path repo"
    and r: "Mapping.lookup (mstore m) repo = Some r"
    and ns: "query_get (req_query req) ''n'' = ns" "ns \<noteq> []" and e: "go_atoi ns = (v, Some e)"
  shows "handle_tags c it m req = Failed (err_bad_n ns e) \<and> err_status (err_bad_n ns e) = 400"
  using handle_tags_GET [OF get path r, of c it] ns e by (simp add: Let_def err_bad_n_def)

theorem tags_page_after_cursor_witness:
  "handle_tags demo_codec sorted_list_of_set abcd_store (tags_request ''r'' [(''last'', ''b''), (''n'', ''1'')])
     = tags_response demo_codec ''r'' False [''c'']"
proof -
  have "nat_to_dec 1 = ''1''" by code_simp
  then have "handle_tags demo_codec sorted_list_of_set abcd_store (tags_request ''r'' [(''last'', ''b''), (''n'', ''1'')])
     = tags_response demo_codec ''r'' False (take 1 (filter ((<) ''b'') (sorted_list_of_set (tag_keys abcd_repo))))"
    by (intro tags_page_after_cursor [OF iter_order_sorted]) (auto simp: int64_max_def)
  also have "\<dots> = tags_response demo_codec ''r'' False [''c'']"
    by (simp add: abcd_sorted)
  finally show ?thesis .
qed

theorem tags_cursor_past_end_witness:
  "handle_tags demo_codec sorted_list_of_set abcd_store (tags_request ''r'' [(''last'', ''z'')])
     = tags_response demo_codec ''r'' False [''a'', ''b'', ''c'', ''d'']"
proof -
  have "handle_tags demo_codec sorted_list_of_set abcd_store (tags_request ''r'' [(''last'', ''z'')])
     = tags_response demo_codec ''r'' (tag_keys abcd_repo = {}) (sorted_list_of_set (tag_keys abcd_repo))"
    by (intro tags_cursor_past_end [OF iter_order_sorted]) auto
  then show ?thesis by (simp add: abcd_sorted)
qed

theorem tags_negative_n_panics_witness:
  "handle_tags demo_codec sorted_list_of_set abcd_store (tags_request ''r'' [(''n'', ''-1'')]) = Panicked"
  by (rule tags_negative_n_panics [OF iter_order_sorted, where r = abcd_repo and repo = "''r''" and n = "-1"])
     (auto simp: go_atoi_def is_digit_def dec_value_def digit_val_def int64_max_def int64_min_def)

theorem tags_bad_n_witness:
  "handle_tags demo_codec sorted_list_of_set abcd_store (tags_request ''r'' [(''n'', ''x'')])
     = Failed (err_bad_n ''x'' ErrSyntax)"
  using tags_bad_n [of "tags_request ''r'' [(''n'', ''x'')]" "''r''" abcd_store abcd_repo "''x''" 0 ErrSyntax]
  by (simp add: go_atoi_def is_digit_def)

subsection \<open>Catalog\<close>

text \<open>
  C13: a GET of the catalog answers distinct repository names of the registry, exactly as many as the smaller of \<open>n\<close> (10000 by default) and the number of repositories.
\<close>

theorem catalog_lists_prefix:
  assumes it: "iter_order it" and fin: "finite (Mapping.keys (mstore m))"
    and get: "req_method req = ''GET''"
    and n: "n = (if query_get (req_query req) ''n'' \<noteq> [] then fst (go_atoi (query_get (req_query req) ''n'')) else 10000)"
  shows "\<exists>repos. handle_catalog c it m req = Done (json_response c (JCatalog (if repos = [] then None else Some repos)))
           \<and> distinct repos \<and> set repos \<subseteq> Mapping.keys (mstore m)
           \<and> length repos = min (nat n) (card (Mapping.keys (mstore m)))"
proof -
  let ?ks = "it (Mapping.keys (mstore m))"
  have d: "distinct ?ks" and s: "set ?ks = Mapping.keys (mstore m)"
    using iter_order_keys [OF it fin] by auto
  have "handle_catalog c it m req =
          Done (json_response c (JCatalog (if take (nat n) ?ks = [] then None else Some (take (nat n) ?ks))))"
    using get n by (simp add: handle_catalog_def Let_def catalog_loop_take)
  moreover have "length ?ks = card (Mapping.keys (mstore m))"
    using d s distinct_card by fastforce
  ultimately show ?thesis
    using d s by (intro exI [of _ "take (nat n) ?ks"]) (auto dest: in_set_takeD)
qed

lemma distinct_hd_last: "distinct xs \<Longrightarrow> Suc 0 < length xs \<Longrightarrow> hd xs \<noteq> last xs"
  by (cases xs) (auto dest: last_in_set)

text \<open>
  C18: the catalog page depends on Go's map iteration order: whenever the registry holds more repositories than the page size \<open>n \<ge> 1\<close>, the ascending and the descending enumeration, both valid iteration orders, give different answers.
\<close>

theorem catalog_order_dependent:
  assumes fin: "finite (Mapping.keys (mstore m))" and get: "req_method req = ''GET''"
    and n: "n = (if query_get (req_query req) ''n'' \<noteq> [] then fst (go_atoi (query_get (req_query req) ''n'')) else 10000)"
    and pos: "0 < n" and more: "nat n < card (Mapping.keys (mstore m))"
  shows "iter_order sorted_list_of_set \<and> iter_order (\<lambda>K. rev (sorted_list_of_set K))
         \<and> handle_catalog c sorted_list_of_set m req \<noteq> handle_catalog c (\<lambda>K. rev (sorted_list_of_set K)) m req"
proof -
  let ?ks = "sorted_list_of_set (Mapping.keys (mstore m))"
  have d: "distinct ?ks" and len: "length ?ks = card (Mapping.keys (mstore m))"
    using fin by simp_all
  then have two: "Suc 0 < length ?ks" using pos more by linarith
  have "hd ?ks \<noteq> last ?ks"
    using d two by (rule distinct_hd_last)
  moreover have "hd (take (nat n) ?ks) = hd ?ks" and "hd (take (nat n) (rev ?ks)) = last ?ks"
    using pos two by (simp_all add: hd_rev)
  ultimately have ne: "take (nat n) ?ks \<noteq> take (nat n) (rev ?ks)" by metis
  have nn: "?ks \<noteq> []" using two by (metis list.size(3) not_less0)
  have ne0: "take (nat n) ?ks \<noteq> []" "take (nat n) (rev ?ks) \<noteq> []"
    using pos nn by simp_all
  have "handle_catalog c sorted_list_of_set m req = Done (json_response c (JCatalog (Some (take (nat n) ?ks))))"
    and "handle_catalog c (\<lambda>K. rev (sorted_list_of_set K)) m req
           = Done (json_response c (JCatalog (Some (take (nat n) (rev ?ks)))))"
    using get n ne0 by (simp_all add: handle_catalog_def Let_def catalog_loop_take)
  moreover have "json_response c (JCatalog (Some (take (nat n) ?ks)))
                   \<noteq> json_response c (JCatalog (Some (take (nat n) (rev ?ks))))"
  proof
    assume "json_response c (JCatalog (Some (take (nat n) ?ks)))
              = json_response c (JCatalog (Some (take (nat n) (rev ?ks))))"
    then have "resp_body (json_response c (JCatalog (Some (take (nat n) ?ks))))
                 = resp_body (json_response c (JCatalog (Some (take (nat n) (rev ?ks)))))" by (rule arg_cong)
    with ne show False by (simp only: json_response_body body.inject json_value.inject option.inject)
  qed
  ultimately show ?thesis using iter_order_sorted iter_order_rev_sorted by simp
qed

theorem catalog_lists_prefix_witness:
  "\<exists>repos. handle_catalog demo_codec sorted_list_of_set two_store (catalog_request [(''n'', ''1'')])
       = Done (json_response demo_codec (JCatalog (if repos = [] then None else Some repos)))
     \<and> length repos = 1"
proof -
  have "finite (Mapping.keys (mstore two_store))" by (simp add: two_store_keys)
  from catalog_lists_prefix [OF iter_order_sorted this, of "catalog_request [(''n'', ''1'')]" 1 demo_codec]
  show ?thesis by (auto simp: catalog_request_def go_atoi_1 two_store_keys)
qed

subsection \<open>Referrers\<close>

text \<open>
  C12: for a valid target digest and a known repository, the referrers answer lists each manifest stored under a digest key whose subject is the target exactly once, with its media type, size and key as digest, and nothing else.
\<close>

theorem referrers_exact:
  assumes get: "req_method req = ''GET''" and path: "req_path req = referrers_path repo target"
    and slash: "CHR ''/'' \<notin> set target" and valid: "new_hash target \<noteq> None"
    and r: "Mapping.lookup (mstore m) repo = Some r"
    and it: "iter_order it" and fin: "finite (Mapping.keys r)"
  shows "\<exists>ds. handle_referrers c it m req = Done (json_response c (JIndex ds)) \<and> distinct ds
            \<and> set ds = {referrer_entry c k mf | k mf. is_referrer c target r k mf}"
proof -
  let ?ds = "referrers_scan c target r (it (Mapping.keys r))"
  have d: "distinct (it (Mapping.keys r))" and s: "set (it (Mapping.keys r)) = Mapping.keys r"
    using iter_order_keys [OF it fin] by auto
  have "handle_referrers c it m req = Done (json_response c (JIndex ?ds))"
    using get path slash valid r referrers_path_facts [OF slash, of repo]
    by (simp add: handle_referrers_def Let_def)
  moreover have "distinct (map d_digest ?ds)"
    using d by (simp add: referrers_scan_digests)
  moreover have "set ?ds = {referrer_entry c k mf | k mf. is_referrer c target r k mf}"
    using s by (auto simp: set_referrers_scan is_referrer_def mapping_in_keys_iff)
  ultimately show ?thesis by (auto simp: distinct_map)
qed

text \<open>
  C17: a target that is not a valid digest is answered with 400 UNSUPPORTED before the repository is looked up.
\<close>

theorem referrers_bad_target:
  assumes "req_method req = ''GET''" and "req_path req = referrers_path repo target"
    and "CHR ''/'' \<notin> set target" and "new_hash target = None"
  shows "handle_referrers c it m req = Failed err_unsupported"
  using assms referrers_path_facts [OF assms(3), of repo] by (simp add: handle_referrers_def Let_def)

theorem referrers_exact_witness:
  "\<exists>ds. handle_referrers subject_codec sorted_list_of_set \<lparr>mstore = Mapping.update ''r'' referrers_repo Mapping.empty\<rparr>
          (referrers_request ''r'' (content_digest demo_codec [7]))
        = Done (json_response subject_codec (JIndex ds))
      \<and> set ds = {referrer_entry subject_codec (content_digest demo_codec [5, 5]) referrer_mf}"
proof -
  have "finite (Mapping.keys referrers_repo)" by (simp add: referrers_repo_def)
  from referrers_exact [OF _ _ _ _ _ iter_order_sorted this,
      of "referrers_request ''r'' (content_digest demo_codec [7])" "''r''" "content_digest demo_codec [7]"
         "\<lparr>mstore = Mapping.update ''r'' referrers_repo Mapping.empty\<rparr>" subject_codec]
  obtain ds where "handle_referrers subject_codec sorted_list_of_set \<lparr>mstore = Mapping.update ''r'' referrers_repo Mapping.empty\<rparr>
          (referrers_request ''r'' (content_digest demo_codec [7])) = Done (json_response subject_codec (JIndex ds))"
    and "set ds = {referrer_entry subject_codec k mf |k mf. is_referrer subject_codec (content_digest demo_codec [7]) referrers_repo k mf}"
    by auto
  then show ?thesis by (auto simp: referrers_repo_is_referrer)
qed

theorem referrers_bad_target_witness:
  "handle_referrers demo_codec sorted_list_of_set empty_manifests (referrers_request ''nowhere'' ''latest'')
     = Failed err_unsupported"
proof (rule referrers_bad_target)
  show "new_hash ''latest'' = None" by (simp add: new_hash_def Let_def)
qed simp_all

theorem catalog_order_dependent_witness:
  "handle_catalog demo_codec sorted_list_of_set two_store (catalog_request [(''n'', ''1'')])
     \<noteq> handle_catalog demo_codec (\<lambda>K. rev (sorted_list_of_set K)) two_store (catalog_request [(''n'', ''1'')])"
proof -
  have fin: "finite (Mapping.keys (mstore two_store))" by (simp add: two_store_keys)
  have more: "nat 1 < card (Mapping.keys (mstore two_store))" by (simp add: two_store_keys)
  have n: "(1::int) = (if query_get (req_query (catalog_request [(''n'', ''1'')])) ''n'' \<noteq> []
              then fst (go_atoi (query_get (req_query (catalog_request [(''n'', ''1'')])) ''n'')) else 10000)"
    by (simp add: catalog_request_def go_atoi_1)
  have get: "req_method (catalog_request [(''n'', ''1'')]) = ''GET''" by (simp add: catalog_request_def)
  from catalog_order_dependent [OF fin get n _ more, of demo_codec] show ?thesis by simp
qed

end
