(* ===== verification/Ocimem.thy ===== *)
theory Ocimem
  imports Http
begin

text \<open>
  The in-memory backend of \<^verbatim>\<open>src/ocimem/registry.go\<close>: a registry maps
  repository names to repositories (tags, manifests and blobs, each a Go map), a lookup
  that answers an empty repository for an unknown name, \<open>makeRepo\<close> that validates
  the name and creates the repository once, the two regular expressions for tags and
  repository names, and \<open>CheckDescriptor\<close>. The repository-name expression is
  implemented by a three-state automaton (\<open>is_valid_repo_name\<close>) and proved equal to
  the grammar the expression denotes (\<open>re_repo_name\<close>).
\<close>

record blob =
  b_media_type :: string
  b_data :: bytes

text \<open>
  A Go map field is \<open>None\<close> while it is nil (reads see it empty, writes panic) and
  \<open>Some\<close> once made.
\<close>

record repository =
  r_tags :: "(string, descriptor) mapping option"
  r_manifests :: "(string, blob) mapping option"
  r_blobs :: "(string, blob) mapping option"

record registry =
  repos :: "(string, repository) mapping"

definition blob_descriptor :: "codec \<Rightarrow> blob \<Rightarrow> descriptor" where
  "blob_descriptor c b =
     \<lparr>d_media_type = b_media_type b, d_size = int (length (b_data b)),
      d_digest = content_digest c (b_data b), d_artifact_type = []\<rparr>"

definition new_registry :: registry where
  "new_registry = \<lparr>repos = Mapping.empty\<rparr>"

text \<open>\<open>noRepo = new(repository)\<close>: the shared sentinel whose maps are all nil.\<close>

definition no_repo :: repository where
  "no_repo = \<lparr>r_tags = None, r_manifests = None, r_blobs = None\<rparr>"

text \<open>The repository \<open>makeRepo\<close> allocates, with its three maps made.\<close>

definition new_repo :: repository where
  "new_repo = \<lparr>r_tags = Some Mapping.empty, r_manifests = Some Mapping.empty, r_blobs = Some Mapping.empty\<rparr>"

definition repo_lookup :: "registry \<Rightarrow> string \<Rightarrow> repository" where
  "repo_lookup reg name = (case Mapping.lookup (repos reg) name of Some r \<Rightarrow> r | None \<Rightarrow> no_repo)"

subsection \<open>The name grammars\<close>

definition lower_alnum :: "char \<Rightarrow> bool" where
  "lower_alnum ch \<longleftrightarrow> (CHR ''a'' \<le> ch \<and> ch \<le> CHR ''z'') \<or> (CHR ''0'' \<le> ch \<and> ch \<le> CHR ''9'')"

definition is_name_sep :: "char \<Rightarrow> bool" where
  "is_name_sep ch \<longleftrightarrow> ch = CHR ''.'' \<or> ch = CHR ''_'' \<or> ch = CHR ''-''"

text \<open>
  The grammar of \<open>^[a-z0-9]+([._-][a-z0-9]+)*(/[a-z0-9]+([._-][a-z0-9]+)*)*$\<close>, one
  predicate per level of the expression, each starred group as a rule that appends
  one more repetition on the right.
\<close>

inductive re_alnums :: "string \<Rightarrow> bool" where
  one: "lower_alnum ch \<Longrightarrow> re_alnums [ch]"
| more: "lower_alnum ch \<Longrightarrow> re_alnums w \<Longrightarrow> re_alnums (ch # w)"

inductive re_component :: "string \<Rightarrow> bool" where
  alnums: "re_alnums w \<Longrightarrow> re_component w"
| sep: "re_component w \<Longrightarrow> is_name_sep ch \<Longrightarrow> re_alnums v \<Longrightarrow> re_component (w @ ch # v)"

inductive re_repo_name :: "string \<Rightarrow> bool" where
  component: "re_component w \<Longrightarrow> re_repo_name w"
| slash: "re_repo_name w \<Longrightarrow> re_component v \<Longrightarrow> re_repo_name (w @ CHR ''/'' # v)"

text \<open>
  The automaton: at the start of a component (\<open>RnStart\<close>), inside a run of
  alphanumerics (\<open>RnAlnum\<close>, the only accepting state), after a separator
  (\<open>RnSep\<close>).
\<close>

datatype rn_state = RnStart | RnAlnum | RnSep

fun rn_step :: "rn_state \<Rightarrow> char \<Rightarrow> rn_state option" where
  "rn_step RnStart ch = (if lower_alnum ch then Some RnAlnum else None)"
| "rn_step RnAlnum ch =
     (if lower_alnum ch then Some RnAlnum
      else if is_name_sep ch then Some RnSep
      else if ch = CHR ''/'' then Some RnStart
      else None)"
| "rn_step RnSep ch = (if lower_alnum ch then Some RnAlnum else None)"

fun rn_run :: "rn_state \<Rightarrow> string \<Rightarrow> rn_state option" where
  "rn_run q [] = Some q"
| "rn_run q (ch # cs) = (case rn_step q ch of None \<Rightarrow> None | Some q' \<Rightarrow> rn_run q' cs)"

definition is_valid_repo_name :: "string \<Rightarrow> bool" where
  "is_valid_repo_name s \<longleftrightarrow> rn_run RnStart s = Some RnAlnum"

text \<open>\<open>^[a-zA-Z0-9_][a-zA-Z0-9._-]{0,127}$\<close>\<close>

definition tag_first_char :: "char \<Rightarrow> bool" where
  "tag_first_char ch \<longleftrightarrow> (CHR ''a'' \<le> ch \<and> ch \<le> CHR ''z'') \<or> (CHR ''A'' \<le> ch \<and> ch \<le> CHR ''Z'')
     \<or> (CHR ''0'' \<le> ch \<and> ch \<le> CHR ''9'') \<or> ch = CHR ''_''"

definition tag_char :: "char \<Rightarrow> bool" where
  "tag_char ch \<longleftrightarrow> tag_first_char ch \<or> ch = CHR ''.'' \<or> ch = CHR ''-''"

definition is_valid_tag :: "string \<Rightarrow> bool" where
  "is_valid_tag s \<longleftrightarrow>
     (case s of [] \<Rightarrow> False | ch # rest \<Rightarrow> tag_first_char ch \<and> list_all tag_char rest \<and> length rest \<le> 127)"

subsection \<open>\<open>makeRepo\<close> and \<open>CheckDescriptor\<close>\<close>

definition make_repo :: "registry \<Rightarrow> string \<Rightarrow> registry \<times> (string + repository)" where
  "make_repo reg name =
     (if \<not> is_valid_repo_name name then (reg, Inl (''invalid repository name '' @ go_quote name))
      else case Mapping.lookup (repos reg) name of
             Some r \<Rightarrow> (reg, Inr r)
           | None \<Rightarrow> (reg\<lparr>repos := Mapping.update name new_repo (repos reg)\<rparr>, Inr new_repo))"

text \<open>\<open>data = None\<close> is the nil slice: only the descriptor's own sanity is checked.\<close>

definition check_descriptor :: "codec \<Rightarrow> descriptor \<Rightarrow> bytes option \<Rightarrow> string option" where
  "check_descriptor c desc data =
     (case data of
        Some bs \<Rightarrow>
          if content_digest c bs \<noteq> d_digest desc then Some ''digest mismatch''
          else if d_size desc \<noteq> int (length bs) then Some ''size mismatch''
          else if d_media_type desc = [] then Some ''no media type in descriptor''
          else None
      | None \<Rightarrow>
          if d_size desc = 0 then Some ''zero sized content''
          else if d_media_type desc = [] then Some ''no media type in descriptor''
          else None)"

definition valid_repo_names :: "registry \<Rightarrow> bool" where
  "valid_repo_names reg \<longleftrightarrow> (\<forall>name \<in> Mapping.keys (repos reg). is_valid_repo_name name)"

subsection \<open>The automaton recognises the grammar\<close>

lemma rn_run_append:
  "rn_run q (xs @ ys) = (case rn_run q xs of None \<Rightarrow> None | Some q' \<Rightarrow> rn_run q' ys)"
  by (induction q xs rule: rn_run.induct) (auto split: option.split)

lemma rn_run_snoc:
  "rn_run q (xs @ [ch]) = (case rn_run q xs of None \<Rightarrow> None | Some q' \<Rightarrow> rn_step q' ch)"
  by (simp add: rn_run_append split: option.split)

lemma char_classes [simp]:
  "is_name_sep ch \<Longrightarrow> \<not> lower_alnum ch"
  "\<not> lower_alnum CHR ''/''" "\<not> is_name_sep CHR ''/''"
  by (auto simp: lower_alnum_def is_name_sep_def less_eq_char_def)

lemma rn_step_alnum: "lower_alnum ch \<Longrightarrow> rn_step q ch = Some RnAlnum"
  by (cases q) auto

lemma re_alnums_run: "re_alnums w \<Longrightarrow> rn_run q w = Some RnAlnum"
  by (induction w arbitrary: q rule: re_alnums.induct) (simp_all add: rn_step_alnum)

lemma re_component_run: "re_component w \<Longrightarrow> rn_run RnStart w = Some RnAlnum"
  by (induction w rule: re_component.induct) (auto simp: re_alnums_run rn_run_append)

lemma re_repo_name_run: "re_repo_name w \<Longrightarrow> rn_run RnStart w = Some RnAlnum"
  by (induction w rule: re_repo_name.induct) (auto simp: re_component_run rn_run_append)

lemma re_alnums_snoc: "re_alnums w \<Longrightarrow> lower_alnum ch \<Longrightarrow> re_alnums (w @ [ch])"
  by (induction w rule: re_alnums.induct) (auto intro: re_alnums.intros)

lemma re_component_snoc: "re_component w \<Longrightarrow> lower_alnum ch \<Longrightarrow> re_component (w @ [ch])"
proof (induction w rule: re_component.induct)
  case (alnums w)
  then show ?case by (auto intro: re_component.alnums re_alnums_snoc)
next
  case (sep w c v)
  then have "re_component (w @ c # (v @ [ch]))"
    by (auto intro: re_component.sep re_alnums_snoc)
  then show ?case by simp
qed

lemma re_repo_name_snoc: "re_repo_name w \<Longrightarrow> lower_alnum ch \<Longrightarrow> re_repo_name (w @ [ch])"
proof (induction w rule: re_repo_name.induct)
  case (component w)
  then show ?case by (auto intro: re_repo_name.component re_component_snoc)
next
  case (slash w v)
  then have "re_repo_name (w @ CHR ''/'' # (v @ [ch]))"
    by (auto intro: re_repo_name.slash re_component_snoc)
  then show ?case by simp
qed

lemma re_repo_name_sep:
  "re_repo_name w \<Longrightarrow> is_name_sep c \<Longrightarrow> lower_alnum ch \<Longrightarrow> re_repo_name (w @ [c, ch])"
proof (induction w rule: re_repo_name.induct)
  case (component w)
  then have "re_component (w @ c # [ch])"
    by (auto intro: re_component.sep re_alnums.one)
  then show ?case by (auto intro: re_repo_name.component)
next
  case (slash w v)
  then have "re_component (v @ c # [ch])"
    by (auto intro: re_component.sep re_alnums.one)
  with slash have "re_repo_name (w @ CHR ''/'' # (v @ c # [ch]))"
    by (auto intro: re_repo_name.slash)
  then show ?case by simp
qed

lemma re_repo_name_one: "lower_alnum ch \<Longrightarrow> re_repo_name [ch]"
  by (auto intro: re_repo_name.component re_component.alnums re_alnums.one)

lemma re_repo_name_slash_one:
  "re_repo_name w \<Longrightarrow> lower_alnum ch \<Longrightarrow> re_repo_name (w @ [CHR ''/'', ch])"
  using re_repo_name.slash [of w "[ch]"]
  by (auto intro: re_component.alnums re_alnums.one)

text \<open>What each state of the automaton has read so far.\<close>

lemma rn_run_states:
  "(rn_run RnStart s = Some RnAlnum \<longrightarrow> re_repo_name s)
   \<and> (rn_run RnStart s = Some RnSep \<longrightarrow> (\<exists>w c. s = w @ [c] \<and> is_name_sep c \<and> re_repo_name w))
   \<and> (rn_run RnStart s = Some RnStart \<longrightarrow> s = [] \<or> (\<exists>w. s = w @ [CHR ''/''] \<and> re_repo_name w))"
proof (induction s rule: rev_induct)
  case Nil
  then show ?case by simp
next
  case (snoc ch s)
  show ?case
  proof (cases "rn_run RnStart s")
    case None
    then show ?thesis by (simp add: rn_run_snoc)
  next
    case (Some q)
    then show ?thesis
    proof (cases q)
      case RnStart
      with Some snoc.IH show ?thesis
        by (auto simp: rn_run_snoc re_repo_name_one re_repo_name_slash_one split: if_splits)
    next
      case RnAlnum
      with Some snoc.IH show ?thesis
        by (auto simp: rn_run_snoc re_repo_name_snoc split: if_splits)
    next
      case RnSep
      with Some snoc.IH show ?thesis
        by (auto simp: rn_run_snoc re_repo_name_sep split: if_splits)
    qed
  qed
qed

text \<open>
  The automaton implements the expression: it accepts exactly the strings of \<open>^[a-z0-9]+([._-][a-z0-9]+)*(/[a-z0-9]+([._-][a-z0-9]+)*)*$\<close> of \<open>isValidRepoName\<close>.
\<close>

theorem repo_name_regex_equiv: "is_valid_repo_name s \<longleftrightarrow> re_repo_name s"
  using rn_run_states [of s] re_repo_name_run [of s] by (auto simp: is_valid_repo_name_def)

lemma valid_repo_name_examples:
  "is_valid_repo_name ''library/ubuntu''" "\<not> is_valid_repo_name ''Library''"
  by (simp_all add: is_valid_repo_name_def lower_alnum_def is_name_sep_def)

lemma colon_not_tag_char [simp]: "\<not> tag_char CHR '':''" "\<not> tag_first_char CHR '':''"
  by (auto simp: tag_char_def tag_first_char_def less_eq_char_def)

subsection \<open>The repository table\<close>

text \<open>
  C19: a successful \<open>makeRepo\<close> has a valid name; after it \<open>repo\<close> answers the returned repository for that name (if the name was new, a freshly allocated repository whose maps are made, unlike the nil-map sentinel \<open>noRepo\<close> that \<open>repo\<close> answers for an absent name) and the same as before for every other name.
\<close>

theorem make_repo_lookup:
  assumes "make_repo reg name = (reg', Inr r)"
  shows "is_valid_repo_name name \<and> repo_lookup reg' name = r
         \<and> (\<forall>n. n \<noteq> name \<longrightarrow> repo_lookup reg' n = repo_lookup reg n)
         \<and> (Mapping.lookup (repos reg) name = None \<longrightarrow> r = new_repo)"
  using assms
  by (auto simp: make_repo_def repo_lookup_def lookup_update' split: if_splits option.splits)

text \<open>
  C20: \<open>makeRepo\<close> keeps every repository name in the registry valid.
\<close>

theorem make_repo_valid_names:
  "valid_repo_names reg \<Longrightarrow> valid_repo_names (fst (make_repo reg name))"
  by (auto simp: make_repo_def valid_repo_names_def split: option.split)

text \<open>
  C21: \<open>makeRepo\<close> of an invalid name fails with the quoted name and leaves the registry unchanged.
\<close>

theorem make_repo_invalid:
  "\<not> is_valid_repo_name name \<Longrightarrow> make_repo reg name = (reg, Inl (''invalid repository name '' @ go_quote name))"
  by (simp add: make_repo_def)

theorem make_repo_idempotent:
  "make_repo (fst (make_repo reg name)) name = (fst (make_repo reg name), snd (make_repo reg name))"
  by (auto simp: make_repo_def split: option.split)

subsection \<open>Tags and descriptors\<close>

text \<open>
  C22: no string accepted by the tag expression \<open>^[a-zA-Z0-9_][a-zA-Z0-9._-]{0,127}$\<close> parses as a digest: tags and digests cannot be confused in this backend.
\<close>

theorem valid_tag_not_digest: "is_valid_tag t \<Longrightarrow> new_hash t = None"
proof -
  assume v: "is_valid_tag t"
  have "CHR '':'' \<notin> set t"
    using v by (auto simp: is_valid_tag_def list_all_iff split: list.splits)
  then have "split_on CHR '':'' t = [t]" by (rule split_on_no_sep)
  then show ?thesis by (simp add: new_hash_def)
qed

text \<open>
  C23: \<open>CheckDescriptor\<close> with data accepts a descriptor only if its digest is the digest of the data, its size the length of the data, and its media type non-empty.
\<close>

theorem check_descriptor_sound:
  "check_descriptor c desc (Some bs) = None \<Longrightarrow>
     d_digest desc = content_digest c bs \<and> d_size desc = int (length bs) \<and> d_media_type desc \<noteq> []"
  by (auto simp: check_descriptor_def split: if_splits)

text \<open>
  C24: the descriptor a stored blob computes for itself passes \<open>CheckDescriptor\<close> against the blob's data whenever the blob has a media type.
\<close>

theorem blob_descriptor_checks:
  "b_media_type b \<noteq> [] \<Longrightarrow> check_descriptor c (blob_descriptor c b) (Some (b_data b)) = None"
  by (simp add: check_descriptor_def blob_descriptor_def)

theorem make_repo_valid_names_witness:
  "valid_repo_names (fst (make_repo (fst (make_repo new_registry ''library/ubuntu'')) ''Library''))"
proof -
  have "valid_repo_names new_registry" by (simp add: valid_repo_names_def new_registry_def)
  then have "valid_repo_names (fst (make_repo new_registry ''library/ubuntu''))" by (rule make_repo_valid_names)
  then show ?thesis by (rule make_repo_valid_names)
qed

theorem make_repo_lookup_witness:
  "repo_lookup (fst (make_repo new_registry ''library/ubuntu'')) ''library/ubuntu'' = new_repo
   \<and> repo_lookup new_registry ''library/ubuntu'' = no_repo
   \<and> repo_lookup (fst (make_repo new_registry ''library/ubuntu'')) ''other'' = repo_lookup new_registry ''other''"
proof -
  have "make_repo new_registry ''library/ubuntu'' = (fst (make_repo new_registry ''library/ubuntu''), Inr new_repo)"
    using valid_repo_name_examples(1) by (simp add: make_repo_def new_registry_def)
  from make_repo_lookup [OF this] show ?thesis by (simp add: repo_lookup_def new_registry_def)
qed

theorem make_repo_invalid_witness:
  "make_repo new_registry ''Library'' = (new_registry, Inl (''invalid repository name '' @ go_quote ''Library''))"
  using make_repo_invalid [OF valid_repo_name_examples(2)] .

theorem valid_tag_not_digest_witness: "is_valid_tag ''v1.0-rc_2'' \<and> new_hash ''v1.0-rc_2'' = None"
proof -
  have "is_valid_tag ''v1.0-rc_2''"
    by (simp add: is_valid_tag_def tag_char_def tag_first_char_def less_eq_char_def)
  with valid_tag_not_digest show ?thesis by blast
qed

theorem check_descriptor_sound_witness:
  "check_descriptor demo_codec (blob_descriptor demo_codec \<lparr>b_media_type = ''text/plain'', b_data = [1, 2]\<rparr>) (Some [1, 2]) = None
   \<and> d_size (blob_descriptor demo_codec \<lparr>b_media_type = ''text/plain'', b_data = [1, 2]\<rparr>) = 2"
proof -
  have c: "check_descriptor demo_codec (blob_descriptor demo_codec \<lparr>b_media_type = ''text/plain'', b_data = [1, 2]\<rparr>) (Some [1, 2]) = None"
    by (simp add: check_descriptor_def blob_descriptor_def)
  from check_descriptor_sound [OF c] c show ?thesis by simp
qed

theorem blob_descriptor_checks_witness:
  "check_descriptor demo_codec (blob_descriptor demo_codec \<lparr>b_media_type = ''text/plain'', b_data = [1, 2]\<rparr>) (Some [1, 2]) = None"
  using blob_descriptor_checks [of "\<lparr>b_media_type = ''text/plain'', b_data = [1, 2]\<rparr>" demo_codec] by simp

end
