(* ===== verification/Dispatcher.thy ===== *)
theory Dispatcher
  imports Http
begin

text \<open>
  The protocol dispatcher of \<^verbatim>\<open>src/ociserver/registry.go\<close>: the server value that
  \<open>New\<close> builds from a backend and \<open>Options\<close> (with the package-wide \<open>int32\<close>
  counter that names servers), the handler table \<open>handlers\<close> indexed by request
  kind, \<open>v2\<close> that parses a request and calls the handler of its kind, the ping
  handler, and \<open>handlerErrorForRequestParseError\<close> that gives each kind of parse
  error its HTTP status. The request parser \<open>ocirequest.Parse\<close> and the backend
  handlers other than ping live outside the sources: they are parameters, so the
  theorems hold for every parser and every backend.
\<close>

subsection \<open>Requests and errors\<close>

text \<open>The request kinds of \<open>ocirequest\<close>, in the order of the handler table.\<close>

datatype req_kind =
    ReqPing | ReqBlobGet | ReqBlobHead | ReqBlobDelete | ReqBlobStartUpload
  | ReqBlobUploadBlob | ReqBlobMount | ReqBlobUploadInfo | ReqBlobUploadChunk
  | ReqBlobCompleteUpload | ReqManifestGet | ReqManifestHead | ReqManifestPut
  | ReqManifestDelete | ReqTagsList | ReqReferrersList | ReqCatalogList

record oci_request =
  rq_kind :: req_kind
  rq_repo :: string
  rq_digest :: string
  rq_tag :: string
  rq_upload_id :: string

text \<open>
  The \<open>Err\<close> field of an \<open>ocirequest.ParseError\<close>: the four sentinel errors the
  dispatcher distinguishes, or any other error value.
\<close>

datatype parse_err_kind =
    ErrNotFound | ErrBadlyFormedDigest | ErrMethodNotAllowed | ErrBadRequest
  | ErrParseOther string

text \<open>
  The Go \<open>error\<close> values on this path: a \<open>*ocirequest.ParseError\<close>, an error wrapped
  by \<open>withHTTPCode\<close> with a status (it unwraps to the wrapped error), any other error.
\<close>

datatype go_error =
    ParseError parse_err_kind string
  | HTTPError nat go_error
  | OtherError string

text \<open>\<open>errors.As(err, &perr)\<close> for \<open>*ocirequest.ParseError\<close>: the first one on the unwrap chain.\<close>

fun as_parse_error :: "go_error \<Rightarrow> parse_err_kind option" where
  "as_parse_error (ParseError k msg) = Some k"
| "as_parse_error (HTTPError code e) = as_parse_error e"
| "as_parse_error (OtherError msg) = None"

text \<open>The status \<open>writeError\<close> sends: the outermost HTTP code on the chain, else 500.\<close>

fun error_status :: "go_error \<Rightarrow> nat" where
  "error_status (HTTPError code e) = code"
| "error_status (ParseError k msg) = 500"
| "error_status (OtherError msg) = 500"

definition handler_error_for_request_parse_error :: "go_error option \<Rightarrow> go_error option" where
  "handler_error_for_request_parse_error err =
     (case err of
        None \<Rightarrow> None
      | Some e \<Rightarrow>
          (case as_parse_error e of
             None \<Rightarrow> Some e
           | Some ErrNotFound \<Rightarrow> Some (HTTPError 404 e)
           | Some ErrBadlyFormedDigest \<Rightarrow> Some (HTTPError 400 e)
           | Some ErrMethodNotAllowed \<Rightarrow> Some (HTTPError 405 e)
           | Some ErrBadRequest \<Rightarrow> Some (HTTPError 400 e)
           | Some (ErrParseOther x) \<Rightarrow> Some e))"

subsection \<open>The response writer\<close>

text \<open>
  The part of \<open>http.ResponseWriter\<close> the dispatcher touches: the header map
  (\<open>Header().Set\<close> replaces every value of the key) and the status, \<open>None\<close> until
  \<open>WriteHeader\<close> is called (Go then sends 200).
\<close>

record resp_writer =
  rw_headers :: "(string \<times> string) list"
  rw_status :: "nat option"

definition header_set :: "string \<Rightarrow> string \<Rightarrow> resp_writer \<Rightarrow> resp_writer" where
  "header_set k v rw = rw\<lparr>rw_headers := (k, v) # filter (\<lambda>(k', _). k' \<noteq> k) (rw_headers rw)\<rparr>"

definition header_get :: "resp_writer \<Rightarrow> string \<Rightarrow> string" where
  "header_get rw k = (case map_of (rw_headers rw) k of Some v \<Rightarrow> v | None \<Rightarrow> [])"

definition final_status :: "resp_writer \<Rightarrow> nat" where
  "final_status rw = (case rw_status rw of Some s \<Rightarrow> s | None \<Rightarrow> 200)"

text \<open>\<open>writeError\<close>: the status of the error (its JSON body is not modelled).\<close>

definition write_error :: "resp_writer \<Rightarrow> go_error \<Rightarrow> resp_writer" where
  "write_error rw e = rw\<lparr>rw_status := Some (error_status e)\<rparr>"

subsection \<open>The server and \<open>New\<close>\<close>

record options =
  opt_disable_referrers_api :: bool
  opt_location_for_upload_id :: "(string \<Rightarrow> string + string) option"
  opt_debug_id :: string

record 'b server =
  srv_backend :: 'b
  srv_referrers_enabled :: bool
  srv_debug_id :: string

definition default_options :: options where
  "default_options =
     \<lparr>opt_disable_referrers_api = False, opt_location_for_upload_id = None, opt_debug_id = []\<rparr>"

text \<open>\<open>fmt.Sprintf("ociserver%d", n)\<close> of the signed counter value.\<close>

definition fresh_debug_id :: "int32 \<Rightarrow> string" where
  "fresh_debug_id n = ''ociserver'' @ int_to_dec (sint n)"

text \<open>
  \<open>New(backend, opts)\<close> with the package counter \<open>debugID\<close> as explicit state:
  \<open>atomic.AddInt32\<close> adds with wrap-around. \<open>opts\<close> is a pointer: the Options the
  caller holds afterwards (with \<open>DebugID\<close> filled in) are returned too.
\<close>

definition new_server :: "int32 \<Rightarrow> 'b \<Rightarrow> options option \<Rightarrow> int32 \<times> options \<times> 'b server" where
  "new_server ctr backend opts =
     (let o0 = (case opts of None \<Rightarrow> default_options | Some op \<Rightarrow> op);
          (ctr', o1) = (if opt_debug_id o0 = [] then (ctr + 1, o0\<lparr>opt_debug_id := fresh_debug_id (ctr + 1)\<rparr>)
                        else (ctr, o0))
      in (ctr', o1, \<lparr>srv_backend = backend, srv_referrers_enabled = \<not> opt_disable_referrers_api o1,
                     srv_debug_id = opt_debug_id o1\<rparr>))"

subsection \<open>The handler table and \<open>v2\<close>\<close>

datatype handler_name =
    HandlePing | HandleBlobGet | HandleBlobHead | HandleBlobDelete | HandleBlobStartUpload
  | HandleBlobUploadBlob | HandleBlobMount | HandleBlobUploadInfo | HandleBlobUploadChunk
  | HandleBlobCompleteUpload | HandleManifestGet | HandleManifestHead | HandleManifestPut
  | HandleManifestDelete | HandleTagsList | HandleReferrersList | HandleCatalogList

text \<open>
  The keyed slice literal \<open>handlers\<close>: an index absent from the literal would be a nil
  function, and calling it panics.
\<close>

definition handlers :: "(req_kind \<times> handler_name) list" where
  "handlers =
     [(ReqPing, HandlePing), (ReqBlobGet, HandleBlobGet), (ReqBlobHead, HandleBlobHead),
      (ReqBlobDelete, HandleBlobDelete), (ReqBlobStartUpload, HandleBlobStartUpload),
      (ReqBlobUploadBlob, HandleBlobUploadBlob), (ReqBlobMount, HandleBlobMount),
      (ReqBlobUploadInfo, HandleBlobUploadInfo), (ReqBlobUploadChunk, HandleBlobUploadChunk),
      (ReqBlobCompleteUpload, HandleBlobCompleteUpload), (ReqManifestGet, HandleManifestGet),
      (ReqManifestHead, HandleManifestHead), (ReqManifestPut, HandleManifestPut),
      (ReqManifestDelete, HandleManifestDelete), (ReqTagsList, HandleTagsList),
      (ReqReferrersList, HandleReferrersList), (ReqCatalogList, HandleCatalogList)]"

type_synonym request_parser = "http_request \<Rightarrow> go_error + oci_request"

type_synonym 'b handler_impl =
  "handler_name \<Rightarrow> 'b server \<Rightarrow> resp_writer \<Rightarrow> http_request \<Rightarrow> oci_request \<Rightarrow> resp_writer \<times> go_error option"

definition set_api_version :: "resp_writer \<Rightarrow> resp_writer" where
  "set_api_version rw = header_set ''Docker-Distribution-API-Version'' ''registry/2.0'' rw"

definition handle_ping :: "resp_writer \<Rightarrow> oci_request \<Rightarrow> resp_writer \<times> go_error option" where
  "handle_ping rw rreq = (set_api_version rw, None)"

fun run_handler :: "'b handler_impl \<Rightarrow> handler_name \<Rightarrow> 'b server \<Rightarrow> resp_writer \<Rightarrow> http_request
                      \<Rightarrow> oci_request \<Rightarrow> resp_writer \<times> go_error option" where
  "run_handler impl HandlePing s rw req rreq = handle_ping rw rreq"
| "run_handler impl h s rw req rreq = impl h s rw req rreq"

text \<open>\<open>None\<close> is a panic (a call of a nil handler).\<close>

definition v2 :: "request_parser \<Rightarrow> 'b handler_impl \<Rightarrow> 'b server \<Rightarrow> resp_writer \<Rightarrow> http_request
                    \<Rightarrow> (resp_writer \<times> go_error option) option" where
  "v2 parse impl s rw req =
     (case parse req of
        Inl err \<Rightarrow> Some (set_api_version rw, handler_error_for_request_parse_error (Some err))
      | Inr rreq \<Rightarrow>
          (case map_of handlers (rq_kind rreq) of
             None \<Rightarrow> None
           | Some h \<Rightarrow> Some (run_handler impl h s rw req rreq)))"

definition serve_http :: "request_parser \<Rightarrow> 'b handler_impl \<Rightarrow> 'b server \<Rightarrow> resp_writer \<Rightarrow> http_request
                            \<Rightarrow> resp_writer option" where
  "serve_http parse impl s rw req =
     (case v2 parse impl s rw req of
        None \<Rightarrow> None
      | Some (rw', None) \<Rightarrow> Some rw'
      | Some (rw', Some e) \<Rightarrow> Some (write_error rw' e))"

subsection \<open>Example values\<close>

text \<open>A fresh response writer, a ping request, a parser that recognises only the ping path, and a backend that answers nothing.\<close>

definition empty_writer :: resp_writer where
  "empty_writer = \<lparr>rw_headers = [], rw_status = None\<rparr>"

definition ping_request :: http_request where
  "ping_request = \<lparr>req_method = ''GET'', req_path = ''/v2/'', req_query = [], req_content_type = [], req_body = []\<rparr>"

definition not_found_request :: http_request where
  "not_found_request = ping_request\<lparr>req_path := ''/v3/''\<rparr>"

definition ping_parser :: request_parser where
  "ping_parser req =
     (if req_path req = ''/v2/'' then Inr \<lparr>rq_kind = ReqPing, rq_repo = [], rq_digest = [], rq_tag = [], rq_upload_id = []\<rparr>
      else Inl (ParseError ErrNotFound ''page not found''))"

definition null_backend :: "unit handler_impl" where
  "null_backend h s rw req rreq = (rw, None)"

subsection \<open>Dispatch\<close>

lemma handlers_total: "map_of handlers k \<noteq> None"
  by (cases k) (simp_all add: handlers_def)

lemma handlers_distinct: "distinct (map snd handlers)"
  by (simp add: handlers_def)

lemma set_api_version_get [simp]:
  "header_get (set_api_version rw) ''Docker-Distribution-API-Version'' = ''registry/2.0''"
  by (simp add: set_api_version_def header_set_def header_get_def)

lemma set_api_version_status [simp]: "rw_status (set_api_version rw) = rw_status rw"
  by (simp add: set_api_version_def header_set_def)

lemma fresh_debug_id_not_Nil [simp]: "fresh_debug_id n \<noteq> []"
  by (simp add: fresh_debug_id_def)

text \<open>
  C25: \<open>v2\<close> never calls a nil handler, whatever the parser returns: every request kind has an entry in the handler table, and no two kinds share a handler.
\<close>

theorem v2_total_injective:
  "v2 parse impl s rw req \<noteq> None \<and> inj (map_of handlers)"
proof
  show "v2 parse impl s rw req \<noteq> None"
  proof (cases "parse req")
    case (Inr rreq)
    then show ?thesis using handlers_total [of "rq_kind rreq"] by (auto simp: v2_def)
  qed (simp add: v2_def)
  show "inj (map_of handlers)"
  proof (rule injI)
    fix k1 k2 assume eq: "map_of handlers k1 = map_of handlers k2"
    obtain h where "map_of handlers k1 = Some h" using handlers_total [of k1] by blast
    with eq show "k1 = k2" by (metis map_of_distinct_snd_inj [OF handlers_distinct])
  qed
qed

text \<open>
  C26: a request parsed as a ping is answered by the ping handler: no error, the \<open>Docker-Distribution-API-Version: registry/2.0\<close> header set, and the status left as it was (200 on a fresh writer).
\<close>

theorem ping_succeeds:
  assumes "parse req = Inr rreq" and "rq_kind rreq = ReqPing"
  shows "serve_http parse impl s rw req = Some (set_api_version rw)
         \<and> header_get (set_api_version rw) ''Docker-Distribution-API-Version'' = ''registry/2.0''
         \<and> final_status (set_api_version rw) = final_status rw"
  using assms by (simp add: serve_http_def v2_def handlers_def handle_ping_def final_status_def)

text \<open>
  C27: a request that fails to parse is answered with the API-version header and the status of its parse error: 404 for not found, 405 for a method not allowed, 400 for a badly formed digest or a bad request; any other error keeps its own status.
\<close>

theorem parse_error_response:
  assumes "parse req = Inl e"
  shows "\<exists>rw'. serve_http parse impl s rw req = Some rw'
     \<and> header_get rw' ''Docker-Distribution-API-Version'' = ''registry/2.0''
     \<and> final_status rw' =
         (case as_parse_error e of
            Some ErrNotFound \<Rightarrow> 404 | Some ErrMethodNotAllowed \<Rightarrow> 405
          | Some ErrBadlyFormedDigest \<Rightarrow> 400 | Some ErrBadRequest \<Rightarrow> 400 | _ \<Rightarrow> error_status e)"
  using assms
  by (auto simp: serve_http_def v2_def handler_error_for_request_parse_error_def write_error_def
        final_status_def set_api_version_def header_set_def header_get_def
      split: option.split parse_err_kind.split)

theorem parse_error_mapping_keeps_cause:
  "handler_error_for_request_parse_error None = None
   \<and> (\<exists>e'. handler_error_for_request_parse_error (Some e) = Some e'
           \<and> as_parse_error e' = as_parse_error e \<and> (e' = e \<or> (\<exists>c. e' = HTTPError c e)))"
  by (auto simp: handler_error_for_request_parse_error_def split: option.split parse_err_kind.split)

subsection \<open>\<open>New\<close> and the debug counter\<close>

theorem new_server_referrers:
  "srv_referrers_enabled (snd (snd (new_server ctr b opts)))
     = (case opts of None \<Rightarrow> True | Some op \<Rightarrow> \<not> opt_disable_referrers_api op)"
  by (simp add: new_server_def default_options_def Let_def split: option.split prod.split)

theorem fresh_debug_id_inj: "fresh_debug_id a = fresh_debug_id b \<longleftrightarrow> a = b"
  using int_to_dec_inj [of "sint a" "sint b"] sint32_int64_range [of a] sint32_int64_range [of b]
  by (auto simp: fresh_debug_id_def intro: sint_inj)

text \<open>
  C28: while the \<open>int32\<close> counter has not wrapped, the server that \<open>New\<close> creates after k earlier ones (with nil options) is named \<open>ociserver\<close> followed by the decimal k + 1, and has the referrers API enabled.
\<close>

theorem new_server_names_in_order:
  assumes "k < 2 ^ 31 - 1"
  shows "new_server (word_of_nat k) b None =
           (word_of_nat (k + 1), default_options\<lparr>opt_debug_id := ''ociserver'' @ nat_to_dec (k + 1)\<rparr>,
            \<lparr>srv_backend = b, srv_referrers_enabled = True, srv_debug_id = ''ociserver'' @ nat_to_dec (k + 1)\<rparr>)"
proof -
  have w: "(word_of_nat k + 1 :: int32) = word_of_nat (k + 1)" by simp
  have "sint (word_of_nat (k + 1) :: int32) = int (k + 1)"
    using assms by (intro sint_of_nat_small) simp
  then have "fresh_debug_id (word_of_nat k + 1) = ''ociserver'' @ nat_to_dec (k + 1)"
    unfolding w fresh_debug_id_def int_to_dec_def by (simp only: of_nat_less_0_iff nat_int if_False)
  then show ?thesis by (simp add: new_server_def default_options_def)
qed

text \<open>
  C29: the counter wraps: every server created after 2147483647 and before 4294967295 earlier ones (nil options) is named with a negative number, \<open>ociserver-\<close> followed by the decimal of 2^32 minus its position, starting with \<open>ociserver-2147483648\<close>.
\<close>

theorem new_server_counter_wraps:
  assumes lo: "2 ^ 31 - 1 \<le> k" and hi: "k < 2 ^ 32 - 1"
  shows "new_server (word_of_nat k) b None =
           (word_of_nat (k + 1), default_options\<lparr>opt_debug_id := ''ociserver-'' @ nat_to_dec (2 ^ 32 - (k + 1))\<rparr>,
            \<lparr>srv_backend = b, srv_referrers_enabled = True,
             srv_debug_id = ''ociserver-'' @ nat_to_dec (2 ^ 32 - (k + 1))\<rparr>)"
proof -
  have w: "(word_of_nat k + 1 :: int32) = word_of_nat (k + 1)" by simp
  have s: "sint (word_of_nat (k + 1) :: int32) = int (k + 1) - 2 ^ 32"
    using lo hi by (intro sint_of_nat_wrapped) simp_all
  have "nat (- (int (k + 1) - 2 ^ 32)) = 2 ^ 32 - (k + 1)" using hi by simp
  with s hi have "fresh_debug_id (word_of_nat k + 1) = ''ociserver-'' @ nat_to_dec (2 ^ 32 - (k + 1))"
    unfolding w fresh_debug_id_def int_to_dec_def by simp
  then show ?thesis by (simp add: new_server_def default_options_def)
qed

text \<open>
  C30: \<open>New\<close> writes the debug ID it picks into the caller's \<open>Options\<close>: a second \<open>New\<close> with the same options reuses that ID and does not advance the counter.
\<close>

theorem new_server_reuses_options:
  assumes "new_server ctr b (Some op) = (ctr1, op1, s1)"
  shows "new_server ctr1 b' (Some op1) = (ctr1, op1, s1\<lparr>srv_backend := b'\<rparr>)"
  using assms by (auto simp: new_server_def Let_def split: if_splits)

theorem ping_succeeds_witness:
  "serve_http ping_parser null_backend (snd (snd (new_server 0 () None))) empty_writer ping_request
     = Some (set_api_version empty_writer)
   \<and> final_status (set_api_version empty_writer) = 200"
proof -
  have "ping_parser ping_request = Inr \<lparr>rq_kind = ReqPing, rq_repo = [], rq_digest = [], rq_tag = [], rq_upload_id = []\<rparr>"
    by (simp add: ping_parser_def ping_request_def)
  from ping_succeeds [where parse = ping_parser and req = ping_request, OF this] show ?thesis by (simp add: final_status_def empty_writer_def)
qed

theorem parse_error_response_witness:
  "\<exists>rw'. serve_http ping_parser null_backend (snd (snd (new_server 0 () None))) empty_writer not_found_request = Some rw'
     \<and> header_get rw' ''Docker-Distribution-API-Version'' = ''registry/2.0'' \<and> final_status rw' = 404"
proof -
  have "ping_parser not_found_request = Inl (ParseError ErrNotFound ''page not found'')"
    by (simp add: ping_parser_def not_found_request_def ping_request_def)
  from parse_error_response [where parse = ping_parser and req = not_found_request, OF this] show ?thesis by simp
qed

theorem new_server_names_in_order_witness:
  "srv_debug_id (snd (snd (new_server 41 () None))) = ''ociserver42''"
proof -
  have "(41 :: nat) < 2 ^ 31 - 1" by simp
  from new_server_names_in_order [OF this, of "()"] show ?thesis by (simp add: nat_to_dec.simps)
qed

theorem new_server_reuses_options_witness:
  "new_server 1 () (Some (default_options\<lparr>opt_debug_id := ''ociserver1''\<rparr>))
     = (1, default_options\<lparr>opt_debug_id := ''ociserver1''\<rparr>,
        \<lparr>srv_backend = (), srv_referrers_enabled = True, srv_debug_id = ''ociserver1''\<rparr>)"
proof -
  have "fresh_debug_id 1 = ''ociserver1''" by (simp add: fresh_debug_id_def int_to_dec_def nat_to_dec.simps)
  then have "new_server 0 () (Some default_options)
     = (1, default_options\<lparr>opt_debug_id := ''ociserver1''\<rparr>,
        \<lparr>srv_backend = (), srv_referrers_enabled = True, srv_debug_id = ''ociserver1''\<rparr>)"
    by (simp add: new_server_def default_options_def)
  from new_server_reuses_options [OF this, of "()"] show ?thesis by simp
qed

theorem new_server_counter_wraps_witness:
  "srv_debug_id (snd (snd (new_server 0x7FFFFFFF () None))) = ''ociserver-2147483648''"
proof -
  have "2 ^ 31 - 1 \<le> (2147483647 :: nat)" and "(2147483647 :: nat) < 2 ^ 32 - 1" by simp_all
  from new_server_counter_wraps [OF this, of "()"] show ?thesis by (simp add: nat_to_dec.simps)
qed

end
