(* ===== verification/Reader.thy ===== *)
theory Reader
  imports Dispatcher Routes
begin

text \<open>
  The client's read calls of \<^verbatim>\<open>src/ociregistry/ociclient/reader.go\<close>: \<open>GetBlob\<close>,
  \<open>GetBlobRange\<close> (with its \<open>Range\<close> header built from two \<open>int64\<close> offsets),
  \<open>ResolveBlob\<close>, \<open>ResolveManifest\<close>, \<open>ResolveTag\<close>, \<open>GetManifest\<close>,
  \<open>GetTag\<close> and the helpers \<open>resolve\<close> and \<open>read\<close>. The client's transport is a
  field of the \<open>client\<close> record, so the theorems hold for any server. The helpers of
  the client package that are not among the sources (\<open>Request.Construct\<close>, \<open>do\<close>,
  \<open>doRequest\<close>, \<open>descriptorFromResponse\<close>) and the server side of a byte range
  are modelled from the specification and the protocol.
\<close>

subsection \<open>Wire values and the client\<close>

record out_request =
  out_method :: string
  out_url :: string
  out_headers :: "(string \<times> string) list"

record in_response =
  in_status :: nat
  in_headers :: "(string \<times> string) list"
  in_body :: bytes

text \<open>A transport answers a request with a response or fails with an error message.\<close>

record client =
  cl_transport :: "out_request \<Rightarrow> string + in_response"

record blob_reader =
  br_body :: bytes
  br_desc :: descriptor

definition resp_header :: "in_response \<Rightarrow> string \<Rightarrow> string" where
  "resp_header resp k = (case map_of (in_headers resp) k of Some v \<Rightarrow> v | None \<Rightarrow> [])"

subsection \<open>Helpers of the client package\<close>

definition blob_path :: "string \<Rightarrow> string \<Rightarrow> string" where
  "blob_path repo dig = ''/v2/'' @ repo @ ''/blobs/'' @ dig"

text \<open>\<open>Request.Construct\<close> for the kinds the read calls build; a manifest is named by its tag when there is one.\<close>

definition construct :: "oci_request \<Rightarrow> string \<times> string" where
  "construct rreq =
     (let ref = (if rq_tag rreq \<noteq> [] then rq_tag rreq else rq_digest rreq) in
      case rq_kind rreq of
        ReqBlobGet \<Rightarrow> (''GET'', blob_path (rq_repo rreq) (rq_digest rreq))
      | ReqBlobHead \<Rightarrow> (''HEAD'', blob_path (rq_repo rreq) (rq_digest rreq))
      | ReqManifestGet \<Rightarrow> (''GET'', manifest_path (rq_repo rreq) ref)
      | ReqManifestHead \<Rightarrow> (''HEAD'', manifest_path (rq_repo rreq) ref)
      | _ \<Rightarrow> (''GET'', ''/v2/''))"

text \<open>\<open>c.do(req, ok...)\<close>: an answer whose status is not among the expected ones is an error.\<close>

definition client_do :: "client \<Rightarrow> out_request \<Rightarrow> nat list \<Rightarrow> string + in_response" where
  "client_do cl req oks =
     (case cl_transport cl req of
        Inl e \<Rightarrow> Inl e
      | Inr resp \<Rightarrow>
          if in_status resp \<in> set oks then Inr resp
          else Inl (''unexpected HTTP response status '' @ nat_to_dec (in_status resp)))"

definition do_request :: "client \<Rightarrow> oci_request \<Rightarrow> string + in_response" where
  "do_request cl rreq =
     (let (method, u) = construct rreq
      in client_do cl \<lparr>out_method = method, out_url = u, out_headers = []\<rparr> [200])"

text \<open>
  \<open>descriptorFromResponse(resp, knownDigest, requireSize)\<close>: the media type from
  \<open>Content-Type\<close> (default \<open>application/octet-stream\<close>), the size from the total of
  \<open>Content-Range\<close> for a 206 answer and from \<open>Content-Length\<close> otherwise, the digest
  from \<open>Docker-Content-Digest\<close>, checked, or the known digest when the header is absent.
\<close>

definition descriptor_from_response :: "in_response \<Rightarrow> string \<Rightarrow> bool \<Rightarrow> string + descriptor" where
  "descriptor_from_response resp known require_size =
     (let ct0 = resp_header resp ''Content-Type'';
          ct = (if ct0 = [] then ''application/octet-stream'' else ct0);
          size =
            (if \<not> require_size then Inr (- 1)
             else if in_status resp = 206 then
               (let cr = resp_header resp ''Content-Range'' in
                if cr = [] then Inl ''no Content-Range in partial content response''
                else if CHR ''/'' \<notin> set cr then Inl (''malformed Content-Range '' @ go_quote cr)
                else (case go_atoi (last (split_on CHR ''/'' cr)) of
                        (n, None) \<Rightarrow> Inr n
                      | _ \<Rightarrow> Inl (''malformed Content-Range '' @ go_quote cr)))
             else (case go_atoi (resp_header resp ''Content-Length'') of
                     (n, None) \<Rightarrow> if 0 \<le> n then Inr n else Inl ''unknown content length''
                   | _ \<Rightarrow> Inl ''unknown content length''));
          dh = resp_header resp ''Docker-Content-Digest''
      in case size of
           Inl e \<Rightarrow> Inl e
         | Inr sz \<Rightarrow>
             if dh \<noteq> [] \<and> new_hash dh = None then Inl (''bad digest '' @ go_quote dh @ '' found in response'')
             else Inr \<lparr>d_media_type = ct, d_size = sz, d_digest = (if dh = [] then known else dh),
                       d_artifact_type = []\<rparr>)"

subsection \<open>The read calls\<close>

text \<open>The common tail of \<open>read\<close> and \<open>GetBlobRange\<close>: the descriptor, then the reader over the body.\<close>

definition reader_of :: "in_response \<Rightarrow> string \<Rightarrow> string + blob_reader" where
  "reader_of resp dig =
     (case descriptor_from_response resp dig True of
        Inl e \<Rightarrow> Inl (''invalid descriptor in response: '' @ e)
      | Inr d \<Rightarrow> Inr \<lparr>br_body = in_body resp, br_desc = d\<rparr>)"

definition read :: "client \<Rightarrow> oci_request \<Rightarrow> string + blob_reader" where
  "read cl rreq =
     (case do_request cl rreq of
        Inl e \<Rightarrow> Inl e
      | Inr resp \<Rightarrow> reader_of resp (rq_digest rreq))"

definition get_blob :: "client \<Rightarrow> string \<Rightarrow> string \<Rightarrow> string + blob_reader" where
  "get_blob cl repo dig =
     read cl \<lparr>rq_kind = ReqBlobGet, rq_repo = repo, rq_digest = dig, rq_tag = [], rq_upload_id = []\<rparr>"

text \<open>\<open>fmt.Sprintf("bytes=%d-", o0)\<close> or \<open>fmt.Sprintf("bytes=%d-%d", o0, o1-1)\<close>, with \<open>o1-1\<close> in \<open>int64\<close>.\<close>

definition range_header :: "int64 \<Rightarrow> int64 \<Rightarrow> string" where
  "range_header o0 o1 =
     (if sint o1 < 0 then ''bytes='' @ int_to_dec (sint o0) @ ''-''
      else ''bytes='' @ int_to_dec (sint o0) @ ''-'' @ int_to_dec (sint (o1 - 1)))"

definition get_blob_range :: "client \<Rightarrow> string \<Rightarrow> string \<Rightarrow> int64 \<Rightarrow> int64 \<Rightarrow> string + blob_reader" where
  "get_blob_range cl repo dig o0 o1 =
     (if o0 = 0 \<and> sint o1 < 0 then get_blob cl repo dig
      else
        let rreq = \<lparr>rq_kind = ReqBlobGet, rq_repo = repo, rq_digest = dig, rq_tag = [], rq_upload_id = []\<rparr>;
            (method, u) = construct rreq;
            req = \<lparr>out_method = method, out_url = u, out_headers = [(''Range'', range_header o0 o1)]\<rparr>
        in case client_do cl req [200, 206] of
             Inl e \<Rightarrow> Inl e
           | Inr resp \<Rightarrow> reader_of resp (rq_digest rreq))"

definition resolve :: "client \<Rightarrow> oci_request \<Rightarrow> string + descriptor" where
  "resolve cl rreq =
     (case do_request cl rreq of
        Inl e \<Rightarrow> Inl e
      | Inr resp \<Rightarrow>
          (case descriptor_from_response resp [] True of
             Inl e \<Rightarrow> Inl (''invalid descriptor in response: '' @ e)
           | Inr d \<Rightarrow> Inr d))"

definition resolve_blob :: "client \<Rightarrow> string \<Rightarrow> string \<Rightarrow> string + descriptor" where
  "resolve_blob cl repo dig =
     resolve cl \<lparr>rq_kind = ReqBlobHead, rq_repo = repo, rq_digest = dig, rq_tag = [], rq_upload_id = []\<rparr>"

definition resolve_manifest :: "client \<Rightarrow> string \<Rightarrow> string \<Rightarrow> string + descriptor" where
  "resolve_manifest cl repo dig =
     resolve cl \<lparr>rq_kind = ReqManifestHead, rq_repo = repo, rq_digest = dig, rq_tag = [], rq_upload_id = []\<rparr>"

definition resolve_tag :: "client \<Rightarrow> string \<Rightarrow> string \<Rightarrow> string + descriptor" where
  "resolve_tag cl repo tag =
     resolve cl \<lparr>rq_kind = ReqManifestHead, rq_repo = repo, rq_digest = [], rq_tag = tag, rq_upload_id = []\<rparr>"

definition get_manifest :: "client \<Rightarrow> string \<Rightarrow> string \<Rightarrow> string + blob_reader" where
  "get_manifest cl repo dig =
     read cl \<lparr>rq_kind = ReqManifestGet, rq_repo = repo, rq_digest = dig, rq_tag = [], rq_upload_id = []\<rparr>"

definition get_tag :: "client \<Rightarrow> string \<Rightarrow> string \<Rightarrow> string + blob_reader" where
  "get_tag cl repo tag =
     read cl \<lparr>rq_kind = ReqManifestGet, rq_repo = repo, rq_digest = [], rq_tag = tag, rq_upload_id = []\<rparr>"

subsection \<open>The server side of a byte range\<close>

text \<open>
  How a server reads the single byte range \<open>bytes=first-[last]\<close> (inclusive bounds,
  \<open>last \<ge> first \<ge> 0\<close>): the pair of bounds, or \<open>None\<close> for a header it cannot satisfy.
\<close>

definition parse_range :: "string \<Rightarrow> (int \<times> int option) option" where
  "parse_range s =
     (if take 6 s \<noteq> ''bytes='' then None
      else case split_on CHR ''-'' (drop 6 s) of
        [a, b] \<Rightarrow>
          (case go_atoi a of
             (first, None) \<Rightarrow>
               if first < 0 then None
               else if b = [] then Some (first, None)
               else (case go_atoi b of
                       (lst, None) \<Rightarrow> if lst < first then None else Some (first, Some lst)
                     | _ \<Rightarrow> None)
           | _ \<Rightarrow> None)
      | _ \<Rightarrow> None)"

text \<open>
  A blob server that honours ranges (206 with the slice and \<open>Content-Range\<close>, 416 when the
  range starts past the end) and one that ignores the \<open>Range\<close> header (always 200).
\<close>

definition range_server :: "bytes \<Rightarrow> client" where
  "range_server blob =
     \<lparr>cl_transport = (\<lambda>req.
        case map_of (out_headers req) ''Range'' of
          None \<Rightarrow> Inr \<lparr>in_status = 200, in_headers = [(''Content-Length'', nat_to_dec (length blob))], in_body = blob\<rparr>
        | Some r \<Rightarrow>
            (case parse_range r of
               None \<Rightarrow> Inr \<lparr>in_status = 416, in_headers = [], in_body = []\<rparr>
             | Some (a, lst) \<Rightarrow>
                 let e = (case lst of None \<Rightarrow> length blob | Some l \<Rightarrow> min (length blob) (nat l + 1)) in
                 if length blob \<le> nat a then Inr \<lparr>in_status = 416, in_headers = [], in_body = []\<rparr>
                 else Inr \<lparr>in_status = 206,
                           in_headers = [(''Content-Range'', ''bytes '' @ nat_to_dec (nat a) @ ''-'' @ nat_to_dec (e - 1)
                                                            @ ''/'' @ nat_to_dec (length blob))],
                           in_body = take (e - nat a) (drop (nat a) blob)\<rparr>))\<rparr>"

definition full_server :: "bytes \<Rightarrow> client" where
  "full_server blob =
     \<lparr>cl_transport = (\<lambda>req.
        Inr \<lparr>in_status = 200, in_headers = [(''Content-Length'', nat_to_dec (length blob))], in_body = blob\<rparr>)\<rparr>"

subsection \<open>The contract of a ranged read\<close>

text \<open>What \<open>GetBlobRange(o0, o1)\<close> promises: the bytes of the blob from offset \<open>o0\<close> up to \<open>o1\<close>, or to the end when \<open>o1\<close> is negative.\<close>

definition blob_slice :: "bytes \<Rightarrow> int64 \<Rightarrow> int64 \<Rightarrow> bytes" where
  "blob_slice blob o0 o1 =
     take ((if sint o1 < 0 then length blob else nat (sint o1)) - nat (sint o0)) (drop (nat (sint o0)) blob)"

subsection \<open>The \<open>Range\<close> header\<close>

theorem range_header_roundtrip:
  assumes nn: "0 \<le> sint o0" and rng: "sint o1 < 0 \<or> sint o0 < sint o1"
  shows "parse_range (range_header o0 o1) = Some (sint o0, if sint o1 < 0 then None else Some (sint o1 - 1))"
proof -
  have a: "go_atoi (nat_to_dec (nat (sint o0))) = (sint o0, None)"
    using nn sint64_range [of o0] by (subst go_atoi_nat_int64) simp_all
  show ?thesis
  proof (cases "sint o1 < 0")
    case True
    then show ?thesis using nn a
      by (simp add: range_header_def parse_range_def int_to_dec_nonneg split_dec_dash)
  next
    case False
    with rng have lt: "sint o0 < sint o1" by simp
    with nn have m: "sint (o1 - 1) = sint o1 - 1" by (intro sint_minus_one) simp
    have b: "go_atoi (nat_to_dec (nat (sint o1 - 1))) = (sint o1 - 1, None)"
      using lt nn sint64_range [of o1] by (subst go_atoi_nat_int64) simp_all
    show ?thesis using False nn lt a b m
      by (simp add: range_header_def parse_range_def int_to_dec_nonneg split_dec_dash split_dec_only)
  qed
qed

lemma range_header_unsatisfiable:
  assumes "sint o0 < 0 \<or> (0 \<le> sint o1 \<and> sint o1 \<le> sint o0)"
  shows "\<not> (o0 = 0 \<and> sint o1 < 0) \<and> parse_range (range_header o0 o1) = None"
proof (cases "sint o0 < 0")
  case True
  then have "o0 \<noteq> 0" by auto
  moreover have "int_to_dec (sint o0) = CHR ''-'' # nat_to_dec (nat (- sint o0))"
    using True by (simp add: int_to_dec_def)
  ultimately show ?thesis
    by (simp add: range_header_def parse_range_def split_dec_dash split_on_case)
next
  case False
  with assms have o1: "0 \<le> sint o1" "sint o1 \<le> sint o0" by auto
  have a: "go_atoi (nat_to_dec (nat (sint o0))) = (sint o0, None)"
    using False sint64_range [of o0] by (subst go_atoi_nat_int64) simp_all
  show ?thesis
  proof (cases "sint o1 = 0")
    case True
    then have "o1 = 0" by (metis sint_0 sint_inj)
    moreover have "nat_to_dec 1 = ''1''" by (simp add: nat_to_dec.simps)
    ultimately show ?thesis using False o1
      by (simp add: range_header_def parse_range_def int_to_dec_def split_dec_dash split_on_case)
  next
    case nz: False
    with o1 have m: "sint (o1 - 1) = sint o1 - 1" by (intro sint_minus_one) simp
    have b: "go_atoi (nat_to_dec (nat (sint o1 - 1))) = (sint o1 - 1, None)"
      using o1 nz sint64_range [of o1] by (subst go_atoi_nat_int64) simp_all
    show ?thesis using False o1 nz a b m
      by (simp add: range_header_def parse_range_def int_to_dec_nonneg split_dec_dash split_dec_only)
  qed
qed

subsection \<open>Reads against a server\<close>

lemma full_response_descriptor:
  "int (length blob) \<le> int64_max \<Longrightarrow>
   descriptor_from_response \<lparr>in_status = 200, in_headers = [(''Content-Length'', nat_to_dec (length blob))], in_body = blob\<rparr> dig True
     = Inr \<lparr>d_media_type = ''application/octet-stream'', d_size = int (length blob), d_digest = dig, d_artifact_type = []\<rparr>"
  by (simp add: descriptor_from_response_def resp_header_def go_atoi_nat_int64)

lemma get_blob_full:
  assumes "int (length blob) \<le> int64_max"
    and "\<And>req. map_of (out_headers req) ''Range'' = None \<Longrightarrow> cl_transport cl req =
           Inr \<lparr>in_status = 200, in_headers = [(''Content-Length'', nat_to_dec (length blob))], in_body = blob\<rparr>"
  shows "get_blob cl repo dig =
           Inr \<lparr>br_body = blob, br_desc = \<lparr>d_media_type = ''application/octet-stream'', d_size = int (length blob),
                                          d_digest = dig, d_artifact_type = []\<rparr>\<rparr>"
  using assms
  by (simp add: get_blob_def read_def do_request_def client_do_def reader_of_def full_response_descriptor
        split: prod.split)

text \<open>
  C32: \<open>GetBlobRange\<close> does not guard against a negative \<open>o0\<close> or an empty range (\<open>0 \<le> o1 \<le> o0\<close>): it sends a \<open>Range\<close> header that does not parse as a satisfiable byte range (\<open>bytes=0--1\<close> for \<open>o0 = o1 = 0\<close>), so against a server that honours ranges the call fails with the server's 416 instead of returning an empty reader.
\<close>

theorem get_blob_range_unsatisfiable:
  assumes "sint o0 < 0 \<or> (0 \<le> sint o1 \<and> sint o1 \<le> sint o0)"
  shows "get_blob_range (range_server blob) repo dig o0 o1 = Inl ''unexpected HTTP response status 416''"
proof -
  have u: "\<not> (o0 = 0 \<and> sint o1 < 0)" and p: "parse_range (range_header o0 o1) = None"
    using range_header_unsatisfiable [OF assms] by simp_all
  have "nat_to_dec 416 = ''416''" by (simp add: nat_to_dec.simps)
  with p show ?thesis
    by (simp add: get_blob_range_def if_not_P [OF u] construct_def client_do_def range_server_def)
qed

text \<open>
  C31: against a server that honours byte ranges, \<open>GetBlobRange(o0, o1)\<close> returns exactly the slice of the blob from \<open>o0\<close> to \<open>o1\<close> (to the end for a negative \<open>o1\<close>), with the blob's full size and the requested digest in the descriptor, whenever \<open>0 \<le> o0\<close> is inside the blob and \<open>o0 < o1 \<le> length\<close> or \<open>o1 < 0\<close>.
\<close>

theorem get_blob_range_refines_slice:
  assumes nn: "0 \<le> sint o0" and inb: "sint o0 < int (length blob)" and fits: "int (length blob) \<le> int64_max"
    and rng: "sint o1 < 0 \<or> (sint o0 < sint o1 \<and> sint o1 \<le> int (length blob))"
  shows "get_blob_range (range_server blob) repo dig o0 o1 =
           Inr \<lparr>br_body = blob_slice blob o0 o1,
                br_desc = \<lparr>d_media_type = ''application/octet-stream'', d_size = int (length blob),
                           d_digest = dig, d_artifact_type = []\<rparr>\<rparr>"
proof (cases "o0 = 0 \<and> sint o1 < 0")
  case True
  have "get_blob (range_server blob) repo dig =
          Inr \<lparr>br_body = blob, br_desc = \<lparr>d_media_type = ''application/octet-stream'', d_size = int (length blob),
                                         d_digest = dig, d_artifact_type = []\<rparr>\<rparr>"
    using fits by (rule get_blob_full) (simp add: range_server_def)
  with True show ?thesis by (simp add: get_blob_range_def blob_slice_def)
next
  case False
  define a where "a = nat (sint o0)"
  define e where "e = (if sint o1 < 0 then length blob else nat (sint o1))"
  define cr where "cr = ''bytes '' @ nat_to_dec a @ ''-'' @ nat_to_dec (e - 1) @ ''/'' @ nat_to_dec (length blob)"
  define resp where "resp = \<lparr>in_status = 206, in_headers = [(''Content-Range'', cr)], in_body = take (e - a) (drop a blob)\<rparr>"
  define req where "req = \<lparr>out_method = ''GET'', out_url = blob_path repo dig, out_headers = [(''Range'', range_header o0 o1)]\<rparr>"
  have pr: "parse_range (range_header o0 o1) = Some (sint o0, if sint o1 < 0 then None else Some (sint o1 - 1))"
    using nn rng by (intro range_header_roundtrip) auto
  have ee: "(case (if sint o1 < 0 then None else Some (sint o1 - 1)) of None \<Rightarrow> length blob
            | Some l \<Rightarrow> min (length blob) (nat l + 1)) = e"
    using rng nn by (auto simp: e_def)
  have "\<not> length blob \<le> a" using inb nn by (simp add: a_def)
  with pr ee have t: "cl_transport (range_server blob) req = Inr resp"
    by (simp add: range_server_def req_def resp_def cr_def a_def Let_def)
  have "last (split_on CHR ''/'' ((''bytes '' @ nat_to_dec a @ ''-'' @ nat_to_dec (e - 1)) @ CHR ''/'' # nat_to_dec (length blob)))
          = nat_to_dec (length blob)"
    by (rule last_split_on_append) simp
  then have crl: "last (split_on CHR ''/'' cr) = nat_to_dec (length blob)" by (simp add: cr_def)
  have crs: "cr \<noteq> [] \<and> CHR ''/'' \<in> set cr" by (simp add: cr_def)
  have len: "go_atoi (nat_to_dec (length blob)) = (int (length blob), None)"
    using fits by (rule go_atoi_nat_int64)
  have d: "descriptor_from_response resp dig True =
             Inr \<lparr>d_media_type = ''application/octet-stream'', d_size = int (length blob), d_digest = dig, d_artifact_type = []\<rparr>"
    using crl crs len by (simp add: descriptor_from_response_def resp_header_def resp_def)
  have "get_blob_range (range_server blob) repo dig o0 o1 = reader_of resp dig"
    using t by (simp add: get_blob_range_def if_not_P [OF False] construct_def client_do_def req_def resp_def)
  with d show ?thesis by (simp add: reader_of_def resp_def blob_slice_def a_def e_def)
qed

text \<open>
  C33: against a server that ignores the \<open>Range\<close> header and answers 200, \<open>GetBlobRange\<close> returns the whole blob as if it were the requested range (the TODO of the source).
\<close>

theorem range_ignored_returns_whole_blob:
  assumes fits: "int (length blob) \<le> int64_max"
  shows "get_blob_range (full_server blob) repo dig o0 o1 =
           Inr \<lparr>br_body = blob, br_desc = \<lparr>d_media_type = ''application/octet-stream'', d_size = int (length blob),
                                          d_digest = dig, d_artifact_type = []\<rparr>\<rparr>"
proof -
  have g: "get_blob (full_server blob) repo dig =
          Inr \<lparr>br_body = blob, br_desc = \<lparr>d_media_type = ''application/octet-stream'', d_size = int (length blob),
                                         d_digest = dig, d_artifact_type = []\<rparr>\<rparr>"
    using fits by (rule get_blob_full) (simp add: full_server_def)
  show ?thesis
  proof (cases "o0 = 0 \<and> sint o1 < 0")
    case True
    with g show ?thesis by (simp add: get_blob_range_def)
  next
    case False
    with fits show ?thesis
      by (simp add: get_blob_range_def if_not_P [OF False] construct_def client_do_def full_server_def
          reader_of_def full_response_descriptor)
  qed
qed

lemma resolve_blob_drops_digest:
  assumes fits: "int (length blob) \<le> int64_max"
  shows "resolve_blob (full_server blob) repo dig =
           Inr \<lparr>d_media_type = ''application/octet-stream'', d_size = int (length blob), d_digest = [], d_artifact_type = []\<rparr>"
  using fits
  by (simp add: resolve_blob_def resolve_def do_request_def construct_def client_do_def full_server_def
      full_response_descriptor)

theorem get_blob_range_refines_slice_witness:
  "get_blob_range (range_server [1, 2, 3, 4, 5]) ''library/ubuntu'' ''sha256:00'' 1 3 =
     Inr \<lparr>br_body = [2, 3], br_desc = \<lparr>d_media_type = ''application/octet-stream'', d_size = 5,
                                     d_digest = ''sha256:00'', d_artifact_type = []\<rparr>\<rparr>"
proof -
  have h: "0 \<le> sint (1 :: int64)" "sint (1 :: int64) < int (length [1, 2, 3, 4, 5 :: 8 word])"
    "int (length [1, 2, 3, 4, 5 :: 8 word]) \<le> int64_max"
    "sint (3 :: int64) < 0 \<or> (sint (1 :: int64) < sint (3 :: int64) \<and> sint (3 :: int64) \<le> int (length [1, 2, 3, 4, 5 :: 8 word]))"
    by (simp_all add: int64_max_def)
  from get_blob_range_refines_slice [OF h, of "''library/ubuntu''" "''sha256:00''"] show ?thesis
    by (simp add: blob_slice_def)
qed

theorem range_ignored_returns_whole_blob_witness:
  "get_blob_range (full_server [1, 2, 3]) ''library/ubuntu'' ''sha256:00'' 1 2 =
     Inr \<lparr>br_body = [1, 2, 3], br_desc = \<lparr>d_media_type = ''application/octet-stream'', d_size = 3,
                                        d_digest = ''sha256:00'', d_artifact_type = []\<rparr>\<rparr>"
proof -
  have "int (length [1, 2, 3 :: 8 word]) \<le> int64_max" by (simp add: int64_max_def)
  from range_ignored_returns_whole_blob [OF this] show ?thesis by simp
qed

theorem get_blob_range_unsatisfiable_witness:
  "range_header 0 0 = ''bytes=0--1''
   \<and> get_blob_range (range_server [1, 2, 3]) ''library/ubuntu'' ''sha256:00'' 0 0
       = Inl ''unexpected HTTP response status 416''"
proof -
  have "sint (0 :: int64) < 0 \<or> (0 \<le> sint (0 :: int64) \<and> sint (0 :: int64) \<le> sint (0 :: int64))" by simp
  from get_blob_range_unsatisfiable [OF this, of "[1, 2, 3]" "''library/ubuntu''" "''sha256:00''"] show ?thesis
    by (simp add: range_header_def int_to_dec_def nat_to_dec.simps)
qed

end
