(* ===== verification/Upload.thy ===== *)
theory Upload
  imports Http
begin

text \<open>
  The blob-upload session manager of the specification (section 4.3). Its code is in
  files of the repository outside the sources (the upload handlers of the server and the
  backend's blob writer), so this theory models it from the specification: a store of
  upload sessions (each with its repository and the bytes accumulated so far) and of
  blobs keyed by repository and digest; one function per operation (start, mount, chunk,
  info, complete, monolithic upload, cancel); a step function over a datatype of
  operations and the set of reachable stores as an inductive predicate, so that the
  invariants are proved by rule induction.
\<close>

subsection \<open>State and results\<close>

record session =
  ses_repo :: string
  ses_data :: bytes

record upload_store =
  us_sessions :: "(string, session) mapping"
  us_blobs :: "(string \<times> string, bytes) mapping"
  us_next :: nat

datatype upload_error = ErrBlobUploadUnknown | ErrRangeInvalid | ErrDigestInvalid

datatype upload_result =
    SessionStarted string
  | ChunkAccepted nat
  | UploadOffset nat
  | BlobCreated string
  | SessionCancelled
  | UploadFailed upload_error

definition empty_uploads :: upload_store where
  "empty_uploads = \<lparr>us_sessions = Mapping.empty, us_blobs = Mapping.empty, us_next = 0\<rparr>"

subsection \<open>Operations\<close>

text \<open>\<open>StartUpload(repo)\<close>: a fresh opaque session ID, the decimal of a counter.\<close>

definition start_upload :: "upload_store \<Rightarrow> string \<Rightarrow> upload_store \<times> upload_result" where
  "start_upload st repo =
     (let sid = nat_to_dec (us_next st)
      in (st\<lparr>us_sessions := Mapping.update sid \<lparr>ses_repo = repo, ses_data = []\<rparr> (us_sessions st),
             us_next := Suc (us_next st)\<rparr>,
          SessionStarted sid))"

text \<open>A mount of a blob present in the source repository completes at once; otherwise it falls back to a session.\<close>

definition mount_blob :: "upload_store \<Rightarrow> string \<Rightarrow> string \<Rightarrow> string \<Rightarrow> upload_store \<times> upload_result" where
  "mount_blob st repo from_repo dig =
     (case Mapping.lookup (us_blobs st) (from_repo, dig) of
        Some b \<Rightarrow> (st\<lparr>us_blobs := Mapping.update (repo, dig) b (us_blobs st)\<rparr>, BlobCreated dig)
      | None \<Rightarrow> start_upload st repo)"

definition upload_chunk :: "upload_store \<Rightarrow> string \<Rightarrow> nat \<Rightarrow> bytes \<Rightarrow> upload_store \<times> upload_result" where
  "upload_chunk st sid off bs =
     (case Mapping.lookup (us_sessions st) sid of
        None \<Rightarrow> (st, UploadFailed ErrBlobUploadUnknown)
      | Some s \<Rightarrow>
          if off \<noteq> length (ses_data s) then (st, UploadFailed ErrRangeInvalid)
          else (st\<lparr>us_sessions := Mapping.update sid (s\<lparr>ses_data := ses_data s @ bs\<rparr>) (us_sessions st)\<rparr>,
                ChunkAccepted (length (ses_data s) + length bs)))"

definition upload_info :: "upload_store \<Rightarrow> string \<Rightarrow> upload_store \<times> upload_result" where
  "upload_info st sid =
     (st, case Mapping.lookup (us_sessions st) sid of
            None \<Rightarrow> UploadFailed ErrBlobUploadUnknown
          | Some s \<Rightarrow> UploadOffset (length (ses_data s)))"

text \<open>The session ends either way; the blob is committed only when the digests agree.\<close>

definition complete_upload :: "codec \<Rightarrow> upload_store \<Rightarrow> string \<Rightarrow> string \<Rightarrow> bytes \<Rightarrow> upload_store \<times> upload_result" where
  "complete_upload c st sid dig final =
     (case Mapping.lookup (us_sessions st) sid of
        None \<Rightarrow> (st, UploadFailed ErrBlobUploadUnknown)
      | Some s \<Rightarrow>
          let data = ses_data s @ final;
              st' = st\<lparr>us_sessions := Mapping.delete sid (us_sessions st)\<rparr>
          in if content_digest c data \<noteq> dig then (st', UploadFailed ErrDigestInvalid)
             else (st'\<lparr>us_blobs := Mapping.update (ses_repo s, dig) data (us_blobs st)\<rparr>, BlobCreated dig))"

definition upload_monolithic :: "codec \<Rightarrow> upload_store \<Rightarrow> string \<Rightarrow> string \<Rightarrow> bytes \<Rightarrow> upload_store \<times> upload_result" where
  "upload_monolithic c st repo dig bs =
     (if content_digest c bs \<noteq> dig then (st, UploadFailed ErrDigestInvalid)
      else (st\<lparr>us_blobs := Mapping.update (repo, dig) bs (us_blobs st)\<rparr>, BlobCreated dig))"

definition cancel_upload :: "upload_store \<Rightarrow> string \<Rightarrow> upload_store \<times> upload_result" where
  "cancel_upload st sid =
     (case Mapping.lookup (us_sessions st) sid of
        None \<Rightarrow> (st, UploadFailed ErrBlobUploadUnknown)
      | Some s \<Rightarrow> (st\<lparr>us_sessions := Mapping.delete sid (us_sessions st)\<rparr>, SessionCancelled))"

subsection \<open>The state machine\<close>

datatype upload_op =
    OpStart string
  | OpMount string string string
  | OpChunk string nat bytes
  | OpInfo string
  | OpComplete string string bytes
  | OpMonolithic string string bytes
  | OpCancel string

fun upload_step :: "codec \<Rightarrow> upload_store \<Rightarrow> upload_op \<Rightarrow> upload_store \<times> upload_result" where
  "upload_step c st (OpStart repo) = start_upload st repo"
| "upload_step c st (OpMount repo from_repo dig) = mount_blob st repo from_repo dig"
| "upload_step c st (OpChunk sid off bs) = upload_chunk st sid off bs"
| "upload_step c st (OpInfo sid) = upload_info st sid"
| "upload_step c st (OpComplete sid dig final) = complete_upload c st sid dig final"
| "upload_step c st (OpMonolithic repo dig bs) = upload_monolithic c st repo dig bs"
| "upload_step c st (OpCancel sid) = cancel_upload st sid"

text \<open>A sequence of operations under the registry lock, in order, with the result of each.\<close>

fun upload_run :: "codec \<Rightarrow> upload_store \<Rightarrow> upload_op list \<Rightarrow> upload_store \<times> upload_result list" where
  "upload_run c st [] = (st, [])"
| "upload_run c st (op # ops) =
     (let (st1, r) = upload_step c st op; (st2, rs) = upload_run c st1 ops in (st2, r # rs))"

inductive upload_reachable :: "codec \<Rightarrow> upload_store \<Rightarrow> bool" for c where
  init: "upload_reachable c empty_uploads"
| step: "upload_reachable c st \<Longrightarrow> upload_reachable c (fst (upload_step c st op))"

text \<open>The chunks a client sends in order, each at the offset where the previous one ended.\<close>

fun chunk_ops :: "string \<Rightarrow> nat \<Rightarrow> bytes list \<Rightarrow> upload_op list" where
  "chunk_ops sid off [] = []"
| "chunk_ops sid off (b # bs) = OpChunk sid off b # chunk_ops sid (off + length b) bs"

subsection \<open>Invariants\<close>

text \<open>Every stored blob is keyed by its own digest; every session ID was issued by the counter.\<close>

definition blobs_ok :: "codec \<Rightarrow> upload_store \<Rightarrow> bool" where
  "blobs_ok c st \<longleftrightarrow>
     (\<forall>k \<in> Mapping.keys (us_blobs st). content_digest c (the (Mapping.lookup (us_blobs st) k)) = snd k)"

definition sessions_issued :: "upload_store \<Rightarrow> bool" where
  "sessions_issued st \<longleftrightarrow> (\<forall>sid \<in> Mapping.keys (us_sessions st). \<exists>n < us_next st. sid = nat_to_dec n)"

subsection \<open>Example store\<close>

text \<open>The store after one session was started for \<open>library/ubuntu\<close>.\<close>

definition started_store :: upload_store where
  "started_store = fst (start_upload empty_uploads ''library/ubuntu'')"

subsection \<open>Invariants of the reachable stores\<close>

lemma fresh_session_id:
  "sessions_issued st \<Longrightarrow> Mapping.lookup (us_sessions st) (nat_to_dec (us_next st)) = None"
  unfolding sessions_issued_def
  by (metis mapping_in_keys_iff nat_to_dec_inj less_irrefl)

lemma blobs_ok_update:
  "blobs_ok c st \<Longrightarrow> content_digest c b = dig \<Longrightarrow> blobs_ok c (st\<lparr>us_blobs := Mapping.update (repo, dig) b (us_blobs st)\<rparr>)"
  by (auto simp: blobs_ok_def lookup_update')

lemma blobs_ok_sessions [simp]:
  "blobs_ok c (st\<lparr>us_sessions := S\<rparr>) = blobs_ok c st" "blobs_ok c (st\<lparr>us_sessions := S, us_next := n\<rparr>) = blobs_ok c st"
  "blobs_ok c (st\<lparr>us_sessions := S, us_blobs := B\<rparr>) = blobs_ok c (st\<lparr>us_blobs := B\<rparr>)"
  by (simp_all add: blobs_ok_def)

lemma blobs_ok_step: "blobs_ok c st \<Longrightarrow> blobs_ok c (fst (upload_step c st op))"
proof (cases op)
  case (OpMount repo from_repo dig)
  assume ok: "blobs_ok c st"
  show ?thesis
  proof (cases "Mapping.lookup (us_blobs st) (from_repo, dig)")
    case (Some b)
    then have "(from_repo, dig) \<in> Mapping.keys (us_blobs st)" by (simp add: mapping_in_keys_iff)
    with ok Some have "content_digest c b = dig" unfolding blobs_ok_def by force
    with ok Some OpMount show ?thesis by (simp add: mount_blob_def blobs_ok_update)
  qed (use ok OpMount in \<open>simp add: mount_blob_def start_upload_def Let_def\<close>)
qed (auto simp: start_upload_def upload_chunk_def upload_info_def complete_upload_def upload_monolithic_def
       cancel_upload_def Let_def blobs_ok_update split: option.split)

lemma sessions_issued_start:
  assumes "sessions_issued st" shows "sessions_issued (fst (start_upload st repo))"
  unfolding sessions_issued_def
proof
  fix sid assume "sid \<in> Mapping.keys (us_sessions (fst (start_upload st repo)))"
  then have "sid = nat_to_dec (us_next st) \<or> sid \<in> Mapping.keys (us_sessions st)"
    by (simp add: start_upload_def Let_def)
  then show "\<exists>n < us_next (fst (start_upload st repo)). sid = nat_to_dec n"
    using assms unfolding sessions_issued_def start_upload_def Let_def
    by (auto intro: less_SucI)
qed

lemma sessions_issued_blobs [simp]: "sessions_issued (st\<lparr>us_blobs := B\<rparr>) = sessions_issued st"
  by (simp add: sessions_issued_def)

lemma sessions_issued_keys:
  "sessions_issued st \<Longrightarrow> Mapping.keys S \<subseteq> Mapping.keys (us_sessions st) \<Longrightarrow> sessions_issued (st\<lparr>us_sessions := S\<rparr>)"
  by (auto simp: sessions_issued_def)

lemma sessions_issued_step: "sessions_issued st \<Longrightarrow> sessions_issued (fst (upload_step c st op))"
proof (cases op)
  case (OpMount repo from_repo dig)
  then show "sessions_issued st \<Longrightarrow> ?thesis"
    by (auto simp: mount_blob_def sessions_issued_start split: option.split)
next
  case (OpChunk sid off bs)
  then show "sessions_issued st \<Longrightarrow> ?thesis"
    by (auto simp: upload_chunk_def mapping_in_keys_iff intro!: sessions_issued_keys split: option.split)
qed (auto simp: sessions_issued_start upload_info_def complete_upload_def upload_monolithic_def cancel_upload_def
       Let_def intro!: sessions_issued_keys split: option.split)

text \<open>
  C34: in every store reachable from the empty one by any sequence of upload operations, every blob is keyed by its own digest (digest integrity: a mismatching upload or mount never stores content under a wrong digest), and every open session has an ID issued by the counter, so a new session never takes over an open one.
\<close>

theorem upload_invariants: "upload_reachable c st \<Longrightarrow> blobs_ok c st \<and> sessions_issued st"
proof (induction rule: upload_reachable.induct)
  case init
  then show ?case by (simp add: blobs_ok_def sessions_issued_def empty_uploads_def)
next
  case (step st op)
  then show ?case by (simp add: blobs_ok_step sessions_issued_step)
qed

subsection \<open>Sequences of operations\<close>

lemma upload_run_append:
  "upload_run c st (xs @ ys) =
     (let (st1, rs1) = upload_run c st xs; (st2, rs2) = upload_run c st1 ys in (st2, rs1 @ rs2))"
  by (induction xs arbitrary: st) (auto split: prod.split)

lemma upload_run_chunk_ops:
  assumes "Mapping.lookup (us_sessions st) sid = Some s" and "off = length (ses_data s)"
  shows "fst (upload_run c st (chunk_ops sid off bs)) =
           st\<lparr>us_sessions := Mapping.update sid (s\<lparr>ses_data := ses_data s @ concat bs\<rparr>) (us_sessions st)\<rparr>"
  using assms
proof (induction bs arbitrary: st s off)
  case Nil
  then show ?case by (simp add: mapping_update_same)
next
  case (Cons b bs)
  let ?st1 = "st\<lparr>us_sessions := Mapping.update sid (s\<lparr>ses_data := ses_data s @ b\<rparr>) (us_sessions st)\<rparr>"
  have step: "upload_chunk st sid off b = (?st1, ChunkAccepted (length (ses_data s) + length b))"
    using Cons.prems by (simp add: upload_chunk_def)
  have "fst (upload_run c ?st1 (chunk_ops sid (off + length b) bs)) =
          ?st1\<lparr>us_sessions := Mapping.update sid (s\<lparr>ses_data := (ses_data s @ b) @ concat bs\<rparr>) (us_sessions ?st1)\<rparr>"
    using Cons.IH [of ?st1 "s\<lparr>ses_data := ses_data s @ b\<rparr>" "off + length b"] Cons.prems by simp
  then show ?case using step by (simp add: split_def mapping_update_update)
qed

text \<open>
  Upload offsets must be contiguous: a chunk sent again at the offset it was first accepted at (an overlapping chunk, as a client retrying after a dropped connection would send) is rejected with a range error, and the session keeps the bytes of the first copy only.
\<close>

theorem chunk_replay_rejected:
  assumes "Mapping.lookup (us_sessions st) sid = Some s" and "bs \<noteq> []"
  shows "upload_run c st [OpChunk sid (length (ses_data s)) bs, OpChunk sid (length (ses_data s)) bs] =
           (fst (upload_chunk st sid (length (ses_data s)) bs),
            [ChunkAccepted (length (ses_data s) + length bs), UploadFailed ErrRangeInvalid])"
  using assms by (simp add: upload_chunk_def lookup_update')

text \<open>
  C35: a chunked upload (start, chunks at contiguous offsets, completion with an asserted digest) has the effect of a monolithic upload of the concatenated chunks: the same blob store, the same final result (the blob created under its digest, or a digest error with nothing stored), no session left open; only the session counter has advanced.
\<close>

theorem chunked_upload_refines_monolithic:
  assumes "sessions_issued st"
  defines "sid \<equiv> nat_to_dec (us_next st)"
  shows "fst (upload_run c st (OpStart repo # chunk_ops sid 0 chunks @ [OpComplete sid dig []]))
           = (fst (upload_monolithic c st repo dig (concat chunks)))\<lparr>us_next := Suc (us_next st)\<rparr>
         \<and> last (snd (upload_run c st (OpStart repo # chunk_ops sid 0 chunks @ [OpComplete sid dig []])))
           = snd (upload_monolithic c st repo dig (concat chunks))"
proof -
  have fresh: "Mapping.lookup (us_sessions st) sid = None"
    using fresh_session_id [OF assms(1)] unfolding sid_def .
  define st1 where "st1 = fst (start_upload st repo)"
  have st1: "st1 = st\<lparr>us_sessions := Mapping.update sid \<lparr>ses_repo = repo, ses_data = []\<rparr> (us_sessions st),
                     us_next := Suc (us_next st)\<rparr>"
    by (simp add: st1_def start_upload_def sid_def Let_def)
  have look1: "Mapping.lookup (us_sessions st1) sid = Some \<lparr>ses_repo = repo, ses_data = []\<rparr>"
    by (simp add: st1 lookup_update')
  define st2 where "st2 = fst (upload_run c st1 (chunk_ops sid 0 chunks))"
  have st2: "st2 = st1\<lparr>us_sessions := Mapping.update sid \<lparr>ses_repo = repo, ses_data = concat chunks\<rparr> (us_sessions st1)\<rparr>"
    using upload_run_chunk_ops [OF look1, of 0 c chunks] by (simp add: st2_def)
  have del: "Mapping.delete sid (Mapping.update sid \<lparr>ses_repo = repo, ses_data = concat chunks\<rparr> (us_sessions st1))
               = us_sessions st"
    using fresh by (simp add: st1 mapping_update_update mapping_delete_update_fresh)
  have run: "upload_run c st (OpStart repo # chunk_ops sid 0 chunks @ [OpComplete sid dig []])
               = (fst (complete_upload c st2 sid dig []),
                  SessionStarted sid # snd (upload_run c st1 (chunk_ops sid 0 chunks)) @ [snd (complete_upload c st2 sid dig [])])"
    by (simp add: upload_run_append st1_def st2_def start_upload_def sid_def Let_def split: prod.split)
  show ?thesis
    unfolding run using del
    by (simp add: complete_upload_def upload_monolithic_def st2 st1 lookup_update' Let_def)
qed

lemma started_store_session:
  "Mapping.lookup (us_sessions started_store) ''0'' = Some \<lparr>ses_repo = ''library/ubuntu'', ses_data = []\<rparr>"
  by (simp add: started_store_def start_upload_def empty_uploads_def nat_to_dec_zero Let_def lookup_update')

theorem upload_invariants_witness:
  "blobs_ok demo_codec started_store \<and> sessions_issued started_store"
proof -
  have "upload_reachable demo_codec (fst (upload_step demo_codec empty_uploads (OpStart ''library/ubuntu'')))"
    by (rule upload_reachable.step [OF upload_reachable.init])
  from upload_invariants [OF this] show ?thesis by (simp add: started_store_def)
qed

theorem chunk_replay_rejected_witness:
  "upload_run demo_codec started_store [OpChunk ''0'' 0 [7], OpChunk ''0'' 0 [7]] =
     (fst (upload_chunk started_store ''0'' 0 [7]), [ChunkAccepted 1, UploadFailed ErrRangeInvalid])"
  using chunk_replay_rejected [OF started_store_session, of "[7]" demo_codec] by simp

theorem chunked_upload_refines_monolithic_witness:
  "fst (upload_run demo_codec empty_uploads
          (OpStart ''r'' # chunk_ops ''0'' 0 [replicate 100 0, replicate 150 0]
           @ [OpComplete ''0'' (content_digest demo_codec (replicate 250 0)) []]))
     = \<lparr>us_sessions = Mapping.empty, us_blobs = Mapping.update (''r'', content_digest demo_codec (replicate 250 0))
                                          (replicate 100 0 @ replicate 150 0) Mapping.empty, us_next = 1\<rparr>
   \<and> last (snd (upload_run demo_codec empty_uploads
          (OpStart ''r'' # chunk_ops ''0'' 0 [replicate 100 0, replicate 150 0]
           @ [OpComplete ''0'' (content_digest demo_codec (replicate 250 0)) []])))
     = BlobCreated (content_digest demo_codec (replicate 250 0))
   \<and> fst (upload_run demo_codec empty_uploads
          (OpStart ''r'' # chunk_ops ''0'' 0 [replicate 100 0, replicate 150 0] @ [OpComplete ''0'' ''sha256:0'' []]))
     = \<lparr>us_sessions = Mapping.empty, us_blobs = Mapping.empty, us_next = 1\<rparr>"
proof -
  have si: "sessions_issued empty_uploads" by (simp add: sessions_issued_def empty_uploads_def)
  have r: "replicate 100 (0 :: 8 word) @ replicate 150 0 = replicate 250 0" by (simp add: replicate_add [symmetric])
  have "length (content_digest demo_codec (replicate 250 0)) = 71"
    by (simp add: content_digest_prefix demo_codec_def)
  then have ne: "content_digest demo_codec (replicate 250 0) \<noteq> ''sha256:0''" by auto
  from chunked_upload_refines_monolithic [OF si, where c = demo_codec and repo = "''r''"
         and chunks = "[replicate 100 0, replicate 150 0]" and dig = "content_digest demo_codec (replicate 250 0)"]
       chunked_upload_refines_monolithic [OF si, where c = demo_codec and repo = "''r''"
         and chunks = "[replicate 100 0, replicate 150 0]" and dig = "''sha256:0''"]
  show ?thesis using ne
    by (simp add: upload_monolithic_def empty_uploads_def nat_to_dec_zero r)
qed

end
