(* ===== verification/Spec2Isabelle.thy ===== *)
theory Spec2Isabelle
  imports Listing Ocimem Dispatcher Reader Upload
begin

text \<open>
  \<^bold>\<open>A verification development of the in-memory OCI registry.\<close>

  \<^bold>\<open>The program.\<close> The repository is a container-image registry after the OCI
  Distribution Specification. Its sources under \<^verbatim>\<open>src/\<close> are four Go files:
  \<^item> \<^verbatim>\<open>src/manifest.go\<close>: the test registry's manifest side: the \<open>manifests\<close>
    store (repository name to a map from tag or digest to manifest, behind one mutex),
    the request classifiers \<open>isManifest\<close>, \<open>isTags\<close>, \<open>isCatalog\<close>,
    \<open>isReferrers\<close>, and the handlers \<open>handle\<close> (GET, HEAD, PUT with index
    validation, DELETE), \<open>handleTags\<close>, \<open>handleCatalog\<close>, \<open>handleReferrers\<close>;
  \<^item> \<^verbatim>\<open>src/ocimem/registry.go\<close>: the in-memory backend's repository table
    (\<open>New\<close>, \<open>repo\<close>, \<open>makeRepo\<close>), the repository-name and tag expressions, and
    \<open>CheckDescriptor\<close>;
  \<^item> \<^verbatim>\<open>src/ociserver/registry.go\<close>: the protocol dispatcher: \<open>New\<close> with its
    \<open>int32\<close> debug counter, the handler table indexed by request kind, \<open>v2\<close>,
    \<open>ServeHTTP\<close>, the ping handler and the mapping of request-parse errors to statuses;
  \<^item> \<^verbatim>\<open>src/ociregistry/ociclient/reader.go\<close>: the client's read calls, among them
    \<open>GetBlobRange\<close> with the \<open>Range\<close> header built from two \<open>int64\<close> offsets.
  A client builds a request from a path template; the server classifies the path, routes
  it to one handler, which reads and updates the store under the lock and answers with a
  response or an error; the client turns the answer into a descriptor and a body.

  \<^bold>\<open>Library layout.\<close>
  \<^item> \<open>Prelude\<close>: the Go library functions the code calls (\<open>strings.Split\<close>,
    \<open>Join\<close>, \<open>Contains\<close>, decimal printing, \<open>strconv.Atoi\<close>, \<open>%q\<close>,
    \<open>url.Values.Get\<close>) as executable functions with their round trips, lemmas on
    \<open>Mapping\<close>, and \<open>int32\<close>/\<open>int64\<close> as machine words with the facts on
    \<open>sint\<close> the components share.
  \<^item> \<open>Digest\<close>: the digest syntax of the \<open>hasher\<close> package (outside the sources,
    modelled from the specification); parse and print are inverse.
  \<^item> \<open>Http\<close>: requests, responses, \<open>regError\<close>, descriptors, the JSON documents,
    and the record \<open>codec\<close> of the libraries the handlers only call (SHA-256, JSON).
    Theorems hold for every \<open>codec\<close>, or for every one satisfying \<open>wf_codec\<close>
    (the hash is 64 lower-case hex digits); \<open>demo_codec\<close> serves the witnesses.
  \<^item> \<open>Routes\<close>: classifiers and path slicing of \<^verbatim>\<open>manifest.go\<close> and the round
    trip from a client path to the repository and reference the handler sees.
  \<^item> \<open>ManifestStore\<close>: the store and \<open>handle\<close>: dual addressing, single-key
    deletion, the error branches, index validation, idempotent re-put, the digest-key
    invariant and the PUT under a wrong digest that breaks it.
  \<^item> \<open>Listing\<close>: \<open>handleTags\<close> (\<open>last\<close> then \<open>n\<close>; a cursor past every tag keeps
    the whole list, a negative \<open>n\<close> below the list length panics), \<open>handleCatalog\<close>, \<open>handleReferrers\<close>. Go's
    map iteration order is a parameter; the theorems hold for every order, or show where
    the result depends on it.
  \<^item> \<open>Ocimem\<close>: the repository table and \<open>makeRepo\<close> (names stay valid, lookup
    after creation, errors), the repository-name expression as a grammar and as a
    three-state automaton proved equal, tags that can never parse as digests, and
    \<open>CheckDescriptor\<close>. Go's nil maps are \<open>None\<close>: the sentinel \<open>noRepo\<close> has nil
    maps, a repository that \<open>makeRepo\<close> allocates has made (empty) ones.
  \<^item> \<open>Dispatcher\<close>: the handler table (total and injective, so \<open>v2\<close> never calls a
    nil handler), ping, the parse-error statuses, and \<open>New\<close>: server names in order,
    the \<open>int32\<close> wrap-around, the Options written back to the caller.
  \<^item> \<open>Reader\<close>: the read calls over a transport of the \<open>client\<close> record; the
    \<open>Range\<close> header round trip, the 416 failure of \<open>GetBlobRange\<close> on empty and
    negative ranges against a server honouring ranges, the refinement of \<open>GetBlobRange\<close> by the abstract slice \<open>blob_slice\<close>
    against a server honouring ranges, and the whole blob returned by a server that
    ignores them.
  \<^item> \<open>Upload\<close>: the upload session manager of the specification (its code is outside
    the sources): one function per operation, a step function over an operation
    datatype, runs of operations, the reachable stores as an inductive predicate with
    digest integrity and issued session IDs as invariants, and chunked upload refining
    monolithic upload.
  \<^item> This theory: the client of \<open>Reader\<close> talking to the server of
    \<open>ManifestStore\<close> through \<open>manifest_server\<close>, so that a tag read returns what
    is stored and a PUT followed by a read by the returned digest returns the content.

  \<^bold>\<open>State and effects.\<close> The store's mutex serialises every handler call, so a
  call is one atomic transformation of the state: handlers take the state and return the
  new state with their result, and a sequence of requests is a list of operations
  applied in order (\<open>upload_run\<close>). Go maps are \<open>Mapping\<close>s (executable through
  \<open>AList_Mapping\<close>); a nil map reads as empty. A Go panic is a value (\<open>Panicked\<close>,
  or \<open>None\<close> for a nil handler call). Errors are values of result types.

  \<^bold>\<open>Bounds and fuel.\<close> No definition needs fuel: every loop of the sources is a
  structural recursion over a finite list (the tag cursor, the catalog loop, the
  referrers scan, the index validation, the name automaton). Integers are kept at their
  width where the code's arithmetic can overflow: the debug counter is an \<open>int32\<close>
  word (it wraps), the range offsets are \<open>int64\<close> words (\<open>o1-1\<close> is shown not to
  wrap when \<open>o1 > 0\<close>); sizes and lengths read back with \<open>strconv\<close> are bounded by
  \<open>int64\<close>, which the theorems assume of blob lengths.

  \<^bold>\<open>Not modelled.\<close> Transport and TLS, logging and debug output, the blob side of
  the test registry and the backend's Interface methods (not among the sources), JSON
  parsing itself and SHA-256 (abstracted in \<open>codec\<close>), the exact text of error
  messages that embed a library error, strings outside ASCII in \<open>%q\<close>, and closing
  response bodies on error in the client.
\<close>

subsection \<open>The client against the test registry\<close>

text \<open>
  A transport that serves the client's requests with \<open>manifests.handle\<close>: the request
  line becomes the handler's request, a response or an error becomes the wire answer, a
  panic drops the connection.
\<close>

definition server_request :: "out_request \<Rightarrow> http_request" where
  "server_request out =
     \<lparr>req_method = out_method out, req_path = out_url out, req_query = [], req_content_type = [], req_body = []\<rparr>"

definition body_bytes :: "codec \<Rightarrow> body \<Rightarrow> bytes" where
  "body_bytes c b = (case b of NoBody \<Rightarrow> [] | RawBody bs \<Rightarrow> bs | JsonBody v \<Rightarrow> json_marshal c v)"

definition manifest_server :: "codec \<Rightarrow> manifests \<Rightarrow> client" where
  "manifest_server c m =
     \<lparr>cl_transport = (\<lambda>out.
        case snd (manifests_handle c m (server_request out)) of
          Done resp \<Rightarrow> Inr \<lparr>in_status = resp_status resp, in_headers = resp_headers resp,
                            in_body = body_bytes c (resp_body resp)\<rparr>
        | Failed e \<Rightarrow> Inr \<lparr>in_status = err_status e, in_headers = [], in_body = []\<rparr>
        | Panicked \<Rightarrow> Inl ''connection reset'')\<rparr>"

text \<open>The descriptor a client should see for a stored manifest.\<close>

definition manifest_descriptor :: "codec \<Rightarrow> manifest \<Rightarrow> descriptor" where
  "manifest_descriptor c mf =
     \<lparr>d_media_type = (if mf_content_type mf = [] then ''application/octet-stream'' else mf_content_type mf),
      d_size = int (length (mf_blob mf)), d_digest = content_digest c (mf_blob mf), d_artifact_type = []\<rparr>"

lemma handle_get_manifest_path:
  "CHR ''/'' \<notin> set ref \<Longrightarrow>
   manifests_handle c m \<lparr>req_method = ''GET'', req_path = manifest_path repo ref, req_query = q,
                         req_content_type = ct, req_body = b\<rparr> = (m, manifest_get c m repo ref True)"
  using template_length [of repo "''manifests''" ref]
  by (simp add: manifests_handle_def template_path_elems path_repo_template path_target_template Let_def)

lemma content_digest_no_slash: "wf_codec c \<Longrightarrow> CHR ''/'' \<notin> set (content_digest c b)"
proof
  assume wf: "wf_codec c" and s: "CHR ''/'' \<in> set (content_digest c b)"
  have "list_all (\<lambda>ch. ch \<in> set hex_lower) (sha256_hex c b)"
    using wf by (simp add: wf_codec_def is_hex_lower_def)
  moreover have "CHR ''/'' \<notin> set hex_lower" by (simp add: hex_lower_def)
  ultimately show False using s by (auto simp: content_digest_prefix list_all_iff)
qed

lemma content_digest_not_Nil [simp]: "content_digest c b \<noteq> []"
  by (simp add: content_digest_prefix)

lemma read_manifest_from_server:
  assumes wf: "wf_codec c" and look: "lookup_manifest m repo ref = Some mf"
    and ref: "CHR ''/'' \<notin> set ref" and fits: "int (length (mf_blob mf)) \<le> int64_max"
    and kind: "rq_kind rreq = ReqManifestGet" and rr: "rq_repo rreq = repo"
    and tr: "(if rq_tag rreq \<noteq> [] then rq_tag rreq else rq_digest rreq) = ref"
  shows "read (manifest_server c m) rreq = Inr \<lparr>br_body = mf_blob mf, br_desc = manifest_descriptor c mf\<rparr>"
proof -
  have get: "manifest_get c m repo ref True = Done (manifest_response c mf True)"
    using look by (simp add: manifest_get_eq lookup_manifest_def split: option.splits)
  have c: "construct rreq = (''GET'', manifest_path repo ref)"
    using kind rr tr by (simp add: construct_def Let_def)
  have t: "cl_transport (manifest_server c m) \<lparr>out_method = ''GET'', out_url = manifest_path repo ref, out_headers = []\<rparr>
             = Inr \<lparr>in_status = 200, in_headers = resp_headers (manifest_response c mf True), in_body = mf_blob mf\<rparr>"
    using ref get by (simp add: manifest_server_def server_request_def handle_get_manifest_path
        manifest_response_def body_bytes_def)
  have len: "go_atoi (nat_to_dec (length (mf_blob mf))) = (int (length (mf_blob mf)), None)"
    using fits by (rule go_atoi_nat_int64)
  have h: "new_hash (content_digest c (mf_blob mf)) \<noteq> None"
    using content_digest_parses [OF wf] by simp
  show ?thesis
    using c t len h
    by (simp add: read_def do_request_def client_do_def reader_of_def descriptor_from_response_def
        resp_header_def manifest_response_def manifest_descriptor_def Let_def)
qed

text \<open>
  C36: a client's \<open>GetTag\<close> against the test registry returns the manifest stored under that tag, with a descriptor of its media type, size and digest (for a hash library producing well-formed digests and a tag without a slash).
\<close>

theorem client_get_tag_returns_stored:
  assumes "wf_codec c" and "lookup_manifest m repo tag = Some mf"
    and "CHR ''/'' \<notin> set tag" and "tag \<noteq> []" and "int (length (mf_blob mf)) \<le> int64_max"
  shows "get_tag (manifest_server c m) repo tag = Inr \<lparr>br_body = mf_blob mf, br_desc = manifest_descriptor c mf\<rparr>"
  unfolding get_tag_def using assms by (intro read_manifest_from_server) simp_all

text \<open>
  C37: digest integrity across client and server: after a PUT of content C is accepted, the client's \<open>GetManifest\<close> by the digest of C returns C and its descriptor.
\<close>

theorem put_then_get_by_digest:
  assumes wf: "wf_codec c"
    and put: "manifests_handle c m (put_request repo ref ct body) = (m', Done resp)"
    and ref: "CHR ''/'' \<notin> set ref" and fits: "int (length body) \<le> int64_max"
  shows "get_manifest (manifest_server c m') repo (content_digest c body)
           = Inr \<lparr>br_body = body, br_desc = manifest_descriptor c \<lparr>mf_content_type = ct, mf_blob = body\<rparr>\<rparr>"
proof -
  let ?mf = "\<lparr>mf_content_type = ct, mf_blob = body\<rparr>"
  have h: "manifests_handle c m (put_request repo ref ct body) = manifest_put c m repo ref (put_request repo ref ct body)"
    using ref template_length [of repo "''manifests''" ref]
    by (simp add: manifests_handle_def put_request_def template_path_elems path_repo_template
        path_target_template Let_def)
  have v: "validate_manifest c (repo_or_empty (mstore m) repo) ?mf = None"
    using put h by (cases "validate_manifest c (repo_or_empty (mstore m) repo) ?mf")
      (auto simp: manifest_put_Failed put_request_def)
  then have "m' = m\<lparr>mstore := Mapping.update repo
                 (Mapping.update (content_digest c body) ?mf (Mapping.update ref ?mf (repo_or_empty (mstore m) repo)))
                 (mstore m)\<rparr>"
    using put h manifest_put_Done [of c m repo "put_request repo ref ct body" ref]
    by (simp add: put_request_def)
  then have look: "lookup_manifest m' repo (content_digest c body) = Some ?mf"
    by (simp add: lookup_manifest_update lookup_update')
  show ?thesis unfolding get_manifest_def
    using read_manifest_from_server [OF wf look content_digest_no_slash [OF wf]] fits by simp
qed

theorem client_get_tag_returns_stored_witness:
  "get_tag (manifest_server demo_codec demo_store) ''r'' ''v1''
     = Inr \<lparr>br_body = [7], br_desc = manifest_descriptor demo_codec demo_mf\<rparr>"
proof -
  have "lookup_manifest demo_store ''r'' ''v1'' = Some demo_mf"
    by (simp add: lookup_manifest_def demo_store_def lookup_update')
  from client_get_tag_returns_stored [OF wf_demo_codec this] show ?thesis
    by (simp add: demo_mf_def int64_max_def)
qed

theorem put_then_get_by_digest_witness:
  "get_manifest (manifest_server demo_codec demo_store) ''r'' (content_digest demo_codec [7])
     = Inr \<lparr>br_body = [7], br_desc = manifest_descriptor demo_codec demo_mf\<rparr>"
proof -
  have h: "manifests_handle demo_codec empty_manifests (put_request ''r'' ''v1'' oci_manifest_mt [7])
             = (demo_store, Done (created_response (content_digest demo_codec [7])))"
    using demo_put
    by (simp add: manifests_handle_def put_request_def template_path_elems path_repo_def path_target_def Let_def)
  from put_then_get_by_digest [OF wf_demo_codec h] show ?thesis
    by (simp add: demo_mf_def int64_max_def)
qed

end
